theory Spec2Isabelle
  imports Complex_Main "HOL-Library.AList"
begin

section \<open>Data model (src/models)\<close>

text \<open>
  JavaScript numbers are modelled as exact rationals (\<open>rat\<close>): prices, quantities and
  amounts are decimal fractions, and no claim depends on the rounding of IEEE doubles.
  A \<open>Date\<close> is its \<open>getTime()\<close> value, an \<open>int\<close> of milliseconds since the epoch.
  An optional field \<open>f?: T\<close> is a \<open>T option\<close>.
  Record fields are global constants in Isabelle, so a field name that several interfaces
  share carries a prefix: \<open>tr_\<close> (TaxRate), \<open>tb_\<close> (TaxBreakdown), \<open>tc_\<close> (TaxContext),
  \<open>te_\<close> (TaxExemption), \<open>r_\<close> (CheckoutResult), \<open>x_\<close> (ExternalCartContext, ExternalCart).
\<close>

datatype ProductType = DEVICE | ACCESSORY | PLAN | SERVICE

datatype SyncStatus = SYNCED | SYNC_PENDING | SYNC_FAILED

datatype CheckoutStatus = PENDING | IN_PROGRESS | COMPLETED | FAILED

record CartItem =
  productId :: string
  itemName :: string
  itemType :: ProductType
  quantity :: rat
  price :: rat

record TaxRate =
  tr_id :: string
  tr_jurisdiction :: string
  tr_name :: string
  tr_rate :: rat
  tr_applicableProductTypes :: "ProductType list"
  tr_effectiveFrom :: int
  tr_effectiveTo :: "int option"

record TaxBreakdown =
  tb_jurisdiction :: string
  tb_taxName :: string
  tb_rate :: rat
  tb_taxableAmount :: rat
  tb_taxAmount :: rat

text \<open>\<open>CartTotals\<close> and \<open>TaxCalculationResult\<close> have the same four fields.\<close>

record CartTotals =
  subtotal :: rat
  taxes :: "TaxBreakdown list"
  totalTax :: rat
  total :: rat

type_synonym TaxCalculationResult = CartTotals

record TaxContext =
  tc_jurisdiction :: string
  tc_customerId :: "string option"
  tc_calculationDate :: int

datatype ExemptionType = FULL | PARTIAL

record TaxExemption =
  te_customerId :: string
  te_jurisdiction :: string
  te_exemptionType :: ExemptionType
  te_exemptTaxNames :: "string list option"
  te_validFrom :: int
  te_validTo :: "int option"

record CheckoutResult = CartTotals +
  orderId :: "string option"
  r_userId :: string
  status :: CheckoutStatus
  r_items :: "CartItem list"
  completedAt :: "int option"
  error :: "string option"

record Cart =
  cartId :: "int \<times> string"
  userId :: string
  items :: "CartItem list"
  createdAt :: int
  updatedAt :: int
  lastAccessedAt :: int
  externalCartId :: "string option"
  taxContext :: "TaxContext option"
  syncStatus :: SyncStatus
  lastSyncedAt :: "int option"
  lastSyncError :: "string option"
  checkoutStatus :: CheckoutStatus
  checkoutStartedAt :: "int option"
  checkoutCompletedAt :: "int option"
  checkoutResult :: "CheckoutResult option"
  checkoutError :: "string option"

record ExternalCartContext =
  x_contextId :: string
  x_cartId :: string
  x_provider :: string
  x_createdAt :: int
  x_expiresAt :: int
  x_isExpired :: bool

record ExternalCart =
  xc_cartId :: string
  xc_items :: "CartItem list"

subsection \<open>Errors (src/models/errors.ts, error-constants.ts)\<close>

text \<open>
  A thrown value is either an \<open>Error\<close> object, of which the code reads the class name and
  the message, or some other value, for which \<open>error instanceof Error\<close> is false.
\<close>

datatype exn = JsError string string | NonError

definition CART_NOT_FOUND_MSG :: string where
  "CART_NOT_FOUND_MSG = ''Cart not found or already checked out''"

definition ITEM_NOT_FOUND_MSG :: string where
  "ITEM_NOT_FOUND_MSG = ''Item not found in cart''"

definition EMPTY_CART_MSG :: string where
  "EMPTY_CART_MSG = ''Cannot checkout an empty cart''"

definition CART_ALREADY_CHECKED_OUT :: string where
  "CART_ALREADY_CHECKED_OUT = ''Cart already checked out''"

definition CHECKOUT_IN_PROGRESS :: string where
  "CHECKOUT_IN_PROGRESS = ''Checkout already in progress''"

definition PROVIDER_CHECKOUT_FAILED :: string where
  "PROVIDER_CHECKOUT_FAILED = ''Provider checkout failed''"

definition UNKNOWN_ERROR :: string where
  "UNKNOWN_ERROR = ''Unknown error''"

definition CART_SYNC_VALIDATION_FAILED_ITEM_COUNT :: string where
  "CART_SYNC_VALIDATION_FAILED_ITEM_COUNT = ''Cart sync validation failed: item count mismatch''"

definition CART_SYNC_VALIDATION_FAILED_ITEM_MISMATCH :: string where
  "CART_SYNC_VALIDATION_FAILED_ITEM_MISMATCH = ''Cart sync validation failed: item mismatch''"

definition INVALID_ITEM_DATA :: string where
  "INVALID_ITEM_DATA = ''Invalid item data''"

definition QUANTITY_MUST_BE_INTEGER :: string where
  "QUANTITY_MUST_BE_INTEGER = ''Quantity must be an integer >= 1''"

definition DEFAULT_JURISDICTION :: string where
  "DEFAULT_JURISDICTION = ''CA-ON''"

definition ValidationError :: "string \<Rightarrow> exn" where
  "ValidationError msg = JsError ''ValidationError'' msg"

definition CartNotFoundError :: exn where
  "CartNotFoundError = JsError ''CartNotFoundError'' CART_NOT_FOUND_MSG"

definition ItemNotFoundError :: "string \<Rightarrow> exn" where
  "ItemNotFoundError pid = JsError ''ItemNotFoundError'' ITEM_NOT_FOUND_MSG"

definition CheckoutError :: "string \<Rightarrow> exn" where
  "CheckoutError msg = JsError ''CheckoutError'' msg"

definition ExternalProviderContextExpiredError :: "string \<Rightarrow> exn" where
  "ExternalProviderContextExpiredError contextId =
     JsError ''ExternalProviderContextExpiredError''
       (''External provider context expired: '' @ contextId)"

text \<open>\<open>error instanceof Error ? error.message : ErrorMessages.UNKNOWN_ERROR\<close>\<close>

fun errorMessage :: "exn \<Rightarrow> string" where
  "errorMessage (JsError n msg) = msg"
| "errorMessage NonError = UNKNOWN_ERROR"

section \<open>Tax calculation (src/stores/tax-rate-store.ts, canadian-tax-calculator.ts, tax.service.ts)\<close>

text \<open>The rate store is a \<open>Map\<close> from jurisdiction to the list of its rates.\<close>

type_synonym TaxRateStore = "(string \<times> TaxRate list) list"

definition allProductTypes :: "ProductType list" where
  "allProductTypes = [DEVICE, ACCESSORY, PLAN, SERVICE]"

definition mkRate :: "string \<Rightarrow> string \<Rightarrow> string \<Rightarrow> rat \<Rightarrow> ProductType list \<Rightarrow> int \<Rightarrow> TaxRate" where
  "mkRate i j n r ts from =
     \<lparr>tr_id = i, tr_jurisdiction = j, tr_name = n, tr_rate = r,
      tr_applicableProductTypes = ts, tr_effectiveFrom = from, tr_effectiveTo = None\<rparr>"

text \<open>The dates are \<open>new Date('2010-07-01')\<close> and so on: midnight UTC, in milliseconds.\<close>

definition canadianRates :: "TaxRate list" where
  "canadianRates =
    [mkRate ''ca-on-hst'' ''CA-ON'' ''HST'' (13 / 100) allProductTypes 1277942400000,
     mkRate ''ca-bc-gst'' ''CA-BC'' ''GST'' (5 / 100) allProductTypes 1364774400000,
     mkRate ''ca-bc-pst'' ''CA-BC'' ''PST'' (7 / 100) [DEVICE, ACCESSORY] 1364774400000,
     mkRate ''ca-ab-gst'' ''CA-AB'' ''GST'' (5 / 100) allProductTypes 662688000000,
     mkRate ''ca-qc-gst'' ''CA-QC'' ''GST'' (5 / 100) allProductTypes 662688000000,
     mkRate ''ca-qc-qst'' ''CA-QC'' ''QST'' (9975 / 100000) allProductTypes 1356998400000]"

definition usRates :: "TaxRate list" where
  "usRates =
    [mkRate ''us-ca-sales'' ''US-CA'' ''Sales Tax'' (725 / 10000) [DEVICE, ACCESSORY] 1309478400000,
     mkRate ''us-ny-sales'' ''US-NY'' ''Sales Tax'' (4 / 100) [DEVICE, ACCESSORY] 1117584000000,
     mkRate ''us-tx-sales'' ''US-TX'' ''Sales Tax'' (625 / 10000) [DEVICE, ACCESSORY, SERVICE] 631152000000,
     mkRate ''us-or-none'' ''US-OR'' ''No Tax'' 0 allProductTypes (- 2208988800000)]"

definition ratesGet :: "TaxRateStore \<Rightarrow> string \<Rightarrow> TaxRate list" where
  "ratesGet rates j = (case map_of rates j of Some rs \<Rightarrow> rs | None \<Rightarrow> [])"

text \<open>One step of the seeding loop: push the rate onto its jurisdiction's list.\<close>

definition seedRate :: "TaxRateStore \<Rightarrow> TaxRate \<Rightarrow> TaxRateStore" where
  "seedRate rates rate =
     AList.update (tr_jurisdiction rate) (ratesGet rates (tr_jurisdiction rate) @ [rate]) rates"

definition seedInitialRates :: TaxRateStore where
  "seedInitialRates = foldl seedRate [] (canadianRates @ usRates)"

definition getRatesAtDate :: "TaxRateStore \<Rightarrow> string \<Rightarrow> int \<Rightarrow> TaxRate list" where
  "getRatesAtDate rates j date =
     filter (\<lambda>rate.
        let isEffective = (tr_effectiveFrom rate \<le> date);
            notExpired = (case tr_effectiveTo rate of None \<Rightarrow> True | Some t \<Rightarrow> t \<ge> date)
        in isEffective \<and> notExpired) (ratesGet rates j)"

definition calculateSubtotal :: "CartItem list \<Rightarrow> rat" where
  "calculateSubtotal its = foldl (\<lambda>sum item. sum + price item * quantity item) 0 its"

definition calculateTaxableAmount :: "CartItem list \<Rightarrow> TaxRate \<Rightarrow> rat" where
  "calculateTaxableAmount its rate =
     foldl (\<lambda>sum item. sum + price item * quantity item) 0
       (filter (\<lambda>item. itemType item \<in> set (tr_applicableProductTypes rate)) its)"

definition breakdown :: "TaxContext \<Rightarrow> TaxRate \<Rightarrow> rat \<Rightarrow> rat \<Rightarrow> TaxBreakdown" where
  "breakdown context rate taxable amount =
     \<lparr>tb_jurisdiction = tc_jurisdiction context, tb_taxName = tr_name rate,
      tb_rate = tr_rate rate, tb_taxableAmount = taxable, tb_taxAmount = amount\<rparr>"

text \<open>The branch for provinces without HST: GST, then PST, then QST on top of GST.\<close>

definition gstPstQst :: "TaxRate list \<Rightarrow> CartItem list \<Rightarrow> TaxContext \<Rightarrow> TaxBreakdown list" where
  "gstPstQst rates its context =
    (let gstRate = find (\<lambda>r. tr_name r = ''GST'') rates;
         pstRate = find (\<lambda>r. tr_name r = ''PST'') rates;
         qstRate = find (\<lambda>r. tr_name r = ''QST'') rates;
         taxes1 = (case gstRate of None \<Rightarrow> []
                   | Some g \<Rightarrow> (let t = calculateTaxableAmount its g
                                in [breakdown context g t (t * tr_rate g)]));
         taxes2 = (case pstRate of None \<Rightarrow> taxes1
                   | Some p \<Rightarrow> (let t = calculateTaxableAmount its p
                                in taxes1 @ [breakdown context p t (t * tr_rate p)]))
     in (case qstRate of None \<Rightarrow> taxes2
         | Some q \<Rightarrow>
            (let qstTaxableAmount = calculateTaxableAmount its q;
                 gstTax = find (\<lambda>t. tb_taxName t = ''GST'') taxes2;
                 qstBase = qstTaxableAmount + (case gstTax of None \<Rightarrow> 0 | Some t \<Rightarrow> tb_taxAmount t)
             in taxes2 @ [breakdown context q qstBase (qstBase * tr_rate q)])))"

definition CanadianTaxCalculator_calculate ::
  "TaxRateStore \<Rightarrow> CartItem list \<Rightarrow> TaxContext \<Rightarrow> TaxCalculationResult" where
  "CanadianTaxCalculator_calculate store its context =
    (let rates = getRatesAtDate store (tc_jurisdiction context) (tc_calculationDate context)
     in if length rates = 0
        then (let sub = calculateSubtotal its
              in \<lparr>subtotal = sub, taxes = [], totalTax = 0, total = sub\<rparr>)
        else
          (let sub = calculateSubtotal its;
               txs = (case find (\<lambda>r. tr_name r = ''HST'') rates of
                        Some hstRate \<Rightarrow>
                          (let taxableAmount = calculateTaxableAmount its hstRate
                           in [breakdown context hstRate taxableAmount (taxableAmount * tr_rate hstRate)])
                      | None \<Rightarrow> gstPstQst rates its context);
               tt = foldl (\<lambda>sum t. sum + tb_taxAmount t) 0 txs
           in \<lparr>subtotal = sub, taxes = txs, totalTax = tt, total = sub + tt\<rparr>))"

text \<open>
  \<open>TaxService\<close>: the exemptions of each customer and the rate store; a calculator exists for
  each of the listed provinces. \<open>now\<close> is the \<open>new Date()\<close> that \<open>isExempt\<close> reads.
\<close>

record TaxService =
  exemptions :: "(string \<times> TaxExemption list) list"
  taxRateStore :: TaxRateStore

definition canadianProvinces :: "string list" where
  "canadianProvinces = [''CA-ON'', ''CA-BC'', ''CA-AB'', ''CA-QC'', ''CA-NS'', ''CA-NB'', ''CA-MB'',
     ''CA-SK'', ''CA-PE'', ''CA-NL'', ''CA-YT'', ''CA-NT'', ''CA-NU'']"

definition isExempt :: "TaxService \<Rightarrow> int \<Rightarrow> string \<Rightarrow> string \<Rightarrow> bool" where
  "isExempt ts now customerId j =
     list_ex (\<lambda>exemption.
        let matchesJurisdiction = (te_jurisdiction exemption = j);
            isActive = (te_validFrom exemption \<le> now \<and>
                        (case te_validTo exemption of None \<Rightarrow> True | Some t \<Rightarrow> t \<ge> now));
            isFullExemption = (te_exemptionType exemption = FULL)
        in matchesJurisdiction \<and> isActive \<and> isFullExemption)
       (case map_of (exemptions ts) customerId of Some es \<Rightarrow> es | None \<Rightarrow> [])"

definition noTax :: "CartItem list \<Rightarrow> TaxCalculationResult" where
  "noTax its = (let sub = calculateSubtotal its
                in \<lparr>subtotal = sub, taxes = [], totalTax = 0, total = sub\<rparr>)"

text \<open>\<open>if (context.customerId)\<close> is false for an absent and for an empty customer id.\<close>

definition TaxService_calculateTax ::
  "TaxService \<Rightarrow> int \<Rightarrow> CartItem list \<Rightarrow> TaxContext \<Rightarrow> TaxCalculationResult" where
  "TaxService_calculateTax ts now its context =
    (if (case tc_customerId context of None \<Rightarrow> False
         | Some c \<Rightarrow> c \<noteq> [] \<and> isExempt ts now c (tc_jurisdiction context))
     then noTax its
     else if tc_jurisdiction context \<notin> set canadianProvinces
     then noTax its
     else CanadianTaxCalculator_calculate (taxRateStore ts) its context)"

definition newTaxService :: TaxService where
  "newTaxService = \<lparr>exemptions = [], taxRateStore = seedInitialRates\<rparr>"

text \<open>
  \<open>roundToTwoDecimals\<close> of cart-calculations.ts, \<open>Math.round(value * 100) / 100\<close>, where
  \<open>Math.round\<close> rounds half up. On exact rationals: an IEEE double can lie just below a half
  that the decimal fraction reaches (\<open>1.005 * 100\<close> is \<open>100.49999999999999\<close>, which rounds to
  \<open>1\<close>, where \<open>roundToTwoDecimals (201 / 200)\<close> is \<open>101 / 100\<close>), so the two differ at such
  values. The amounts of the tax scenario are not near a half of a cent.
\<close>

definition roundToTwoDecimals :: "rat \<Rightarrow> rat" where
  "roundToTwoDecimals v = of_int \<lfloor>v * 100 + 1 / 2\<rfloor> / 100"

section \<open>Asynchronous code\<close>

text \<open>
  An \<open>async\<close> function, and the promise it returns, is modelled by what it computes from
  the state it starts in: the state it leaves and either the value it fulfils with
  (\<open>Inr\<close>) or the value it rejects with (\<open>Inl\<close>). \<open>await\<close> and \<open>.then(f)\<close> with one argument
  are \<open>Promise_then\<close>: the continuation runs only if the promise fulfils, a rejection is
  passed on. \<open>try ... catch\<close> and \<open>.catch(h)\<close> are \<open>Promise_catch\<close>.
  Operations are atomic in the model: nothing else runs at the suspension points of a task.
  The sweeper, which runs on a timer, is therefore placed between two tasks, never inside
  one, and a task that hangs at a suspension point is not a value of this type: a cart that
  an unfinished checkout has left in progress appears in a world only where a statement
  supposes it.
\<close>

type_synonym ('a, 's) promise = "'s \<Rightarrow> (exn + 'a) \<times> 's"

definition resolve :: "'a \<Rightarrow> ('a, 's) promise" where
  "resolve v = (\<lambda>s. (Inr v, s))"

definition throw :: "exn \<Rightarrow> ('a, 's) promise" where
  "throw e = (\<lambda>s. (Inl e, s))"

definition Promise_then :: "('a, 's) promise \<Rightarrow> ('a \<Rightarrow> ('b, 's) promise) \<Rightarrow> ('b, 's) promise" where
  "Promise_then p f = (\<lambda>s. case p s of (Inl e, s') \<Rightarrow> (Inl e, s') | (Inr v, s') \<Rightarrow> f v s')"

definition Promise_catch :: "('a, 's) promise \<Rightarrow> (exn \<Rightarrow> ('a, 's) promise) \<Rightarrow> ('a, 's) promise" where
  "Promise_catch p h = (\<lambda>s. case p s of (Inl e, s') \<Rightarrow> h e s' | (Inr v, s') \<Rightarrow> (Inr v, s'))"

definition Promise_finally :: "('a, 's) promise \<Rightarrow> ('s \<Rightarrow> 's) \<Rightarrow> ('a, 's) promise" where
  "Promise_finally p g = (\<lambda>s. case p s of (r, s') \<Rightarrow> (r, g s'))"

fun forEach :: "'b list \<Rightarrow> ('b \<Rightarrow> (unit, 's) promise) \<Rightarrow> (unit, 's) promise" where
  "forEach [] f = resolve ()"
| "forEach (x # xs) f = Promise_then (f x) (\<lambda>_. forEach xs f)"

section \<open>CartOperationQueue (src/utils/validators.ts)\<close>

text \<open>
  \<open>queues\<close> maps a user id to the promise of the last operation enqueued for that user.
  A stored promise stands for the whole chain up to it, run from the state in which the
  chain starts; its value is never read (\<open>.then(() => operation())\<close>), so it is stored
  as a promise of \<open>unit\<close>. The \<open>finally\<close> callback only deletes the user's entry from
  \<open>queues\<close> when the promise that settles is still the last one: it does not touch the
  state of the tasks, and it leaves the outcome as it is. \<open>CartOperationQueue_settled\<close>
  is its effect on \<open>queues\<close> once the last promise of a user's chain has settled.
\<close>

type_synonym 's CartOperationQueue = "(string \<times> (unit, 's) promise) list"

text \<open>\<open>this.queues.get(userId) || Promise.resolve()\<close>\<close>

definition previousOp :: "'s CartOperationQueue \<Rightarrow> string \<Rightarrow> (unit, 's) promise" where
  "previousOp queues uid = (case map_of queues uid of Some p \<Rightarrow> p | None \<Rightarrow> resolve ())"

definition CartOperationQueue_enqueue ::
  "'s CartOperationQueue \<Rightarrow> string \<Rightarrow> ('a, 's) promise \<Rightarrow> ('a, 's) promise \<times> 's CartOperationQueue" where
  "CartOperationQueue_enqueue queues uid operation =
    (let currentOp = Promise_finally
                       (Promise_catch (Promise_then (previousOp queues uid) (\<lambda>_. operation))
                          (\<lambda>err. throw err))
                       (\<lambda>s. s)
     in (currentOp, AList.update uid (Promise_then currentOp (\<lambda>_. resolve ())) queues))"

definition CartOperationQueue_settled :: "'s CartOperationQueue \<Rightarrow> string \<Rightarrow> 's CartOperationQueue" where
  "CartOperationQueue_settled queues uid = AList.delete uid queues"

section \<open>The stores and the collaborators of CartService\<close>

text \<open>
  \<open>carts\<close> and \<open>contexts\<close> are the \<open>Map\<close>s of \<open>CartStore\<close> and \<open>ProviderContextStore\<close>, in
  insertion order. \<open>ext\<close> is the state of everything outside the service: the commerce
  provider and the clock. \<open>calls\<close> records, for the specification only, each operation of
  the provider that the service invokes.
\<close>

datatype ProviderCall =
    CreateCart string "CartItem list"
  | AddItem string CartItem
  | RemoveItem string string
  | GetCart string
  | ValidateContext string
  | Checkout string

record 'p world =
  carts :: "(string \<times> Cart) list"
  contexts :: "(string \<times> ExternalCartContext) list"
  ext :: 'p
  calls :: "ProviderCall list"

text \<open>
  The collaborators injected into \<open>CartService\<close>. The provider is any implementation of
  \<open>CommerceProviderInterface\<close>: each operation may change the external state and may throw.
  \<open>taxService_calculateTax\<close> is \<open>TaxService.calculateTax\<close>, which changes nothing.
  \<open>Date_now\<close> is the clock. \<open>cartDeleteFault\<close> and \<open>contextDeleteFault\<close> say whether the
  \<open>delete\<close> of the cart store and of the context store throws in the clean-up after a
  successful checkout (the forced failure of the crash-safety scenario); the in-memory
  stores of the repository never throw, which is \<open>None\<close>.
\<close>

record 'p env =
  provider_createCart :: "string \<Rightarrow> CartItem list \<Rightarrow> 'p \<Rightarrow> (exn + ExternalCartContext) \<times> 'p"
  provider_addItem :: "string \<Rightarrow> CartItem \<Rightarrow> 'p \<Rightarrow> (exn + unit) \<times> 'p"
  provider_removeItem :: "string \<Rightarrow> string \<Rightarrow> 'p \<Rightarrow> (exn + unit) \<times> 'p"
  provider_getCart :: "string \<Rightarrow> 'p \<Rightarrow> (exn + ExternalCart) \<times> 'p"
  provider_validateContext :: "string \<Rightarrow> 'p \<Rightarrow> (exn + bool) \<times> 'p"
  provider_checkout :: "string \<Rightarrow> 'p \<Rightarrow> (exn + CheckoutResult) \<times> 'p"
  taxService_calculateTax :: "CartItem list \<Rightarrow> TaxContext \<Rightarrow> 'p \<Rightarrow> exn + TaxCalculationResult"
  Date_now :: "'p \<Rightarrow> int"
  cartDeleteFault :: "'p \<Rightarrow> exn option"
  contextDeleteFault :: "'p \<Rightarrow> exn option"

definition callProvider :: "ProviderCall \<Rightarrow> ('p \<Rightarrow> (exn + 'a) \<times> 'p) \<Rightarrow> ('a, 'p world) promise" where
  "callProvider c f = (\<lambda>w. case f (ext w) of (r, p') \<Rightarrow> (r, w\<lparr>ext := p', calls := calls w @ [c]\<rparr>))"

text \<open>
  Inside a task the local variable \<open>cart\<close> refers to the object that the cart store holds
  for the user. The state of such code is the pair of that object and the world; an
  assignment to a field of \<open>cart\<close> changes the object and thereby the store's entry, as
  long as the store holds it.
\<close>

type_synonym 'p frame = "Cart \<times> 'p world"

definition inWorld :: "('a, 'p world) promise \<Rightarrow> ('a, 'p frame) promise" where
  "inWorld m = (\<lambda>(c, w). case m w of (r, w') \<Rightarrow> (r, (c, w')))"

definition theCart :: "(Cart, 'p frame) promise" where
  "theCart = (\<lambda>(c, w). (Inr c, (c, w)))"

definition now :: "'p env \<Rightarrow> (int, 'p frame) promise" where
  "now env = (\<lambda>(c, w). (Inr (Date_now env (ext w)), (c, w)))"

definition assign :: "string \<Rightarrow> (Cart \<Rightarrow> Cart) \<Rightarrow> (unit, 'p frame) promise" where
  "assign uid f = (\<lambda>(c, w). (Inr (), (f c, w\<lparr>carts := AList.map_entry uid (\<lambda>_. f c) (carts w)\<rparr>)))"

definition withCart :: "Cart \<Rightarrow> ('a, 'p frame) promise \<Rightarrow> ('a, 'p world) promise" where
  "withCart cart m = (\<lambda>w. case m (cart, w) of (r, (c, w')) \<Rightarrow> (r, w'))"

subsection \<open>CartStore and ProviderContextStore\<close>

definition CartStore_get :: "string \<Rightarrow> (Cart option, 'p world) promise" where
  "CartStore_get uid = (\<lambda>w. (Inr (map_of (carts w) uid), w))"

definition CartStore_set :: "string \<Rightarrow> Cart \<Rightarrow> (unit, 'p world) promise" where
  "CartStore_set uid cart = (\<lambda>w. (Inr (), w\<lparr>carts := AList.update uid cart (carts w)\<rparr>))"

definition CartStore_update :: "'p env \<Rightarrow> string \<Rightarrow> (unit, 'p frame) promise" where
  "CartStore_update env uid = (\<lambda>(c, w).
     let c' = c\<lparr>updatedAt := Date_now env (ext w), lastAccessedAt := Date_now env (ext w)\<rparr>
     in (Inr (), (c', w\<lparr>carts := AList.update uid c' (carts w)\<rparr>)))"

definition CartStore_delete :: "string \<Rightarrow> 'p world \<Rightarrow> 'p world" where
  "CartStore_delete uid w = w\<lparr>carts := AList.delete uid (carts w)\<rparr>"

definition contextExpired :: "'p env \<Rightarrow> 'p world \<Rightarrow> ExternalCartContext \<Rightarrow> bool" where
  "contextExpired env w context = (x_isExpired context \<or> x_expiresAt context < Date_now env (ext w))"

definition ProviderContextStore_get :: "'p env \<Rightarrow> string \<Rightarrow> (ExternalCartContext option, 'p world) promise" where
  "ProviderContextStore_get env uid = (\<lambda>w.
     case map_of (contexts w) uid of
       None \<Rightarrow> (Inr None, w)
     | Some context \<Rightarrow>
         if contextExpired env w context
         then (Inr None, w\<lparr>contexts := AList.delete uid (contexts w)\<rparr>)
         else (Inr (Some context), w))"

definition ProviderContextStore_set :: "string \<Rightarrow> ExternalCartContext \<Rightarrow> (unit, 'p world) promise" where
  "ProviderContextStore_set uid context = (\<lambda>w. (Inr (), w\<lparr>contexts := AList.update uid context (contexts w)\<rparr>))"

definition ProviderContextStore_delete :: "string \<Rightarrow> 'p world \<Rightarrow> 'p world" where
  "ProviderContextStore_delete uid w = w\<lparr>contexts := AList.delete uid (contexts w)\<rparr>"

section \<open>CartService (src/services/cart.service.ts)\<close>

definition createNewCart :: "'p env \<Rightarrow> string \<Rightarrow> 'p world \<Rightarrow> Cart" where
  "createNewCart env uid w =
    (let t = Date_now env (ext w)
     in \<lparr>cartId = (t, uid), userId = uid, items = [], createdAt = t, updatedAt = t,
         lastAccessedAt = t, externalCartId = None, taxContext = None,
         syncStatus = SYNCED, lastSyncedAt = None, lastSyncError = None,
         checkoutStatus = PENDING, checkoutStartedAt = None, checkoutCompletedAt = None,
         checkoutResult = None, checkoutError = None\<rparr>)"

definition CartService_getCart :: "'p env \<Rightarrow> string \<Rightarrow> (Cart, 'p world) promise" where
  "CartService_getCart env uid =
     Promise_then (CartStore_get uid) (\<lambda>found.
       case found of
         None \<Rightarrow> (\<lambda>w. Promise_then (CartStore_set uid (createNewCart env uid w))
                         (\<lambda>_. resolve (createNewCart env uid w)) w)
       | Some cart \<Rightarrow>
           withCart cart
            (Promise_then (now env) (\<lambda>t.
             Promise_then (assign uid (\<lambda>c. c\<lparr>lastAccessedAt := t\<rparr>)) (\<lambda>_.
             Promise_then (CartStore_update env uid) (\<lambda>_. theCart)))))"

definition getDefaultTaxContext :: "'p env \<Rightarrow> 'p world \<Rightarrow> TaxContext" where
  "getDefaultTaxContext env w =
     \<lparr>tc_jurisdiction = DEFAULT_JURISDICTION, tc_customerId = None,
      tc_calculationDate = Date_now env (ext w)\<rparr>"

text \<open>
  \<open>this.taxService.calculateTax(cart.items, cart.taxContext || this.getDefaultTaxContext())\<close>
\<close>

definition calculateTax :: "'p env \<Rightarrow> (TaxCalculationResult, 'p frame) promise" where
  "calculateTax env = (\<lambda>(c, w).
     let context = (case taxContext c of Some tc \<Rightarrow> tc | None \<Rightarrow> getDefaultTaxContext env w)
     in (taxService_calculateTax env (items c) context (ext w), (c, w)))"

definition CartService_getSummary :: "'p env \<Rightarrow> string \<Rightarrow> (CartTotals, 'p world) promise" where
  "CartService_getSummary env uid =
     Promise_then (CartService_getCart env uid) (\<lambda>cart.
       withCart cart
        (Promise_then (calculateTax env) (\<lambda>taxResult.
           resolve \<lparr>subtotal = subtotal taxResult, taxes = taxes taxResult,
                    totalTax = totalTax taxResult, total = total taxResult\<rparr>)))"

subsection \<open>Synchronisation with the provider\<close>

definition createAndSyncContext :: "'p env \<Rightarrow> string \<Rightarrow> (ExternalCartContext, 'p frame) promise" where
  "createAndSyncContext env uid =
     Promise_then theCart (\<lambda>cart.
     Promise_then (inWorld (callProvider (CreateCart uid (items cart))
                              (provider_createCart env uid (items cart)))) (\<lambda>context.
     Promise_then (inWorld (ProviderContextStore_set uid context)) (\<lambda>_.
     Promise_then (assign uid (\<lambda>c. c\<lparr>externalCartId := Some (x_contextId context)\<rparr>)) (\<lambda>_.
     resolve context))))"

definition getOrCreateContext :: "'p env \<Rightarrow> string \<Rightarrow> (ExternalCartContext, 'p frame) promise" where
  "getOrCreateContext env uid =
     Promise_then (inWorld (ProviderContextStore_get env uid)) (\<lambda>found.
       case found of
         None \<Rightarrow> createAndSyncContext env uid
       | Some context \<Rightarrow>
           Promise_then (inWorld (callProvider (ValidateContext (x_contextId context))
                                    (provider_validateContext env (x_contextId context)))) (\<lambda>isValid.
             if \<not> isValid then createAndSyncContext env uid else resolve context))"

definition findItemsToAdd :: "CartItem list \<Rightarrow> CartItem list \<Rightarrow> CartItem list" where
  "findItemsToAdd localItems externalItems =
     filter (\<lambda>localItem.
        find (\<lambda>extItem. productId extItem = productId localItem) externalItems = None \<or>
        find (\<lambda>extItem. productId extItem = productId localItem \<and>
                         quantity extItem \<noteq> quantity localItem) externalItems \<noteq> None)
       localItems"

definition findItemsToRemove :: "CartItem list \<Rightarrow> CartItem list \<Rightarrow> CartItem list" where
  "findItemsToRemove localItems externalItems =
     filter (\<lambda>extItem.
        find (\<lambda>localItem. productId localItem = productId extItem) localItems = None)
       externalItems"

text \<open>The body of the \<open>try\<close> block of \<open>syncToExternalProvider\<close>.\<close>

definition syncSteps :: "'p env \<Rightarrow> string \<Rightarrow> (unit, 'p frame) promise" where
  "syncSteps env uid =
     Promise_then (getOrCreateContext env uid) (\<lambda>context.
     Promise_then (inWorld (callProvider (GetCart (x_contextId context))
                              (provider_getCart env (x_contextId context)))) (\<lambda>externalCart.
     Promise_then theCart (\<lambda>cart.
     Promise_then (forEach (findItemsToRemove (items cart) (xc_items externalCart)) (\<lambda>item.
                     inWorld (callProvider (RemoveItem (x_contextId context) (productId item))
                                (provider_removeItem env (x_contextId context) (productId item))))) (\<lambda>_.
     Promise_then (forEach (findItemsToAdd (items cart) (xc_items externalCart)) (\<lambda>item.
                     inWorld (callProvider (AddItem (x_contextId context) item)
                                (provider_addItem env (x_contextId context) item)))) (\<lambda>_.
     Promise_then (now env) (\<lambda>t.
       assign uid (\<lambda>c. c\<lparr>syncStatus := SYNCED, lastSyncedAt := Some t\<rparr>)))))))"

definition syncToExternalProvider :: "'p env \<Rightarrow> string \<Rightarrow> (unit, 'p frame) promise" where
  "syncToExternalProvider env uid =
     Promise_catch (syncSteps env uid) (\<lambda>error.
       assign uid (\<lambda>c. c\<lparr>syncStatus := SYNC_PENDING, lastSyncError := Some (errorMessage error)\<rparr>))"

subsection \<open>Validation (src/utils/validators.ts)\<close>

text \<open>
  \<open>!s || s.trim() === ''\<close>: the string is empty or consists of white space. A \<open>char\<close>
  stands for a code unit below 256, so a \<open>string\<close> is a JavaScript string of such code
  units. Of these, \<open>trim\<close> removes tab, line feed, vertical tab, form feed, carriage
  return, space and the no-break space U+00A0; the white space and line terminators that
  \<open>trim\<close> removes beyond U+00FF (U+FEFF, U+2028 and others) do not occur in a \<open>string\<close>.
  The product type of a \<open>CartItem\<close> is one of the four valid ones by its type.
\<close>

definition isWhitespace :: "char \<Rightarrow> bool" where
  "isWhitespace c =
     (c \<in> set [CHR '' '', CHR 0x09, CHR 0x0A, CHR 0x0B, CHR 0x0C, CHR 0x0D, CHR 0xA0])"

definition blank :: "string \<Rightarrow> bool" where
  "blank s = list_all isWhitespace s"

definition isInteger :: "rat \<Rightarrow> bool" where
  "isInteger q = (q = of_int \<lfloor>q\<rfloor>)"

definition validateCartItem :: "CartItem \<Rightarrow> exn + unit" where
  "validateCartItem item =
    (if blank (productId item) \<or> blank (itemName item) \<or>
        quantity item < 1 \<or> \<not> isInteger (quantity item) \<or> price item < 0
     then Inl (ValidationError INVALID_ITEM_DATA) else Inr ())"

definition validateQuantityUpdate :: "rat \<Rightarrow> exn + rat" where
  "validateQuantityUpdate q =
    (if q < 1 \<or> \<not> isInteger q then Inl (ValidationError QUANTITY_MUST_BE_INTEGER) else Inr q)"

definition fromResult :: "exn + 'a \<Rightarrow> ('a, 's) promise" where
  "fromResult r = (\<lambda>s. (r, s))"

subsection \<open>The cart operations\<close>

text \<open>\<open>findIndex\<close>: the first index whose element satisfies the predicate; \<open>None\<close> is -1.\<close>

fun findIndex :: "('a \<Rightarrow> bool) \<Rightarrow> 'a list \<Rightarrow> nat option" where
  "findIndex P [] = None"
| "findIndex P (x # xs) = (if P x then Some 0 else map_option Suc (findIndex P xs))"

text \<open>
  Each of the following is the task that the method of the same name hands to
  \<open>operationQueue.enqueue\<close>.
\<close>

text \<open>
  The changes that the three operations make to the items of the local cart.
  \<open>cart.items[itemIndex].quantity = quantity\<close> assigns to a field of the item object.
  Items are values here, so the assignment changes the local cart, and with it the entry
  of the cart store, and nothing else. A provider that keeps the item objects it is handed
  (\<open>SalesforceCommerceProvider.createCart\<close> copies the array with \<open>[...items]\<close>, not the
  items) sees the new quantity at once; the model gives the provider copies of its own, so
  after \<open>updateItemQuantity\<close> with such a provider the state of the provider and the
  operations that the synchronisation invokes can differ from the model's. The statements
  about \<open>updateItemQuantity\<close> below concern the local cart and what the operation returns.
\<close>

definition addItemLocally :: "CartItem \<Rightarrow> Cart \<Rightarrow> Cart" where
  "addItemLocally item c =
     (case findIndex (\<lambda>i. productId i = productId item) (items c) of
        Some existingIndex \<Rightarrow> c\<lparr>items := (items c)[existingIndex := item]\<rparr>
      | None \<Rightarrow> c\<lparr>items := items c @ [item]\<rparr>)"

definition setQuantityLocally :: "nat \<Rightarrow> rat \<Rightarrow> Cart \<Rightarrow> Cart" where
  "setQuantityLocally itemIndex q c =
     c\<lparr>items := (items c)[itemIndex := (items c ! itemIndex)\<lparr>quantity := q\<rparr>]\<rparr>"

definition removeLocally :: "nat \<Rightarrow> Cart \<Rightarrow> Cart" where
  "removeLocally itemIndex c = c\<lparr>items := take itemIndex (items c) @ drop (Suc itemIndex) (items c)\<rparr>"

definition addItemTask :: "'p env \<Rightarrow> string \<Rightarrow> CartItem \<Rightarrow> (Cart, 'p world) promise" where
  "addItemTask env uid item =
     Promise_then (fromResult (validateCartItem item)) (\<lambda>_.
     Promise_then (CartService_getCart env uid) (\<lambda>cart.
       withCart cart
        (Promise_then (assign uid (addItemLocally item)) (\<lambda>_.
         Promise_then (CartStore_update env uid) (\<lambda>_.
         Promise_then (syncToExternalProvider env uid) (\<lambda>_. theCart))))))"

definition updateItemQuantityTask :: "'p env \<Rightarrow> string \<Rightarrow> string \<Rightarrow> rat \<Rightarrow> (Cart, 'p world) promise" where
  "updateItemQuantityTask env uid pid q =
     Promise_then (fromResult (validateQuantityUpdate q)) (\<lambda>_.
     Promise_then (CartService_getCart env uid) (\<lambda>cart.
       withCart cart
        (case findIndex (\<lambda>i. productId i = pid) (items cart) of
           None \<Rightarrow> throw (ItemNotFoundError pid)
         | Some itemIndex \<Rightarrow>
            Promise_then (assign uid (setQuantityLocally itemIndex q)) (\<lambda>_.
            Promise_then (CartStore_update env uid) (\<lambda>_.
            Promise_then (syncToExternalProvider env uid) (\<lambda>_. theCart))))))"

definition removeItemTask :: "'p env \<Rightarrow> string \<Rightarrow> string \<Rightarrow> (Cart, 'p world) promise" where
  "removeItemTask env uid pid =
     Promise_then (CartService_getCart env uid) (\<lambda>cart.
       withCart cart
        (case findIndex (\<lambda>i. productId i = pid) (items cart) of
           None \<Rightarrow> throw (ItemNotFoundError pid)
         | Some itemIndex \<Rightarrow>
            Promise_then (assign uid (removeLocally itemIndex)) (\<lambda>_.
            Promise_then (CartStore_update env uid) (\<lambda>_.
            Promise_then (syncToExternalProvider env uid) (\<lambda>_. theCart)))))"

definition clearCartTask :: "'p env \<Rightarrow> string \<Rightarrow> (unit, 'p world) promise" where
  "clearCartTask env uid =
     Promise_then (CartStore_get uid) (\<lambda>found.
       case found of
         None \<Rightarrow> throw CartNotFoundError
       | Some cart \<Rightarrow>
           Promise_then
             (withCart cart
               (Promise_then (assign uid (\<lambda>c. c\<lparr>items := []\<rparr>)) (\<lambda>_. CartStore_update env uid)))
             (\<lambda>_ w. (Inr (), ProviderContextStore_delete uid w)))"

definition setTaxContextTask :: "'p env \<Rightarrow> string \<Rightarrow> TaxContext \<Rightarrow> (Cart, 'p world) promise" where
  "setTaxContextTask env uid tc =
     Promise_then (CartService_getCart env uid) (\<lambda>cart.
       withCart cart
        (Promise_then (assign uid (\<lambda>c. c\<lparr>taxContext := Some tc\<rparr>)) (\<lambda>_.
         Promise_then (CartStore_update env uid) (\<lambda>_. theCart))))"

subsection \<open>Checkout\<close>

definition failedResult :: "string \<Rightarrow> CartItem list \<Rightarrow> string \<Rightarrow> CheckoutResult" where
  "failedResult uid its msg =
     \<lparr>subtotal = 0, taxes = [], totalTax = 0, total = 0, orderId = None, r_userId = uid,
      status = FAILED, r_items = its, completedAt = None, error = Some msg\<rparr>"

text \<open>
  \<open>cart.checkoutStartedAt ? Date.now() - cart.checkoutStartedAt.getTime() : Infinity\<close>
\<close>

datatype elapsed = Finite int | Infinity

fun elapsedLess :: "elapsed \<Rightarrow> int \<Rightarrow> bool" where
  "elapsedLess (Finite d) n = (d < n)"
| "elapsedLess Infinity n = False"

definition checkoutElapsed :: "'p env \<Rightarrow> 'p world \<Rightarrow> Cart \<Rightarrow> elapsed" where
  "checkoutElapsed env w cart =
     (case checkoutStartedAt cart of
        Some startedAt \<Rightarrow> Finite (Date_now env (ext w) - startedAt)
      | None \<Rightarrow> Infinity)"

definition validateCartMatch :: "Cart \<Rightarrow> CartItem list \<Rightarrow> exn + unit" where
  "validateCartMatch cart externalItems =
    (if length (items cart) \<noteq> length externalItems
     then Inl (CheckoutError CART_SYNC_VALIDATION_FAILED_ITEM_COUNT)
     else if list_ex (\<lambda>item.
               case find (\<lambda>e. productId e = productId item) externalItems of
                 None \<Rightarrow> True
               | Some extItem \<Rightarrow> quantity extItem \<noteq> quantity item) (items cart)
     then Inl (CheckoutError CART_SYNC_VALIDATION_FAILED_ITEM_MISMATCH)
     else Inr ())"

text \<open>\<open>providerResult.error || ErrorMessages.PROVIDER_CHECKOUT_FAILED\<close>\<close>

definition providerError :: "CheckoutResult \<Rightarrow> string" where
  "providerError providerResult =
     (case error providerResult of
        None \<Rightarrow> PROVIDER_CHECKOUT_FAILED
      | Some msg \<Rightarrow> if msg = [] then PROVIDER_CHECKOUT_FAILED else msg)"

text \<open>Step 6: the provider reported a failed checkout.\<close>

definition providerCheckoutFailed ::
  "'p env \<Rightarrow> string \<Rightarrow> TaxCalculationResult \<Rightarrow> CheckoutResult \<Rightarrow> (CheckoutResult, 'p frame) promise" where
  "providerCheckoutFailed env uid taxResult providerResult =
     Promise_then (assign uid (\<lambda>c. c\<lparr>checkoutStatus := FAILED,
                                      checkoutError := Some (providerError providerResult)\<rparr>)) (\<lambda>_.
     Promise_then (CartStore_update env uid) (\<lambda>_.
     Promise_then theCart (\<lambda>cart.
       resolve \<lparr>subtotal = subtotal taxResult, taxes = taxes taxResult,
                totalTax = totalTax taxResult, total = total taxResult,
                orderId = None, r_userId = uid, status = FAILED, r_items = items cart,
                completedAt = None, error = Some (providerError providerResult)\<rparr>)))"

text \<open>Steps 7 and 8: build the result, mark the cart completed and cache the result.\<close>

definition successResult :: "TaxCalculationResult \<Rightarrow> CheckoutResult \<Rightarrow> CheckoutResult" where
  "successResult taxResult providerResult =
     \<lparr>subtotal = subtotal taxResult, taxes = taxes taxResult,
      totalTax = totalTax taxResult, total = total taxResult,
      orderId = orderId providerResult, r_userId = r_userId providerResult,
      status = COMPLETED, r_items = r_items providerResult,
      completedAt = completedAt providerResult, error = None\<rparr>"

definition markCompleted :: "'p env \<Rightarrow> string \<Rightarrow> CheckoutResult \<Rightarrow> (unit, 'p frame) promise" where
  "markCompleted env uid result =
     Promise_then (now env) (\<lambda>t.
     Promise_then (assign uid (\<lambda>c. c\<lparr>checkoutStatus := COMPLETED, checkoutCompletedAt := Some t,
                                      checkoutResult := Some result\<rparr>)) (\<lambda>_.
     CartStore_update env uid))"

text \<open>
  Step 9: the two deletes inside their own \<open>try\<close>; whatever they throw is logged and
  dropped.
\<close>

definition cleanupCartDelete :: "'p env \<Rightarrow> string \<Rightarrow> (unit, 'p world) promise" where
  "cleanupCartDelete env uid = (\<lambda>w.
     case cartDeleteFault env (ext w) of
       Some e \<Rightarrow> (Inl e, w)
     | None \<Rightarrow> (Inr (), CartStore_delete uid w))"

definition cleanupContextDelete :: "'p env \<Rightarrow> string \<Rightarrow> (unit, 'p world) promise" where
  "cleanupContextDelete env uid = (\<lambda>w.
     case contextDeleteFault env (ext w) of
       Some e \<Rightarrow> (Inl e, w)
     | None \<Rightarrow> (Inr (), ProviderContextStore_delete uid w))"

definition cleanup :: "'p env \<Rightarrow> string \<Rightarrow> (unit, 'p frame) promise" where
  "cleanup env uid =
     Promise_catch
       (Promise_then (inWorld (cleanupCartDelete env uid)) (\<lambda>_.
          inWorld (cleanupContextDelete env uid)))
       (\<lambda>cleanupError. resolve ())"

text \<open>
  Steps 1 to 5 of the outer \<open>try\<close> block (cart.service.ts:263-283), up to the answer of
  the provider's checkout: what the block has computed, and the frame it has reached, when
  step 6 begins. \<open>checkoutSteps\<close> below is these steps followed by steps 6 to 9 (lemma
  \<open>checkoutSteps_prepare\<close>).
\<close>

definition checkoutPrepare ::
  "'p env \<Rightarrow> string \<Rightarrow> (TaxCalculationResult \<times> CheckoutResult, 'p frame) promise" where
  "checkoutPrepare env uid =
     Promise_then (now env) (\<lambda>t.
     Promise_then (assign uid (\<lambda>c. c\<lparr>checkoutStatus := IN_PROGRESS,
                                      checkoutStartedAt := Some t\<rparr>)) (\<lambda>_.
     Promise_then (CartStore_update env uid) (\<lambda>_.
     Promise_then (calculateTax env) (\<lambda>taxResult.
     Promise_then (createAndSyncContext env uid) (\<lambda>context.
     Promise_then (inWorld (callProvider (GetCart (x_contextId context))
                              (provider_getCart env (x_contextId context)))) (\<lambda>externalCart.
     Promise_then theCart (\<lambda>cart.
     Promise_then (fromResult (validateCartMatch cart (xc_items externalCart))) (\<lambda>_.
     Promise_then (inWorld (callProvider (Checkout (x_contextId context))
                              (provider_checkout env (x_contextId context)))) (\<lambda>providerResult.
       resolve (taxResult, providerResult))))))))))"

text \<open>The body of the outer \<open>try\<close> block.\<close>

definition checkoutSteps :: "'p env \<Rightarrow> string \<Rightarrow> (CheckoutResult, 'p frame) promise" where
  "checkoutSteps env uid =
     Promise_then (now env) (\<lambda>t.
     Promise_then (assign uid (\<lambda>c. c\<lparr>checkoutStatus := IN_PROGRESS,
                                      checkoutStartedAt := Some t\<rparr>)) (\<lambda>_.
     Promise_then (CartStore_update env uid) (\<lambda>_.
     Promise_then (calculateTax env) (\<lambda>taxResult.
     Promise_then (createAndSyncContext env uid) (\<lambda>context.
     Promise_then (inWorld (callProvider (GetCart (x_contextId context))
                              (provider_getCart env (x_contextId context)))) (\<lambda>externalCart.
     Promise_then theCart (\<lambda>cart.
     Promise_then (fromResult (validateCartMatch cart (xc_items externalCart))) (\<lambda>_.
     Promise_then (inWorld (callProvider (Checkout (x_contextId context))
                              (provider_checkout env (x_contextId context)))) (\<lambda>providerResult.
       if status providerResult = FAILED
       then providerCheckoutFailed env uid taxResult providerResult
       else
         Promise_then (markCompleted env uid (successResult taxResult providerResult)) (\<lambda>_.
         Promise_then (cleanup env uid) (\<lambda>_.
         resolve (successResult taxResult providerResult))))))))))))"

text \<open>The outer \<open>catch\<close> block.\<close>

definition checkoutRollback :: "'p env \<Rightarrow> string \<Rightarrow> exn \<Rightarrow> (CheckoutResult, 'p frame) promise" where
  "checkoutRollback env uid err =
     Promise_then (assign uid (\<lambda>c. c\<lparr>checkoutStatus := FAILED,
                                      checkoutError := Some (errorMessage err)\<rparr>)) (\<lambda>_.
     Promise_then (CartStore_update env uid) (\<lambda>_.
     Promise_then (calculateTax env) (\<lambda>taxResult.
     Promise_then theCart (\<lambda>cart.
       resolve \<lparr>subtotal = subtotal taxResult, taxes = taxes taxResult,
                totalTax = totalTax taxResult, total = total taxResult,
                orderId = None, r_userId = uid, status = FAILED, r_items = items cart,
                completedAt = None, error = Some (errorMessage err)\<rparr>))))"

definition checkoutTask :: "'p env \<Rightarrow> string \<Rightarrow> (CheckoutResult, 'p world) promise" where
  "checkoutTask env uid =
     Promise_then (CartStore_get uid) (\<lambda>found.
       case found of
         None \<Rightarrow> resolve (failedResult uid [] CART_NOT_FOUND_MSG)
       | Some cart \<Rightarrow> (\<lambda>w.
           if checkoutStatus cart = COMPLETED
           then (case checkoutResult cart of
                   Some cached \<Rightarrow> resolve cached w
                 | None \<Rightarrow> resolve (failedResult uid (items cart) CART_ALREADY_CHECKED_OUT) w)
           else if checkoutStatus cart = IN_PROGRESS \<and> elapsedLess (checkoutElapsed env w cart) 60000
           then resolve (failedResult uid (items cart) CHECKOUT_IN_PROGRESS) w
           else if length (items cart) = 0
           then resolve (failedResult uid [] EMPTY_CART_MSG) w
           else withCart cart (Promise_catch (checkoutSteps env uid) (checkoutRollback env uid)) w))"

subsection \<open>The public methods\<close>

definition CartService_addItem ::
  "'p env \<Rightarrow> 'p world CartOperationQueue \<Rightarrow> string \<Rightarrow> CartItem
     \<Rightarrow> (Cart, 'p world) promise \<times> 'p world CartOperationQueue" where
  "CartService_addItem env queues uid item =
     CartOperationQueue_enqueue queues uid (addItemTask env uid item)"

definition CartService_updateItemQuantity ::
  "'p env \<Rightarrow> 'p world CartOperationQueue \<Rightarrow> string \<Rightarrow> string \<Rightarrow> rat
     \<Rightarrow> (Cart, 'p world) promise \<times> 'p world CartOperationQueue" where
  "CartService_updateItemQuantity env queues uid pid q =
     CartOperationQueue_enqueue queues uid (updateItemQuantityTask env uid pid q)"

definition CartService_removeItem ::
  "'p env \<Rightarrow> 'p world CartOperationQueue \<Rightarrow> string \<Rightarrow> string
     \<Rightarrow> (Cart, 'p world) promise \<times> 'p world CartOperationQueue" where
  "CartService_removeItem env queues uid pid =
     CartOperationQueue_enqueue queues uid (removeItemTask env uid pid)"

definition CartService_clearCart ::
  "'p env \<Rightarrow> 'p world CartOperationQueue \<Rightarrow> string
     \<Rightarrow> (unit, 'p world) promise \<times> 'p world CartOperationQueue" where
  "CartService_clearCart env queues uid =
     CartOperationQueue_enqueue queues uid (clearCartTask env uid)"

definition CartService_setTaxContext ::
  "'p env \<Rightarrow> 'p world CartOperationQueue \<Rightarrow> string \<Rightarrow> TaxContext
     \<Rightarrow> (Cart, 'p world) promise \<times> 'p world CartOperationQueue" where
  "CartService_setTaxContext env queues uid tc =
     CartOperationQueue_enqueue queues uid (setTaxContextTask env uid tc)"

definition CartService_checkout ::
  "'p env \<Rightarrow> 'p world CartOperationQueue \<Rightarrow> string
     \<Rightarrow> (CheckoutResult, 'p world) promise \<times> 'p world CartOperationQueue" where
  "CartService_checkout env queues uid =
     CartOperationQueue_enqueue queues uid (checkoutTask env uid)"

section \<open>CartCleanupService\<close>

text \<open>
  \<open>cleanupExpiredCarts\<close> is synchronous: it does not await the promises of the stores, and
  the clock does not advance while it runs. \<open>sweepCart\<close> is the body of its loop for
  one entry of the cart store. The counter \<open>cleaned\<close> is only logged.
\<close>

definition sweepCart :: "int \<Rightarrow> string \<times> Cart \<Rightarrow> 'p world \<Rightarrow> 'p world" where
  "sweepCart t entry w =
    (let uid = fst entry; cart = snd entry; expiryThreshold = t - 24 * 60 * 60 * 1000
     in if checkoutStatus cart = COMPLETED
        then ProviderContextStore_delete uid (CartStore_delete uid w)
        else if checkoutStatus cart = FAILED \<and>
                t - (case checkoutStartedAt cart of Some s \<Rightarrow> s | None \<Rightarrow> 0) > 60 * 60 * 1000
        then CartStore_delete uid w
        else
          (let stuck = (checkoutStatus cart = IN_PROGRESS \<and>
                        t - (case checkoutStartedAt cart of Some s \<Rightarrow> s | None \<Rightarrow> 0) > 5 * 60 * 1000);
               cart' = (if stuck
                        then cart\<lparr>checkoutStatus := FAILED,
                                  checkoutError := Some ''Checkout timeout - please retry'',
                                  updatedAt := t, lastAccessedAt := t\<rparr>
                        else cart);
               w' = (if stuck then w\<lparr>carts := AList.update uid cart' (carts w)\<rparr> else w)
           in if lastAccessedAt cart' < expiryThreshold
              then ProviderContextStore_delete uid (CartStore_delete uid w')
              else w'))"

definition cleanupExpiredCarts :: "'p env \<Rightarrow> 'p world \<Rightarrow> 'p world" where
  "cleanupExpiredCarts env w = foldl (\<lambda>w' entry. sweepCart (Date_now env (ext w)) entry w') w (carts w)"

definition cleanupExpiredContexts :: "'p env \<Rightarrow> 'p world \<Rightarrow> 'p world" where
  "cleanupExpiredContexts env w =
     foldl (\<lambda>w' entry. if contextExpired env w (snd entry)
                        then ProviderContextStore_delete (fst entry) w' else w') w (contexts w)"

definition runCleanup :: "'p env \<Rightarrow> 'p world \<Rightarrow> 'p world" where
  "runCleanup env w = cleanupExpiredContexts env (cleanupExpiredCarts env w)"

section \<open>SalesforceCommerceProvider (src/providers/salesforce-commerce-provider.ts)\<close>

text \<open>
  The test double of the repository, used as the provider of the concrete scenarios below.
  Its state holds its carts by context id, the clock and a counter that stands for
  \<open>Math.random()\<close>: each generated id takes the next value, so that ids are distinct.
\<close>

record SalesforceCart =
  sf_cartId :: string
  sf_contextId :: string
  sf_userId :: string
  sf_items :: "CartItem list"
  sf_createdAt :: int
  sf_expiresAt :: int

record Salesforce =
  sf_carts :: "(string \<times> SalesforceCart) list"
  sf_contextExpiryMs :: int
  sf_clock :: int
  sf_random :: int

function showInt :: "int \<Rightarrow> string" where
  "showInt n =
     (if n < 0 then CHR ''-'' # showInt (- n)
      else if n < 10 then [char_of (48 + n)]
      else showInt (n div 10) @ [char_of (48 + n mod 10)])"
  by pat_completeness auto
termination
  by (relation "measure (\<lambda>n. if n < 0 then nat (- n) + 1 else nat n)") auto

definition generateId :: "string \<Rightarrow> Salesforce \<Rightarrow> string \<times> Salesforce" where
  "generateId prefix p =
     (prefix @ ''_'' @ showInt (sf_clock p) @ ''_'' @ showInt (sf_random p),
      p\<lparr>sf_random := sf_random p + 1\<rparr>)"

definition Salesforce_createCart ::
  "string \<Rightarrow> CartItem list \<Rightarrow> Salesforce \<Rightarrow> (exn + ExternalCartContext) \<times> Salesforce" where
  "Salesforce_createCart uid its p =
    (case generateId ''ctx'' p of (contextId, p1) \<Rightarrow>
     case generateId ''cart'' p1 of (cid, p2) \<Rightarrow>
       (let t = sf_clock p2; expiresAt = t + sf_contextExpiryMs p2;
            cart = \<lparr>sf_cartId = cid, sf_contextId = contextId, sf_userId = uid, sf_items = its,
                    sf_createdAt = t, sf_expiresAt = expiresAt\<rparr>
        in (Inr \<lparr>x_contextId = contextId, x_cartId = cid, x_provider = ''salesforce'',
                 x_createdAt = t, x_expiresAt = expiresAt, x_isExpired = False\<rparr>,
            p2\<lparr>sf_carts := AList.update contextId cart (sf_carts p2)\<rparr>)))"

definition getCartByContext :: "string \<Rightarrow> Salesforce \<Rightarrow> (exn + SalesforceCart) \<times> Salesforce" where
  "getCartByContext contextId p =
    (case map_of (sf_carts p) contextId of
       None \<Rightarrow> (Inl (ExternalProviderContextExpiredError contextId), p)
     | Some cart \<Rightarrow>
         if sf_clock p > sf_expiresAt cart
         then (Inl (ExternalProviderContextExpiredError contextId),
               p\<lparr>sf_carts := AList.delete contextId (sf_carts p)\<rparr>)
         else (Inr cart, p))"

definition Salesforce_addItem :: "string \<Rightarrow> CartItem \<Rightarrow> Salesforce \<Rightarrow> (exn + unit) \<times> Salesforce" where
  "Salesforce_addItem contextId item p =
    (case getCartByContext contextId p of
       (Inl e, p') \<Rightarrow> (Inl e, p')
     | (Inr cart, p') \<Rightarrow>
         (let its = (case findIndex (\<lambda>i. productId i = productId item) (sf_items cart) of
                       Some existingIndex \<Rightarrow> (sf_items cart)[existingIndex := item]
                     | None \<Rightarrow> sf_items cart @ [item])
          in (Inr (), p'\<lparr>sf_carts := AList.update contextId (cart\<lparr>sf_items := its\<rparr>) (sf_carts p')\<rparr>)))"

definition Salesforce_removeItem :: "string \<Rightarrow> string \<Rightarrow> Salesforce \<Rightarrow> (exn + unit) \<times> Salesforce" where
  "Salesforce_removeItem contextId pid p =
    (case getCartByContext contextId p of
       (Inl e, p') \<Rightarrow> (Inl e, p')
     | (Inr cart, p') \<Rightarrow>
         (case findIndex (\<lambda>item. productId item = pid) (sf_items cart) of
            Some index \<Rightarrow>
              (Inr (), p'\<lparr>sf_carts := AList.update contextId
                              (cart\<lparr>sf_items := take index (sf_items cart) @ drop (Suc index) (sf_items cart)\<rparr>)
                              (sf_carts p')\<rparr>)
          | None \<Rightarrow> (Inr (), p')))"

definition Salesforce_getCart :: "string \<Rightarrow> Salesforce \<Rightarrow> (exn + ExternalCart) \<times> Salesforce" where
  "Salesforce_getCart contextId p =
    (case getCartByContext contextId p of
       (Inl e, p') \<Rightarrow> (Inl e, p')
     | (Inr cart, p') \<Rightarrow> (Inr \<lparr>xc_cartId = sf_cartId cart, xc_items = sf_items cart\<rparr>, p'))"

definition Salesforce_validateContext :: "string \<Rightarrow> Salesforce \<Rightarrow> (exn + bool) \<times> Salesforce" where
  "Salesforce_validateContext contextId p =
    (case map_of (sf_carts p) contextId of
       None \<Rightarrow> (Inr False, p)
     | Some cart \<Rightarrow>
         if sf_clock p > sf_expiresAt cart
         then (Inr False, p\<lparr>sf_carts := AList.delete contextId (sf_carts p)\<rparr>)
         else (Inr True, p))"

definition calculateTotal :: "CartItem list \<Rightarrow> rat" where
  "calculateTotal its =
     (let sub = foldl (\<lambda>sum item. sum + price item * quantity item) 0 its; tax = sub * (7 / 100)
      in sub + tax)"

definition Salesforce_checkout :: "string \<Rightarrow> Salesforce \<Rightarrow> (exn + CheckoutResult) \<times> Salesforce" where
  "Salesforce_checkout contextId p =
    (case getCartByContext contextId p of
       (Inl e, p') \<Rightarrow>
         (Inr \<lparr>subtotal = 0, taxes = [], totalTax = 0, total = 0, orderId = None,
               r_userId = ''unknown'', status = FAILED, r_items = [], completedAt = None,
               error = Some (errorMessage e)\<rparr>, p')
     | (Inr cart, p') \<Rightarrow>
         if length (sf_items cart) = 0
         then (Inr (failedResult (sf_userId cart) [] EMPTY_CART_MSG), p')
         else
           (case generateId ''order'' p' of (oid, p2) \<Rightarrow>
              (Inr \<lparr>subtotal = calculateTotal (sf_items cart), taxes = [], totalTax = 0,
                    total = calculateTotal (sf_items cart), orderId = Some oid,
                    r_userId = sf_userId cart, status = COMPLETED, r_items = sf_items cart,
                    completedAt = Some (sf_clock p2), error = None\<rparr>,
               p2\<lparr>sf_carts := AList.delete contextId (sf_carts p2)\<rparr>)))"

text \<open>
  The service as \<open>createApp\<close> wires it: the Salesforce double, a \<open>TaxService\<close> on the seeded
  rates, and the in-memory stores; the two arguments force the clean-up deletes to fail.
\<close>

definition salesforceEnv :: "exn option \<Rightarrow> exn option \<Rightarrow> Salesforce env" where
  "salesforceEnv cartFault contextFault =
     \<lparr>provider_createCart = Salesforce_createCart,
      provider_addItem = Salesforce_addItem,
      provider_removeItem = Salesforce_removeItem,
      provider_getCart = Salesforce_getCart,
      provider_validateContext = Salesforce_validateContext,
      provider_checkout = Salesforce_checkout,
      taxService_calculateTax = (\<lambda>its context p.
         Inr (TaxService_calculateTax newTaxService (sf_clock p) its context)),
      Date_now = sf_clock,
      cartDeleteFault = (\<lambda>p. cartFault),
      contextDeleteFault = (\<lambda>p. contextFault)\<rparr>"

definition initialWorld :: "int \<Rightarrow> Salesforce world" where
  "initialWorld t =
     \<lparr>carts = [], contexts = [],
      ext = \<lparr>sf_carts = [], sf_contextExpiryMs = 30 * 60 * 1000, sf_clock = t, sf_random = 0\<rparr>,
      calls = []\<rparr>"

definition phone :: CartItem where
  "phone = \<lparr>productId = ''prod1'', itemName = ''iPhone 15'', itemType = DEVICE,
            quantity = 1, price = 99999 / 100\<rparr>"

definition plan :: CartItem where
  "plan = \<lparr>productId = ''prod2'', itemName = ''Plan'', itemType = PLAN,
           quantity = 1, price = 7999 / 100\<rparr>"

section \<open>Specification vocabulary\<close>

text \<open>
  \<open>triple P m Q E\<close>: started in a state that satisfies \<open>P\<close>, the computation \<open>m\<close> either
  fulfils with a value \<open>v\<close> in a state that satisfies \<open>Q v\<close>, or rejects with \<open>e\<close> in a state that
  satisfies \<open>E e\<close>.
\<close>

definition triple ::
  "('s \<Rightarrow> bool) \<Rightarrow> ('a, 's) promise \<Rightarrow> ('a \<Rightarrow> 's \<Rightarrow> bool) \<Rightarrow> (exn \<Rightarrow> 's \<Rightarrow> bool) \<Rightarrow> bool" where
  "triple P m Q E = (\<forall>s. P s \<longrightarrow> (case m s of (Inr v, s') \<Rightarrow> Q v s' | (Inl e, s') \<Rightarrow> E e s'))"

text \<open>\<open>keeps I m\<close>: \<open>m\<close> preserves \<open>I\<close>, whether it fulfils or rejects.\<close>

definition keeps :: "('s \<Rightarrow> bool) \<Rightarrow> ('a, 's) promise \<Rightarrow> bool" where
  "keeps I m = triple I m (\<lambda>_. I) (\<lambda>_. I)"

text \<open>
  The frame in which a cart operation starts the synchronisation: the local change \<open>f\<close>
  applied to the cart and stored with \<open>cartStore.update\<close>.
\<close>

definition afterLocalChange :: "'p env \<Rightarrow> string \<Rightarrow> (Cart \<Rightarrow> Cart) \<Rightarrow> Cart \<Rightarrow> 'p world \<Rightarrow> 'p frame" where
  "afterLocalChange env uid f cart w =
     snd (Promise_then (assign uid f) (\<lambda>_. CartStore_update env uid) (cart, w))"

text \<open>The store holds the local cart under the user's id, and the cart has the given items.\<close>

definition mirrors :: "string \<Rightarrow> CartItem list \<Rightarrow> 'p frame \<Rightarrow> bool" where
  "mirrors uid its s = (map_of (carts (snd s)) uid = Some (fst s) \<and> items (fst s) = its)"

text \<open>The invariant of the data model: a cart has a checkout result exactly when it is completed.\<close>

definition resultIffCompleted :: "Cart \<Rightarrow> bool" where
  "resultIffCompleted c = (checkoutResult c \<noteq> None \<longleftrightarrow> checkoutStatus c = COMPLETED)"

definition storeInvariant :: "'p world \<Rightarrow> bool" where
  "storeInvariant w = list_all (\<lambda>entry. resultIffCompleted (snd entry)) (carts w)"

text \<open>
  Inside a task: the invariant of the store together with that of the local cart, and
  its form while a checkout has not completed.
\<close>

definition frameInvariant :: "'p frame \<Rightarrow> bool" where
  "frameInvariant s = (resultIffCompleted (fst s) \<and> storeInvariant (snd s))"

definition frameOpen :: "'p frame \<Rightarrow> bool" where
  "frameOpen s = (checkoutResult (fst s) = None \<and> checkoutStatus (fst s) \<noteq> COMPLETED
                  \<and> storeInvariant (snd s))"

text \<open>
  The user's cart is checked out with result \<open>res\<close>: the store holds it as completed with
  \<open>res\<close> cached, or holds no cart of the user any more.
\<close>

definition checkedOut :: "string \<Rightarrow> CheckoutResult \<Rightarrow> 'p world \<Rightarrow> bool" where
  "checkedOut uid res w =
     (case map_of (carts w) uid of
        None \<Rightarrow> True
      | Some c \<Rightarrow> checkoutStatus c = COMPLETED \<and> checkoutResult c = Some res)"

text \<open>
  What a checkout that started its steps at time \<open>t\<close> leaves behind, as opposed to one that
  was turned away by the checks: \<open>out\<close> is the outcome and the world it ends in. The cart
  store holds the user's cart with \<open>t\<close> as the start of the checkout; the cart is completed
  with the returned result cached, or failed with the error of the returned result, or
  failed when the call rejects. Or the cart is gone, deleted by the clean-up after a
  completed checkout. \<open>inAttempt\<close> is the invariant of the steps that gives this: the local
  cart carries the start time.
\<close>

definition inAttempt :: "int \<Rightarrow> 'p frame \<Rightarrow> bool" where
  "inAttempt t s = (checkoutStartedAt (fst s) = Some t)"

definition attempted :: "int \<Rightarrow> string \<Rightarrow> (exn + CheckoutResult) \<times> 'p world \<Rightarrow> bool" where
  "attempted t uid out =
     (case map_of (carts (snd out)) uid of
        None \<Rightarrow> (case fst out of Inr res \<Rightarrow> status res = COMPLETED | Inl e \<Rightarrow> False)
      | Some c \<Rightarrow>
          checkoutStartedAt c = Some t \<and>
          (case fst out of
             Inr res \<Rightarrow>
               status res = COMPLETED \<and> checkoutStatus c = COMPLETED \<and> checkoutResult c = Some res
               \<or> status res = FAILED \<and> checkoutStatus c = FAILED \<and> checkoutError c = error res
           | Inl e \<Rightarrow> checkoutStatus c = FAILED))"

text \<open>
  The worlds that the public operations of the service and the sweeper produce from an empty
  cart store, for any arguments, with the outside world (provider, clock) changing freely
  between two operations. An operation enqueued behind others runs, if at all, after them,
  so the tasks themselves generate every world that the queued methods can produce.
\<close>

inductive_set reachable :: "'p env \<Rightarrow> 'p world set" for env :: "'p env" where
  initial: "carts w = [] \<Longrightarrow> w \<in> reachable env"
| outside: "w \<in> reachable env \<Longrightarrow> w\<lparr>ext := p\<rparr> \<in> reachable env"
| getCart: "w \<in> reachable env \<Longrightarrow> snd (CartService_getCart env uid w) \<in> reachable env"
| getSummary: "w \<in> reachable env \<Longrightarrow> snd (CartService_getSummary env uid w) \<in> reachable env"
| addItem: "w \<in> reachable env \<Longrightarrow> snd (addItemTask env uid item w) \<in> reachable env"
| updateItemQuantity:
    "w \<in> reachable env \<Longrightarrow> snd (updateItemQuantityTask env uid pid q w) \<in> reachable env"
| removeItem: "w \<in> reachable env \<Longrightarrow> snd (removeItemTask env uid pid w) \<in> reachable env"
| clearCart: "w \<in> reachable env \<Longrightarrow> snd (clearCartTask env uid w) \<in> reachable env"
| setTaxContext: "w \<in> reachable env \<Longrightarrow> snd (setTaxContextTask env uid tc w) \<in> reachable env"
| checkout: "w \<in> reachable env \<Longrightarrow> snd (checkoutTask env uid w) \<in> reachable env"
| sweep: "w \<in> reachable env \<Longrightarrow> runCleanup env w \<in> reachable env"

section \<open>Scenarios\<close>

text \<open>
  Concrete collaborators and worlds for the scenarios of the specification: the wired
  application, a store whose delete is forced to fail, a tax service that throws, and
  providers whose \<open>getCart\<close> throws.
\<close>

definition env0 :: "Salesforce env" where
  "env0 = salesforceEnv None None"

definition envCleanupFails :: "Salesforce env" where
  "envCleanupFails = salesforceEnv (Some (JsError ''Error'' ''delete failed'')) None"

definition envTaxThrows :: "Salesforce env" where
  "envTaxThrows = env0\<lparr>taxService_calculateTax :=
     (\<lambda>its context p. Inl (JsError ''Error'' ''tax service unavailable''))\<rparr>"

definition envSessionExpired :: "Salesforce env" where
  "envSessionExpired = env0\<lparr>provider_getCart :=
     (\<lambda>contextId p. (Inl (ExternalProviderContextExpiredError contextId), p))\<rparr>"

definition envEmptyMessage :: "Salesforce env" where
  "envEmptyMessage = env0\<lparr>provider_getCart := (\<lambda>contextId p. (Inl (JsError ''Error'' []), p))\<rparr>"

definition w0 :: "Salesforce world" where
  "w0 = initialWorld 1793664000000"

text \<open>
  The world after \<open>addItem('user1', phone)\<close> on the fresh application (lemma \<open>run_addItem\<close>):
  the cart, the context that the provider created for it, and the provider's copy.
\<close>

definition ctx0 :: ExternalCartContext where
  "ctx0 = \<lparr>x_contextId = ''ctx_1793664000000_0'', x_cartId = ''cart_1793664000000_1'',
           x_provider = ''salesforce'', x_createdAt = 1793664000000,
           x_expiresAt = 1793665800000, x_isExpired = False\<rparr>"

definition sfCart0 :: SalesforceCart where
  "sfCart0 = \<lparr>sf_cartId = ''cart_1793664000000_1'', sf_contextId = ''ctx_1793664000000_0'',
              sf_userId = ''user1'', sf_items = [phone], sf_createdAt = 1793664000000,
              sf_expiresAt = 1793665800000\<rparr>"

definition phoneCart :: Cart where
  "phoneCart =
     \<lparr>cartId = (1793664000000, ''user1''), userId = ''user1'', items = [phone],
      createdAt = 1793664000000, updatedAt = 1793664000000, lastAccessedAt = 1793664000000,
      externalCartId = Some ''ctx_1793664000000_0'', taxContext = None,
      syncStatus = SYNCED, lastSyncedAt = Some 1793664000000, lastSyncError = None,
      checkoutStatus = PENDING, checkoutStartedAt = None, checkoutCompletedAt = None,
      checkoutResult = None, checkoutError = None\<rparr>"

definition wPhone :: "Salesforce world" where
  "wPhone =
     \<lparr>carts = [(''user1'', phoneCart)], contexts = [(''user1'', ctx0)],
      ext = \<lparr>sf_carts = [(''ctx_1793664000000_0'', sfCart0)], sf_contextExpiryMs = 1800000,
             sf_clock = 1793664000000, sf_random = 2\<rparr>,
      calls = [CreateCart ''user1'' [phone], GetCart ''ctx_1793664000000_0'']\<rparr>"

text \<open>
  The worlds after a checkout of that cart (lemmas \<open>run_checkout\<close> and
  \<open>run_checkout_cleanup_fails\<close>): the order, the completed cart, and the world once with
  the clean-up done and once with the delete of the cart store forced to fail.
\<close>

definition phoneTax :: TaxCalculationResult where
  "phoneTax = TaxService_calculateTax newTaxService 1793664000000 [phone]
     \<lparr>tc_jurisdiction = DEFAULT_JURISDICTION, tc_customerId = None,
      tc_calculationDate = 1793664000000\<rparr>"

definition ctx2 :: ExternalCartContext where
  "ctx2 = \<lparr>x_contextId = ''ctx_1793664000000_2'', x_cartId = ''cart_1793664000000_3'',
           x_provider = ''salesforce'', x_createdAt = 1793664000000,
           x_expiresAt = 1793665800000, x_isExpired = False\<rparr>"

definition phoneOrder :: CheckoutResult where
  "phoneOrder =
     \<lparr>subtotal = subtotal phoneTax, taxes = taxes phoneTax, totalTax = totalTax phoneTax,
      total = total phoneTax, orderId = Some ''order_1793664000000_4'', r_userId = ''user1'',
      status = COMPLETED, r_items = [phone], completedAt = Some 1793664000000, error = None\<rparr>"

definition completedCart :: Cart where
  "completedCart =
     phoneCart\<lparr>externalCartId := Some ''ctx_1793664000000_2'', checkoutStatus := COMPLETED,
       checkoutStartedAt := Some 1793664000000, checkoutCompletedAt := Some 1793664000000,
       checkoutResult := Some phoneOrder\<rparr>"

definition wOrdered :: "Salesforce world" where
  "wOrdered =
     \<lparr>carts = [], contexts = [],
      ext = \<lparr>sf_carts = [(''ctx_1793664000000_0'', sfCart0)], sf_contextExpiryMs = 1800000,
             sf_clock = 1793664000000, sf_random = 5\<rparr>,
      calls = [CreateCart ''user1'' [phone], GetCart ''ctx_1793664000000_0'',
               CreateCart ''user1'' [phone], GetCart ''ctx_1793664000000_2'',
               Checkout ''ctx_1793664000000_2'']\<rparr>"

definition wCompleted :: "Salesforce world" where
  "wCompleted = wOrdered\<lparr>carts := [(''user1'', completedCart)], contexts := [(''user1'', ctx2)]\<rparr>"

text \<open>A checkout of the phone cart left in progress ten minutes ago, and one without a start time.\<close>

definition wStuck :: "Salesforce world" where
  "wStuck = wPhone\<lparr>carts := [(''user1'', phoneCart\<lparr>checkoutStatus := IN_PROGRESS,
                                   checkoutStartedAt := Some (1793664000000 - 600000)\<rparr>)]\<rparr>"

definition wNoStart :: "Salesforce world" where
  "wNoStart = wPhone\<lparr>carts := [(''user1'', phoneCart\<lparr>checkoutStatus := IN_PROGRESS,
                                     checkoutStartedAt := None\<rparr>)]\<rparr>"

text \<open>The world after one pass of the sweeper over \<open>wStuck\<close> (lemma \<open>run_cleanup_stuck\<close>).\<close>

definition wSwept :: "Salesforce world" where
  "wSwept = wPhone\<lparr>carts := [(''user1'', phoneCart\<lparr>checkoutStatus := FAILED,
                                   checkoutStartedAt := Some (1793664000000 - 600000),
                                   checkoutError := Some ''Checkout timeout - please retry''\<rparr>)]\<rparr>"

text \<open>The world after \<open>getCart('user1')\<close> on the fresh application: an empty cart.\<close>

definition wEmptyCart :: "Salesforce world" where
  "wEmptyCart = w0\<lparr>carts := [(''user1'', createNewCart env0 ''user1'' w0)]\<rparr>"

section \<open>Promises and the operation queue\<close>

lemma Promise_then_resolve: "Promise_then (resolve v) f = f v"
  by (rule ext) (simp add: Promise_then_def resolve_def)

lemma Promise_then_throw: "Promise_then (throw e) f = throw e"
  by (rule ext) (simp add: Promise_then_def throw_def)

lemma Promise_then_Inr: "p s = (Inr v, s') \<Longrightarrow> Promise_then p f s = f v s'"
  by (simp add: Promise_then_def)

lemma Promise_then_Inl: "p s = (Inl e, s') \<Longrightarrow> Promise_then p f s = (Inl e, s')"
  by (simp add: Promise_then_def)

lemma Promise_catch_Inr: "p s = (Inr v, s') \<Longrightarrow> Promise_catch p h s = (Inr v, s')"
  by (simp add: Promise_catch_def)

lemma Promise_catch_Inl: "p s = (Inl e, s') \<Longrightarrow> Promise_catch p h s = h e s'"
  by (simp add: Promise_catch_def)

text \<open>
  With no operation of the user pending, \<open>enqueue\<close> hands the outcome of the task to the
  caller as it is.
\<close>

lemma enqueue_idle:
  "map_of queues uid = None \<Longrightarrow> fst (CartOperationQueue_enqueue queues uid operation) = operation"
  by (rule ext)
    (simp add: CartOperationQueue_enqueue_def previousOp_def Promise_finally_def Promise_catch_def
      Promise_then_def resolve_def throw_def split: prod.splits sum.splits)

text \<open>
  Behind a pending operation, the task runs if that operation fulfils, and is skipped,
  the caller receiving the earlier rejection, if it rejects.
\<close>

lemma enqueue_pending:
  "map_of queues uid = Some pending \<Longrightarrow>
   fst (CartOperationQueue_enqueue queues uid operation) = Promise_then pending (\<lambda>_. operation)"
  by (rule ext)
    (simp add: CartOperationQueue_enqueue_def previousOp_def Promise_finally_def Promise_catch_def
      Promise_then_def throw_def split: prod.splits sum.splits)

text \<open>
  In general: the caller's promise runs the operation in the state that the user's earlier
  operations leave, if they fulfil, and passes their rejection on, without running the
  operation, if they reject.
\<close>

lemma enqueue_run:
  "previousOp queues uid u = (r, w) \<Longrightarrow>
   fst (CartOperationQueue_enqueue queues uid operation) u =
     (case r of Inl e \<Rightarrow> (Inl e, w) | Inr v \<Rightarrow> operation w)"
  by (simp add: CartOperationQueue_enqueue_def Promise_finally_def Promise_catch_def
      Promise_then_def throw_def split: prod.splits sum.splits)

lemma previousOp_idle: "map_of queues uid = None \<Longrightarrow> previousOp queues uid w = (Inr (), w)"
  by (simp add: previousOp_def resolve_def)

lemma previousOp_enqueued:
  "previousOp (snd (CartOperationQueue_enqueue queues uid operation)) uid u =
     (case fst (CartOperationQueue_enqueue queues uid operation) u of
        (Inl e, w) \<Rightarrow> (Inl e, w) | (Inr v, w) \<Rightarrow> (Inr (), w))"
  by (simp add: previousOp_def CartOperationQueue_enqueue_def Let_def update_conv'
      Promise_then_def resolve_def split: prod.splits sum.splits)

lemma enqueue_stores:
  "map_of (snd (CartOperationQueue_enqueue queues uid operation)) uid =
     Some (Promise_then (fst (CartOperationQueue_enqueue queues uid operation)) (\<lambda>_. resolve ()))"
  by (simp add: CartOperationQueue_enqueue_def Let_def update_conv')

lemma enqueue_twice:
  "fst (CartOperationQueue_enqueue (snd (CartOperationQueue_enqueue queues uid op1)) uid op2) s =
     (case fst (CartOperationQueue_enqueue queues uid op1) s of
        (Inl e, s') \<Rightarrow> (Inl e, s')
      | (Inr v, s') \<Rightarrow> op2 s')"
  by (simp add: enqueue_pending [OF enqueue_stores] Promise_then_def resolve_def
      split: prod.splits sum.splits)

section \<open>Checkout: the checks before the first state change\<close>

lemma checkoutTask_not_found:
  "map_of (carts w) uid = None \<Longrightarrow>
   checkoutTask env uid w = (Inr (failedResult uid [] CART_NOT_FOUND_MSG), w)"
  by (simp add: checkoutTask_def CartStore_get_def Promise_then_def resolve_def)

lemma checkoutTask_completed:
  "map_of (carts w) uid = Some cart \<Longrightarrow> checkoutStatus cart = COMPLETED \<Longrightarrow>
   checkoutTask env uid w =
     (Inr (case checkoutResult cart of
             Some cached \<Rightarrow> cached
           | None \<Rightarrow> failedResult uid (items cart) CART_ALREADY_CHECKED_OUT), w)"
  by (simp add: checkoutTask_def CartStore_get_def Promise_then_def resolve_def
      split: option.splits)

lemma checkoutTask_in_progress:
  "map_of (carts w) uid = Some cart \<Longrightarrow> checkoutStatus cart = IN_PROGRESS \<Longrightarrow>
   elapsedLess (checkoutElapsed env w cart) 60000 \<Longrightarrow>
   checkoutTask env uid w = (Inr (failedResult uid (items cart) CHECKOUT_IN_PROGRESS), w)"
  by (simp add: checkoutTask_def CartStore_get_def Promise_then_def resolve_def)

lemma checkoutTask_proceeds:
  "map_of (carts w) uid = Some cart \<Longrightarrow> checkoutStatus cart \<noteq> COMPLETED \<Longrightarrow>
   \<not> (checkoutStatus cart = IN_PROGRESS \<and> elapsedLess (checkoutElapsed env w cart) 60000) \<Longrightarrow>
   checkoutTask env uid w =
     (if length (items cart) = 0 then (Inr (failedResult uid [] EMPTY_CART_MSG), w)
      else withCart cart (Promise_catch (checkoutSteps env uid) (checkoutRollback env uid)) w)"
  by (auto simp: checkoutTask_def CartStore_get_def Promise_then_def resolve_def)

section \<open>Checkout: the steps after the checks\<close>

lemma now_apply: "now env (c, w) = (Inr (Date_now env (ext w)), (c, w))"
  by (simp add: now_def)

lemma theCart_apply: "theCart (c, w) = (Inr c, (c, w))"
  by (simp add: theCart_def)

lemma assign_apply:
  "assign uid f (c, w) = (Inr (), (f c, w\<lparr>carts := AList.map_entry uid (\<lambda>_. f c) (carts w)\<rparr>))"
  by (simp add: assign_def)

lemma CartStore_update_apply:
  "CartStore_update env uid (c, w) =
     (Inr (), (c\<lparr>updatedAt := Date_now env (ext w), lastAccessedAt := Date_now env (ext w)\<rparr>,
               w\<lparr>carts := AList.update uid
                     (c\<lparr>updatedAt := Date_now env (ext w), lastAccessedAt := Date_now env (ext w)\<rparr>)
                     (carts w)\<rparr>))"
  by (simp add: CartStore_update_def Let_def)

lemma resolve_apply: "resolve v s = (Inr v, s)"
  by (simp add: resolve_def)

lemma throw_apply: "throw e s = (Inl e, s)"
  by (simp add: throw_def)

lemma Promise_thenE:
  assumes "Promise_then p f s = (r, s'')"
  obtains (rejected) e where "p s = (Inl e, s'')" and "r = Inl e"
        | (fulfilled) v s' where "p s = (Inr v, s')" and "f v s' = (r, s'')"
  using assms by (auto simp: Promise_then_def split: prod.splits sum.splits)

lemma update_map_entry: "AList.update k v (AList.map_entry k f al) = AList.update k v al"
  by (induction al) auto

lemma markCompleted_apply:
  "markCompleted env uid result (c, w) =
    (Inr (),
     (c\<lparr>checkoutStatus := COMPLETED, checkoutCompletedAt := Some (Date_now env (ext w)),
        checkoutResult := Some result,
        updatedAt := Date_now env (ext w), lastAccessedAt := Date_now env (ext w)\<rparr>,
      w\<lparr>carts := AList.update uid
            (c\<lparr>checkoutStatus := COMPLETED, checkoutCompletedAt := Some (Date_now env (ext w)),
               checkoutResult := Some result,
               updatedAt := Date_now env (ext w), lastAccessedAt := Date_now env (ext w)\<rparr>)
            (carts w)\<rparr>))"
  by (simp add: markCompleted_def Promise_then_def now_apply assign_apply CartStore_update_apply
      update_map_entry)


lemma inWorld_apply: "inWorld m (c, w) = (case m w of (r, w') \<Rightarrow> (r, (c, w')))"
  by (simp add: inWorld_def)

lemma withCart_apply: "withCart cart m w = (case m (cart, w) of (r, (c, w')) \<Rightarrow> (r, w'))"
  by (simp add: withCart_def)

lemma cleanup_apply:
  "cleanup env uid (c, w) =
    (Inr (), (c,
      case cartDeleteFault env (ext w) of
        Some e \<Rightarrow> w
      | None \<Rightarrow> (case contextDeleteFault env (ext w) of
                   Some e \<Rightarrow> CartStore_delete uid w
                 | None \<Rightarrow> ProviderContextStore_delete uid (CartStore_delete uid w))))"
  by (simp add: cleanup_def Promise_catch_def Promise_then_def inWorld_apply cleanupCartDelete_def
      cleanupContextDelete_def resolve_def CartStore_delete_def split: option.splits)

text \<open>\<open>checkoutSteps\<close> is \<open>checkoutPrepare\<close> followed by steps 6 to 9.\<close>

lemma Promise_then_assoc:
  "Promise_then (Promise_then m f) g = Promise_then m (\<lambda>x. Promise_then (f x) g)"
  by (rule ext) (simp add: Promise_then_def split: prod.splits sum.splits)

lemma checkoutSteps_prepare:
  "checkoutSteps env uid =
     Promise_then (checkoutPrepare env uid) (\<lambda>(taxResult, providerResult).
       if status providerResult = FAILED
       then providerCheckoutFailed env uid taxResult providerResult
       else
         Promise_then (markCompleted env uid (successResult taxResult providerResult)) (\<lambda>_.
         Promise_then (cleanup env uid) (\<lambda>_.
         resolve (successResult taxResult providerResult))))"
  by (simp add: checkoutSteps_def checkoutPrepare_def Promise_then_assoc Promise_then_resolve)

lemma providerCheckoutFailed_result:
  "providerCheckoutFailed env uid taxResult providerResult s = (r, s') \<Longrightarrow>
   \<exists>res. r = Inr res \<and> status res = FAILED \<and> orderId res = None
     \<and> error res = Some (providerError providerResult)"
  by (cases s)
    (auto simp: providerCheckoutFailed_def Promise_then_def assign_apply CartStore_update_apply
      theCart_apply resolve_def)

lemma checkoutRollback_result:
  "checkoutRollback env uid err s = (Inr res, s') \<Longrightarrow>
   status res = FAILED \<and> orderId res = None \<and> error res = Some (errorMessage err)"
  by (cases s)
    (auto simp: checkoutRollback_def Promise_then_def assign_apply CartStore_update_apply
      theCart_apply resolve_def calculateTax_def Let_def split: sum.splits)

section \<open>Rules for triples and invariants\<close>

lemma triple_then:
  assumes "triple P m R E" and "\<And>v. triple (R v) (f v) Q E"
  shows "triple P (Promise_then m f) Q E"
  using assms unfolding triple_def Promise_then_def
  by (fastforce split: prod.splits sum.splits)

lemma triple_catch:
  assumes "triple P m Q R" and "\<And>e. triple (R e) (h e) Q E"
  shows "triple P (Promise_catch m h) Q E"
  using assms unfolding triple_def Promise_catch_def
  by (fastforce split: prod.splits sum.splits)

lemma triple_weaken:
  assumes "triple P' m Q' E'" and "\<And>s. P s \<Longrightarrow> P' s"
    and "\<And>v s. Q' v s \<Longrightarrow> Q v s" and "\<And>e s. E' e s \<Longrightarrow> E e s"
  shows "triple P m Q E"
  using assms unfolding triple_def by (fastforce split: prod.splits sum.splits)

lemma triple_assume: "(C \<Longrightarrow> triple (\<lambda>s. True) m Q E) \<Longrightarrow> triple (\<lambda>s. C) m Q E"
  by (cases C) (simp_all add: triple_def)

lemma triple_then_keeps:
  "keeps I m \<Longrightarrow> (\<And>v. triple I (f v) Q (\<lambda>_. I)) \<Longrightarrow> triple I (Promise_then m f) Q (\<lambda>_. I)"
  unfolding keeps_def by (rule triple_then)

lemma keeps_then: "keeps I m \<Longrightarrow> (\<And>v. keeps I (f v)) \<Longrightarrow> keeps I (Promise_then m f)"
  unfolding keeps_def by (rule triple_then)

lemma keeps_catch: "keeps I m \<Longrightarrow> (\<And>e. keeps I (h e)) \<Longrightarrow> keeps I (Promise_catch m h)"
  unfolding keeps_def by (rule triple_catch)

lemma keeps_resolve: "keeps I (resolve v)"
  by (simp add: keeps_def triple_def resolve_def)

lemma keeps_throw: "keeps I (throw e)"
  by (simp add: keeps_def triple_def throw_def)

lemma keeps_fromResult: "keeps I (fromResult r)"
  by (cases r) (simp_all add: keeps_def triple_def fromResult_def)

lemma keeps_if: "keeps I a \<Longrightarrow> keeps I b \<Longrightarrow> keeps I (if c then a else b)"
  by simp

lemma keeps_case_option:
  "keeps I a \<Longrightarrow> (\<And>x. keeps I (b x)) \<Longrightarrow> keeps I (case opt of None \<Rightarrow> a | Some x \<Rightarrow> b x)"
  by (cases opt) simp_all

lemma keeps_forEach: "(\<And>x. keeps I (f x)) \<Longrightarrow> keeps I (forEach xs f)"
  by (induction xs) (simp_all add: keeps_resolve keeps_then)

lemma keepsD:
  "keeps I m \<Longrightarrow> I s \<Longrightarrow> I (snd (m s))"
  unfolding keeps_def triple_def by (cases "m s") (auto split: sum.splits)

lemma keeps_now: "keeps I (now env)"
  by (simp add: keeps_def triple_def now_def)

lemma keeps_theCart: "keeps I theCart"
  by (simp add: keeps_def triple_def theCart_def)

lemma keeps_calculateTax: "keeps I (calculateTax env)"
  by (simp add: keeps_def triple_def calculateTax_def Let_def split: sum.splits)

text \<open>Operations on the world that leave the cart store alone.\<close>

lemma keeps_inWorld:
  assumes "\<And>w. carts (snd (m w)) = carts w"
    and "\<And>c w w'. carts w' = carts w \<Longrightarrow> I (c, w) \<Longrightarrow> I (c, w')"
  shows "keeps I (inWorld m)"
  unfolding keeps_def triple_def inWorld_def
proof (intro allI impI)
  fix s :: "Cart \<times> 'a world"
  assume "I s"
  obtain c w where s: "s = (c, w)" by (cases s)
  obtain r w' where m: "m w = (r, w')" by (cases "m w")
  with assms(1) [of w] have "carts w' = carts w" by simp
  with assms(2) \<open>I s\<close> s have "I (c, w')" by simp
  with s m show "case (case s of (c, w) \<Rightarrow> case m w of (r, w') \<Rightarrow> (r, (c, w'))) of
           (Inl e, s') \<Rightarrow> I s' | (Inr v, s') \<Rightarrow> I s'"
    by (cases r) simp_all
qed

lemma callProvider_carts: "carts (snd (callProvider c f w)) = carts w"
  by (simp add: callProvider_def split: prod.splits)

lemma ProviderContextStore_get_carts: "carts (snd (ProviderContextStore_get env uid w)) = carts w"
  by (simp add: ProviderContextStore_get_def split: option.splits)

lemma ProviderContextStore_set_carts: "carts (snd (ProviderContextStore_set uid context w)) = carts w"
  by (simp add: ProviderContextStore_set_def)

lemma keeps_callProvider:
  assumes "\<And>c w w'. carts w' = carts w \<Longrightarrow> I (c, w) \<Longrightarrow> I (c, w')"
  shows "keeps I (inWorld (callProvider call f))"
  by (rule keeps_inWorld) (simp_all add: callProvider_carts assms)

lemma keeps_contextStore_get:
  assumes "\<And>c w w'. carts w' = carts w \<Longrightarrow> I (c, w) \<Longrightarrow> I (c, w')"
  shows "keeps I (inWorld (ProviderContextStore_get env uid))"
  by (rule keeps_inWorld) (simp_all add: ProviderContextStore_get_carts assms)

lemma keeps_contextStore_set:
  assumes "\<And>c w w'. carts w' = carts w \<Longrightarrow> I (c, w) \<Longrightarrow> I (c, w')"
  shows "keeps I (inWorld (ProviderContextStore_set uid context))"
  by (rule keeps_inWorld) (simp_all add: ProviderContextStore_set_carts assms)

lemma keeps_assign:
  assumes "\<And>c w. I (c, w) \<Longrightarrow> I (f c, w\<lparr>carts := AList.map_entry uid (\<lambda>_. f c) (carts w)\<rparr>)"
  shows "keeps I (assign uid f)"
  using assms by (simp add: keeps_def triple_def assign_def)

lemma keeps_update:
  assumes "\<And>c w t. I (c, w) \<Longrightarrow>
     I (c\<lparr>updatedAt := t, lastAccessedAt := t\<rparr>,
        w\<lparr>carts := AList.update uid (c\<lparr>updatedAt := t, lastAccessedAt := t\<rparr>) (carts w)\<rparr>)"
  shows "keeps I (CartStore_update env uid)"
  using assms by (simp add: keeps_def triple_def CartStore_update_def Let_def)

text \<open>
  The steps of the synchronisation: for an invariant that depends on the cart store only,
  and that assignments to the three fields of the synchronisation preserve.
\<close>

lemma keeps_syncSteps:
  assumes world: "\<And>c w w'. carts w' = carts w \<Longrightarrow> I (c, w) \<Longrightarrow> I (c, w')"
    and ext: "\<And>c w x. I (c, w) \<Longrightarrow>
        I (c\<lparr>externalCartId := x\<rparr>,
           w\<lparr>carts := AList.map_entry uid (\<lambda>_. c\<lparr>externalCartId := x\<rparr>) (carts w)\<rparr>)"
    and synced: "\<And>c w t. I (c, w) \<Longrightarrow>
        I (c\<lparr>syncStatus := SYNCED, lastSyncedAt := Some t\<rparr>,
           w\<lparr>carts := AList.map_entry uid (\<lambda>_. c\<lparr>syncStatus := SYNCED, lastSyncedAt := Some t\<rparr>) (carts w)\<rparr>)"
  shows "keeps I (getOrCreateContext env uid)" and "keeps I (createAndSyncContext env uid)"
    and "keeps I (syncSteps env uid)"
proof -
  show create: "keeps I (createAndSyncContext env uid)"
    unfolding createAndSyncContext_def
    by (intro keeps_then keeps_theCart keeps_resolve keeps_assign ext
        keeps_callProvider [of I, OF world] keeps_contextStore_set [of I, OF world])
  show getOr: "keeps I (getOrCreateContext env uid)"
    unfolding getOrCreateContext_def
    by (intro keeps_then keeps_case_option keeps_if keeps_resolve create
        keeps_callProvider [of I, OF world] keeps_contextStore_get [of I, OF world])
  show "keeps I (syncSteps env uid)"
    unfolding syncSteps_def
    by (intro keeps_then keeps_theCart keeps_forEach keeps_now keeps_assign synced getOr
        keeps_callProvider [of I, OF world])
qed

section \<open>A checkout that runs its steps\<close>

text \<open>
  Once the checks have let a checkout through, the steps record the start time on the cart,
  and every way out of them, the rollback included, leaves the cart completed or failed:
  the outcome is \<open>attempted\<close>, for every behaviour of the provider and the tax service.
\<close>

lemma inAttempt_assign:
  assumes "\<And>c. checkoutStartedAt (f c) = checkoutStartedAt c"
  shows "keeps (inAttempt t) (assign uid f)"
  by (rule keeps_assign) (simp add: inAttempt_def assms)

lemma inAttempt_update: "keeps (inAttempt t) (CartStore_update env uid)"
  by (rule keeps_update) (simp add: inAttempt_def)

lemma inAttempt_createAndSyncContext: "keeps (inAttempt t) (createAndSyncContext env uid)"
  by (rule keeps_syncSteps(2)) (simp_all add: inAttempt_def)

lemma inAttempt_callProvider: "keeps (inAttempt t) (inWorld (callProvider call f))"
  by (rule keeps_callProvider) (simp add: inAttempt_def)

lemma providerCheckoutFailed_attempted:
  "triple (inAttempt t) (providerCheckoutFailed env uid taxResult providerResult)
     (\<lambda>res s. attempted t uid (Inr res, snd s)) (\<lambda>_. inAttempt t)"
  by (simp add: triple_def providerCheckoutFailed_def Promise_then_def assign_apply
      CartStore_update_apply theCart_apply resolve_apply update_map_entry inAttempt_def
      attempted_def update_conv')

lemma completion_attempted:
  "triple (inAttempt t)
     (Promise_then (markCompleted env uid (successResult taxResult providerResult)) (\<lambda>_.
      Promise_then (cleanup env uid) (\<lambda>_. resolve (successResult taxResult providerResult))))
     (\<lambda>res s. attempted t uid (Inr res, snd s)) (\<lambda>_. inAttempt t)"
  by (simp add: triple_def Promise_then_def markCompleted_apply cleanup_apply resolve_apply
      inAttempt_def attempted_def update_conv' delete_conv' CartStore_delete_def
      ProviderContextStore_delete_def successResult_def split: option.splits)

lemma checkoutRollback_attempted:
  "triple (inAttempt t) (checkoutRollback env uid err)
     (\<lambda>res s. attempted t uid (Inr res, snd s)) (\<lambda>e s. attempted t uid (Inl e, snd s))"
  by (simp add: triple_def checkoutRollback_def Promise_then_def assign_apply
      CartStore_update_apply theCart_apply resolve_apply update_map_entry inAttempt_def
      attempted_def calculateTax_def Let_def update_conv' split: sum.splits)

lemma checkoutSteps_attempted:
  "triple (\<lambda>s. Date_now env (ext (snd s)) = t) (checkoutSteps env uid)
     (\<lambda>res s. attempted t uid (Inr res, snd s)) (\<lambda>_. inAttempt t)"
  unfolding checkoutSteps_def
  apply (rule triple_then [where R = "\<lambda>v s. v = t"])
   apply (simp add: triple_def now_def)
  apply (rule triple_assume)
  apply hypsubst
  apply (rule triple_then [where R = "\<lambda>_. inAttempt t"])
   apply (simp add: triple_def assign_def inAttempt_def)
  apply (intro triple_then_keeps keeps_theCart keeps_fromResult keeps_calculateTax
      inAttempt_update inAttempt_createAndSyncContext inAttempt_callProvider)
  apply (simp_all add: providerCheckoutFailed_attempted completion_attempted)
  done

lemma checkoutRun_attempted:
  "triple (\<lambda>s. Date_now env (ext (snd s)) = t)
     (Promise_catch (checkoutSteps env uid) (checkoutRollback env uid))
     (\<lambda>res s. attempted t uid (Inr res, snd s)) (\<lambda>e s. attempted t uid (Inl e, snd s))"
  by (rule triple_catch [OF checkoutSteps_attempted]) (rule checkoutRollback_attempted)

lemma checkoutTask_attempted:
  assumes "map_of (carts w) uid = Some cart" and "checkoutStatus cart \<noteq> COMPLETED"
    and "\<not> (checkoutStatus cart = IN_PROGRESS \<and> elapsedLess (checkoutElapsed env w cart) 60000)"
    and "items cart \<noteq> []"
  shows "attempted (Date_now env (ext w)) uid (checkoutTask env uid w)"
proof -
  obtain r c' w' where run:
    "Promise_catch (checkoutSteps env uid) (checkoutRollback env uid) (cart, w) = (r, c', w')"
    by (metis prod_cases3)
  from checkoutRun_attempted [of env "Date_now env (ext w)" uid]
  have "Date_now env (ext (snd (cart, w))) = Date_now env (ext w) \<longrightarrow>
    (case Promise_catch (checkoutSteps env uid) (checkoutRollback env uid) (cart, w) of
       (Inr res, s') \<Rightarrow> attempted (Date_now env (ext w)) uid (Inr res, snd s')
     | (Inl e, s') \<Rightarrow> attempted (Date_now env (ext w)) uid (Inl e, snd s'))"
    unfolding triple_def by (rule spec)
  with run have "attempted (Date_now env (ext w)) uid (r, w')" by (cases r) simp_all
  with checkoutTask_proceeds [OF assms(1-3)] assms(4) run show ?thesis
    by (simp add: withCart_apply)
qed

section \<open>Runs of the wired application\<close>

text \<open>
  The scenario worlds are what the operations compute; the runs are evaluated by
  simplification with the definitions of the program.
\<close>

lemma env0_fields:
  "provider_createCart env0 = Salesforce_createCart"
  "provider_addItem env0 = Salesforce_addItem"
  "provider_removeItem env0 = Salesforce_removeItem"
  "provider_getCart env0 = Salesforce_getCart"
  "provider_validateContext env0 = Salesforce_validateContext"
  "provider_checkout env0 = Salesforce_checkout"
  "taxService_calculateTax env0 its context p = Inr (TaxService_calculateTax newTaxService (sf_clock p) its context)"
  "Date_now env0 = sf_clock"
  "cartDeleteFault env0 p = None"
  "contextDeleteFault env0 p = None"
  by (simp_all add: env0_def salesforceEnv_def)

lemma phone_fields:
  "productId phone = ''prod1''" "itemName phone = ''iPhone 15''" "itemType phone = DEVICE"
  "quantity phone = 1" "price phone = 99999 / 100"
  by (simp_all add: phone_def)

lemmas run_defs = Promise_then_def Promise_catch_def fromResult_def validateCartItem_def
  CartService_getCart_def CartStore_get_def CartStore_set_def createNewCart_def resolve_def withCart_def
  assign_def CartStore_update_def syncToExternalProvider_def syncSteps_def getOrCreateContext_def
  createAndSyncContext_def inWorld_def callProvider_def ProviderContextStore_get_def
  ProviderContextStore_set_def theCart_def now_def findItemsToAdd_def findItemsToRemove_def
  Salesforce_createCart_def generateId_def Salesforce_getCart_def getCartByContext_def
  Salesforce_addItem_def Salesforce_removeItem_def contextExpired_def blank_def isWhitespace_def isInteger_def
  addItemLocally_def setQuantityLocally_def removeLocally_def Let_def

lemma showInt_values:
  "showInt 1793664000000 = ''1793664000000''"
  "showInt 0 = ''0''" "showInt 1 = ''1''" "showInt 2 = ''2''" "showInt 3 = ''3''"
  "showInt 4 = ''4''" "showInt 5 = ''5''"
  by code_simp+

lemma run_addItem: "addItemTask env0 ''user1'' phone w0 = (Inr phoneCart, wPhone)"
  by (simp add: addItemTask_def run_defs env0_fields w0_def initialWorld_def phone_fields
     phoneCart_def wPhone_def ctx0_def sfCart0_def showInt_values del: showInt.simps)


lemma envCleanupFails_fields:
  "provider_createCart envCleanupFails = Salesforce_createCart"
  "provider_addItem envCleanupFails = Salesforce_addItem"
  "provider_removeItem envCleanupFails = Salesforce_removeItem"
  "provider_getCart envCleanupFails = Salesforce_getCart"
  "provider_validateContext envCleanupFails = Salesforce_validateContext"
  "provider_checkout envCleanupFails = Salesforce_checkout"
  "taxService_calculateTax envCleanupFails its context p = Inr (TaxService_calculateTax newTaxService (sf_clock p) its context)"
  "Date_now envCleanupFails = sf_clock"
  "cartDeleteFault envCleanupFails p = Some (JsError ''Error'' ''delete failed'')"
  "contextDeleteFault envCleanupFails p = None"
  by (simp_all add: envCleanupFails_def salesforceEnv_def)

lemmas checkout_defs = checkoutTask_def checkoutSteps_def checkoutRollback_def checkoutElapsed_def
  calculateTax_def getDefaultTaxContext_def validateCartMatch_def providerCheckoutFailed_def
  markCompleted_def cleanup_def cleanupCartDelete_def cleanupContextDelete_def successResult_def
  CartStore_delete_def ProviderContextStore_delete_def Salesforce_checkout_def calculateTotal_def
  failedResult_def providerError_def

lemma run_checkout: "checkoutTask env0 ''user1'' wPhone = (Inr phoneOrder, wOrdered)"
  by (simp add: checkout_defs run_defs env0_fields phone_fields
     phoneCart_def wPhone_def ctx0_def sfCart0_def showInt_values
     phoneOrder_def wOrdered_def phoneTax_def del: showInt.simps)

lemma run_checkout_cleanup_fails:
  "checkoutTask envCleanupFails ''user1'' wPhone = (Inr phoneOrder, wCompleted)"
  by (simp add: checkout_defs run_defs envCleanupFails_fields phone_fields
     phoneCart_def wPhone_def ctx0_def sfCart0_def showInt_values
     phoneOrder_def wOrdered_def wCompleted_def completedCart_def ctx2_def phoneTax_def del: showInt.simps)

lemma run_getCart: "CartService_getCart env0 ''user1'' w0 = (Inr (createNewCart env0 ''user1'' w0), wEmptyCart)"
  by (simp add: run_defs env0_fields w0_def initialWorld_def wEmptyCart_def)

lemma run_removeItem_missing:
  "removeItemTask env0 ''user1'' ''prod9'' w0 = (Inl (ItemNotFoundError ''prod9''), wEmptyCart)"
  by (simp add: removeItemTask_def run_defs env0_fields w0_def initialWorld_def wEmptyCart_def throw_def)

lemma run_addItem_existing: "addItemTask env0 ''user1'' phone wEmptyCart = (Inr phoneCart, wPhone)"
  by (simp add: addItemTask_def run_defs env0_fields w0_def initialWorld_def phone_fields
     phoneCart_def wPhone_def ctx0_def sfCart0_def wEmptyCart_def showInt_values del: showInt.simps)

lemma run_checkout_no_start: "checkoutTask env0 ''user1'' wNoStart = (Inr phoneOrder, wOrdered)"
  by (simp add: checkout_defs run_defs env0_fields phone_fields
     phoneCart_def wPhone_def wNoStart_def ctx0_def sfCart0_def showInt_values
     phoneOrder_def wOrdered_def phoneTax_def del: showInt.simps)

lemma run_checkout_swept: "checkoutTask env0 ''user1'' wSwept = (Inr phoneOrder, wOrdered)"
  by (simp add: checkout_defs run_defs env0_fields phone_fields
     phoneCart_def wPhone_def wSwept_def ctx0_def sfCart0_def showInt_values
     phoneOrder_def wOrdered_def phoneTax_def del: showInt.simps)

lemma envTaxThrows_fields:
  "provider_createCart envTaxThrows = Salesforce_createCart"
  "provider_addItem envTaxThrows = Salesforce_addItem"
  "provider_removeItem envTaxThrows = Salesforce_removeItem"
  "provider_getCart envTaxThrows = Salesforce_getCart"
  "provider_validateContext envTaxThrows = Salesforce_validateContext"
  "provider_checkout envTaxThrows = Salesforce_checkout"
  "taxService_calculateTax envTaxThrows its context p = Inl (JsError ''Error'' ''tax service unavailable'')"
  "Date_now envTaxThrows = sf_clock"
  "cartDeleteFault envTaxThrows p = None"
  "contextDeleteFault envTaxThrows p = None"
  by (simp_all add: envTaxThrows_def env0_def salesforceEnv_def)

lemma run_checkoutSteps_tax_throws:
  "fst (checkoutSteps envTaxThrows ''user1'' (phoneCart, wPhone))
     = Inl (JsError ''Error'' ''tax service unavailable'')"
  by (simp add: checkout_defs run_defs envTaxThrows_fields phone_fields
     phoneCart_def wPhone_def ctx0_def sfCart0_def)

lemma envSessionExpired_fields:
  "provider_createCart envSessionExpired = Salesforce_createCart"
  "provider_addItem envSessionExpired = Salesforce_addItem"
  "provider_removeItem envSessionExpired = Salesforce_removeItem"
  "provider_getCart envSessionExpired contextId p = (Inl (ExternalProviderContextExpiredError contextId), p)"
  "provider_validateContext envSessionExpired = Salesforce_validateContext"
  "provider_checkout envSessionExpired = Salesforce_checkout"
  "taxService_calculateTax envSessionExpired its context p = Inr (TaxService_calculateTax newTaxService (sf_clock p) its context)"
  "Date_now envSessionExpired = sf_clock"
  "cartDeleteFault envSessionExpired p = None"
  "contextDeleteFault envSessionExpired p = None"
  by (simp_all add: envSessionExpired_def env0_def salesforceEnv_def)

lemma run_checkoutSteps_session_expired:
  "fst (checkoutSteps envSessionExpired ''user1'' (phoneCart, wPhone))
     = Inl (ExternalProviderContextExpiredError ''ctx_1793664000000_2'')"
  by (simp add: checkout_defs run_defs envSessionExpired_fields phone_fields
     phoneCart_def wPhone_def ctx0_def sfCart0_def showInt_values del: showInt.simps)

lemma envEmptyMessage_fields:
  "provider_createCart envEmptyMessage = Salesforce_createCart"
  "provider_addItem envEmptyMessage = Salesforce_addItem"
  "provider_removeItem envEmptyMessage = Salesforce_removeItem"
  "provider_getCart envEmptyMessage contextId p = (Inl (JsError ''Error'' []), p)"
  "provider_validateContext envEmptyMessage = Salesforce_validateContext"
  "provider_checkout envEmptyMessage = Salesforce_checkout"
  "taxService_calculateTax envEmptyMessage its context p = Inr (TaxService_calculateTax newTaxService (sf_clock p) its context)"
  "Date_now envEmptyMessage = sf_clock"
  "cartDeleteFault envEmptyMessage p = None"
  "contextDeleteFault envEmptyMessage p = None"
  by (simp_all add: envEmptyMessage_def env0_def salesforceEnv_def)

lemma run_getCart_session_expired:
  "CartService_getCart envSessionExpired ''user1'' w0 = (Inr (createNewCart env0 ''user1'' w0), wEmptyCart)"
  by (simp add: run_defs env0_fields envSessionExpired_fields w0_def initialWorld_def wEmptyCart_def)

lemma run_syncSteps_session_expired:
  "fst (syncSteps envSessionExpired ''user1''
         (afterLocalChange envSessionExpired ''user1'' (addItemLocally phone)
            (createNewCart env0 ''user1'' w0) wEmptyCart))
     = Inl (ExternalProviderContextExpiredError ''ctx_1793664000000_0'')"
  by (simp add: afterLocalChange_def run_defs env0_fields envSessionExpired_fields w0_def
      initialWorld_def wEmptyCart_def phone_fields showInt_values del: showInt.simps)

text \<open>
  \<open>removeItem('user1', 'prod9')\<close> on a cart that holds only the phone: it rejects with
  "item not found"; the cart was read at the time it was last written, so the world is as
  before.
\<close>

lemma run_removeItem_missing_phone:
  "removeItemTask env0 ''user1'' ''prod9'' wPhone = (Inl (ItemNotFoundError ''prod9''), wPhone)"
  by (simp add: removeItemTask_def run_defs env0_fields phone_fields phoneCart_def wPhone_def
      throw_def)

lemma run_removeItem_missing_no_start:
  "removeItemTask env0 ''user1'' ''prod9'' wNoStart = (Inl (ItemNotFoundError ''prod9''), wNoStart)"
  by (simp add: removeItemTask_def run_defs env0_fields phone_fields phoneCart_def wPhone_def
      wNoStart_def throw_def)

lemma run_removeItem_missing_swept:
  "removeItemTask env0 ''user1'' ''prod9'' wSwept = (Inl (ItemNotFoundError ''prod9''), wSwept)"
  by (simp add: removeItemTask_def run_defs env0_fields phone_fields phoneCart_def wPhone_def
      wSwept_def throw_def)

lemma run_removeItem_missing_completed:
  "removeItemTask envCleanupFails ''user1'' ''prod9'' wCompleted
     = (Inl (ItemNotFoundError ''prod9''), wCompleted)"
  by (simp add: removeItemTask_def run_defs envCleanupFails_fields phone_fields phoneCart_def
      wCompleted_def wOrdered_def completedCart_def throw_def)

section \<open>The completed status is stored before the clean-up\<close>

lemma checkoutSteps_completed_order:
  assumes "checkoutSteps env uid s = (Inr res, (c', w1))" and "status res = COMPLETED"
  shows "\<exists>taxResult providerResult s7 s8.
           checkoutPrepare env uid s = (Inr (taxResult, providerResult), s7)
         \<and> res = successResult taxResult providerResult
         \<and> markCompleted env uid res s7 = (Inr (), s8)
         \<and> map_of (carts (snd s8)) uid = Some (fst s8)
         \<and> checkoutStatus (fst s8) = COMPLETED \<and> checkoutResult (fst s8) = Some res
         \<and> cleanup env uid s8 = (Inr (), (fst s8, w1))
         \<and> map_of (carts w1) uid =
             (if cartDeleteFault env (ext (snd s8)) = None then None else Some (fst s8))"
proof -
  from assms(1) obtain tr pr s7 where prep: "checkoutPrepare env uid s = (Inr (tr, pr), s7)"
    and rest: "(if status pr = FAILED then providerCheckoutFailed env uid tr pr
                else Promise_then (markCompleted env uid (successResult tr pr)) (\<lambda>_.
                     Promise_then (cleanup env uid) (\<lambda>_. resolve (successResult tr pr)))) s7
               = (Inr res, (c', w1))"
    unfolding checkoutSteps_prepare by (elim Promise_thenE) auto
  from rest assms(2) have tail:
    "Promise_then (markCompleted env uid (successResult tr pr)) (\<lambda>_.
       Promise_then (cleanup env uid) (\<lambda>_. resolve (successResult tr pr))) s7
     = (Inr res, (c', w1))"
    by (auto split: if_splits dest!: providerCheckoutFailed_result)
  obtain c7 w7 where s7: "s7 = (c7, w7)" by (cases s7)
  define c8 where "c8 = c7\<lparr>checkoutStatus := COMPLETED,
        checkoutCompletedAt := Some (Date_now env (ext w7)),
        checkoutResult := Some (successResult tr pr),
        updatedAt := Date_now env (ext w7), lastAccessedAt := Date_now env (ext w7)\<rparr>"
  define w8 where "w8 = w7\<lparr>carts := AList.update uid c8 (carts w7)\<rparr>"
  define s8 where "s8 = (c8, w8)"
  from tail have res: "res = successResult tr pr"
    and clean: "cleanup env uid s8 = (Inr (), (fst s8, w1))"
    unfolding s7 s8_def w8_def c8_def
    by (auto simp: Promise_then_def markCompleted_apply cleanup_apply resolve_apply)
  have mark: "markCompleted env uid res s7 = (Inr (), s8)"
    unfolding s7 s8_def w8_def c8_def by (simp add: markCompleted_apply res)
  have stored: "map_of (carts (snd s8)) uid = Some (fst s8)"
    unfolding s8_def w8_def by (simp add: update_conv')
  have completed: "checkoutStatus (fst s8) = COMPLETED" "checkoutResult (fst s8) = Some res"
    unfolding s8_def c8_def by (simp_all add: res)
  from clean stored have left: "map_of (carts w1) uid =
      (if cartDeleteFault env (ext (snd s8)) = None then None else Some (fst s8))"
    unfolding s8_def
    by (auto simp: cleanup_apply CartStore_delete_def ProviderContextStore_delete_def delete_conv'
        split: option.splits)
  from prep res mark stored completed clean left show ?thesis by blast
qed

lemma checkoutTask_completed_order:
  assumes "map_of (carts w) uid = Some cart" and "checkoutStatus cart \<noteq> COMPLETED"
    and "checkoutTask env uid w = (Inr res, w1)" and "status res = COMPLETED"
  shows "\<exists>c'. checkoutSteps env uid (cart, w) = (Inr res, (c', w1))"
proof (cases "checkoutStatus cart = IN_PROGRESS \<and> elapsedLess (checkoutElapsed env w cart) 60000")
  case True
  with assms show ?thesis by (auto simp: checkoutTask_in_progress failedResult_def)
next
  case False
  with assms
  have "withCart cart (Promise_catch (checkoutSteps env uid) (checkoutRollback env uid)) w = (Inr res, w1)"
    by (auto simp: checkoutTask_proceeds failedResult_def split: if_splits)
  with assms(4) show ?thesis
    by (auto simp: withCart_apply Promise_catch_def split: prod.splits sum.splits
        dest!: checkoutRollback_result)
qed

text \<open>
  After a checkout that returned a completed result, the next checkout returns that result
  from the cache, or "cart not found" when the clean-up has deleted the cart, and changes
  nothing.
\<close>

lemma checkoutTask_again:
  assumes "checkoutTask env uid w = (Inr res1, w1)" and "status res1 = COMPLETED"
  shows "checkoutTask env uid w1 =
           (Inr (case map_of (carts w1) uid of
                   None \<Rightarrow> failedResult uid [] CART_NOT_FOUND_MSG
                 | Some _ \<Rightarrow> res1), w1)"
proof (cases "map_of (carts w) uid")
  case None
  with assms show ?thesis by (simp add: checkoutTask_not_found failedResult_def)
next
  case (Some cart)
  show ?thesis
  proof (cases "checkoutStatus cart = COMPLETED")
    case True
    with Some assms have "w1 = w" and "checkoutResult cart = Some res1"
      by (auto simp: checkoutTask_completed failedResult_def split: option.splits)
    with Some True show ?thesis by (simp add: checkoutTask_completed)
  next
    case False
    from checkoutTask_completed_order [OF Some False assms]
    obtain c' where "checkoutSteps env uid (cart, w) = (Inr res1, (c', w1))" ..
    from checkoutSteps_completed_order [OF this assms(2)]
    obtain taxResult providerResult s7 s8 where
      "checkoutPrepare env uid (cart, w) = (Inr (taxResult, providerResult), s7)"
      "res1 = successResult taxResult providerResult"
      "markCompleted env uid res1 s7 = (Inr (), s8)"
      "map_of (carts (snd s8)) uid = Some (fst s8)"
      and s8: "checkoutStatus (fst s8) = COMPLETED" "checkoutResult (fst s8) = Some res1"
      "cleanup env uid s8 = (Inr (), (fst s8, w1))"
      "map_of (carts w1) uid =
         (if cartDeleteFault env (ext (snd s8)) = None then None else Some (fst s8))"
      by blast
    show ?thesis
    proof (cases "cartDeleteFault env (ext (snd s8)) = None")
      case True
      with s8(4) show ?thesis by (simp add: checkoutTask_not_found)
    next
      case False
      with s8 show ?thesis by (simp add: checkoutTask_completed)
    qed
  qed
qed

text \<open>
  C2. A checkout call, made in the world \<open>u\<close> and run in the world \<open>w\<close> that the user's earlier
  operations leave (\<open>r\<close> and \<open>w\<close> name what \<open>previousOp\<close> computes), returns a completed result
  \<open>res\<close> for a cart that was not completed. Then the run went through these states, each
  determined by the one before: \<open>s7\<close>, reached by steps 1 to 5 from \<open>w\<close>; \<open>s8\<close>, reached from
  \<open>s7\<close> by step 8, in which the cart store holds the cart as completed with \<open>res\<close> cached; and
  the final world, reached from \<open>s8\<close> by the clean-up of step 9. So the completed status and
  the result are stored before the deletes run. The final world holds the completed cart if
  the delete of the cart store failed, and no cart of the user otherwise: the cart is
  \<open>checkedOut\<close>.

  Later checkout calls: whatever the queue holds for the user, in every world \<open>w2\<close> in which
  the cart is still checked out when the later checkout would run, the call either passes on
  the rejection of an earlier operation without running, or returns the cached result \<open>res\<close>
  (the failed result "cart not found" when the cart is gone), and in both cases leaves the
  world as it is: the provider is not called and no new order id is made.
\<close>

theorem C2_completed_before_cleanup:
  assumes "previousOp queues uid u = (r, w)"
    and "map_of (carts w) uid = Some cart" and "checkoutStatus cart \<noteq> COMPLETED"
    and "fst (CartService_checkout env queues uid) u = (Inr res, w1)" and "status res = COMPLETED"
  shows "(\<exists>taxResult providerResult s7 s8.
            checkoutPrepare env uid (cart, w) = (Inr (taxResult, providerResult), s7)
          \<and> res = successResult taxResult providerResult
          \<and> markCompleted env uid res s7 = (Inr (), s8)
          \<and> map_of (carts (snd s8)) uid = Some (fst s8)
          \<and> checkoutStatus (fst s8) = COMPLETED \<and> checkoutResult (fst s8) = Some res
          \<and> cleanup env uid s8 = (Inr (), (fst s8, w1))
          \<and> map_of (carts w1) uid =
              (if cartDeleteFault env (ext (snd s8)) = None then None else Some (fst s8)))
       \<and> checkedOut uid res w1
       \<and> (\<forall>queues' u' r' w2.
             previousOp queues' uid u' = (r', w2) \<and> checkedOut uid res w2 \<longrightarrow>
             fst (CartService_checkout env queues' uid) u' =
               (case r' of
                  Inl e \<Rightarrow> (Inl e, w2)
                | Inr _ \<Rightarrow>
                    (Inr (case map_of (carts w2) uid of
                            None \<Rightarrow> failedResult uid [] CART_NOT_FOUND_MSG
                          | Some _ \<Rightarrow> res), w2)))
       \<and> status (failedResult uid [] CART_NOT_FOUND_MSG) = FAILED
       \<and> orderId (failedResult uid [] CART_NOT_FOUND_MSG) = None"
    (is "?order \<and> ?left \<and> ?later \<and> ?failed \<and> ?noOrder")
proof -
  from assms(4) enqueue_run [OF assms(1), of "checkoutTask env uid"]
  have first: "checkoutTask env uid w = (Inr res, w1)"
    by (cases r) (simp_all add: CartService_checkout_def)
  from checkoutTask_completed_order [OF assms(2,3) first assms(5)]
  obtain c' where "checkoutSteps env uid (cart, w) = (Inr res, (c', w1))" ..
  from checkoutSteps_completed_order [OF this assms(5)]
  obtain taxResult providerResult s7 s8 where order:
      "checkoutPrepare env uid (cart, w) = (Inr (taxResult, providerResult), s7)"
      "res = successResult taxResult providerResult"
      "markCompleted env uid res s7 = (Inr (), s8)"
      "map_of (carts (snd s8)) uid = Some (fst s8)"
      "checkoutStatus (fst s8) = COMPLETED" "checkoutResult (fst s8) = Some res"
      "cleanup env uid s8 = (Inr (), (fst s8, w1))"
      "map_of (carts w1) uid =
         (if cartDeleteFault env (ext (snd s8)) = None then None else Some (fst s8))"
    by blast
  have later: "fst (CartService_checkout env queues' uid) u' =
               (case r' of
                  Inl e \<Rightarrow> (Inl e, w2)
                | Inr _ \<Rightarrow>
                    (Inr (case map_of (carts w2) uid of
                            None \<Rightarrow> failedResult uid [] CART_NOT_FOUND_MSG
                          | Some _ \<Rightarrow> res), w2))"
    if prev: "previousOp queues' uid u' = (r', w2)" and kept: "checkedOut uid res w2"
    for queues' u' r' w2
  proof (cases r')
    case (Inl e)
    with enqueue_run [OF prev, of "checkoutTask env uid"] show ?thesis
      by (simp add: CartService_checkout_def)
  next
    case (Inr v)
    with enqueue_run [OF prev, of "checkoutTask env uid"]
    have run: "fst (CartService_checkout env queues' uid) u' = checkoutTask env uid w2"
      by (simp add: CartService_checkout_def)
    show ?thesis
    proof (cases "map_of (carts w2) uid")
      case None
      with run Inr show ?thesis by (simp add: checkoutTask_not_found)
    next
      case (Some c)
      with kept have "checkoutStatus c = COMPLETED" "checkoutResult c = Some res"
        by (simp_all add: checkedOut_def)
      with run Inr Some show ?thesis by (simp add: checkoutTask_completed)
    qed
  qed
  from order have ?order by blast
  moreover from order(5,6,8) have ?left by (simp add: checkedOut_def)
  moreover from later have ?later by blast
  moreover have ?failed and ?noOrder by (simp_all add: failedResult_def)
  ultimately show ?thesis by blast
qed

text \<open>
  The delete of the cart store is forced to fail: the checkout of the phone cart returns the
  order and leaves the completed cart in the store. A second checkout returns the same order
  and changes nothing; behind a \<open>removeItem\<close> that rejects, it passes the rejection on.
\<close>

theorem C2_completed_before_cleanup_witness:
  "(\<exists>taxResult providerResult s7 s8.
       checkoutPrepare envCleanupFails ''user1'' (phoneCart, wPhone)
         = (Inr (taxResult, providerResult), s7)
     \<and> phoneOrder = successResult taxResult providerResult
     \<and> markCompleted envCleanupFails ''user1'' phoneOrder s7 = (Inr (), s8)
     \<and> map_of (carts (snd s8)) ''user1'' = Some (fst s8)
     \<and> checkoutStatus (fst s8) = COMPLETED \<and> checkoutResult (fst s8) = Some phoneOrder
     \<and> cleanup envCleanupFails ''user1'' s8 = (Inr (), (fst s8, wCompleted)))
   \<and> fst (CartService_checkout envCleanupFails [] ''user1'') wCompleted = (Inr phoneOrder, wCompleted)
   \<and> fst (CartService_checkout envCleanupFails
            (snd (CartService_removeItem envCleanupFails [] ''user1'' ''prod9'')) ''user1'') wCompleted
       = (Inl (ItemNotFoundError ''prod9''), wCompleted)"
proof -
  have idle: "previousOp ([] :: Salesforce world CartOperationQueue) ''user1'' wPhone = (Inr (), wPhone)"
    "previousOp ([] :: Salesforce world CartOperationQueue) ''user1'' wCompleted = (Inr (), wCompleted)"
    by (simp_all add: previousOp_idle)
  have behind: "previousOp (snd (CartService_removeItem envCleanupFails [] ''user1'' ''prod9''))
      ''user1'' wCompleted = (Inl (ItemNotFoundError ''prod9''), wCompleted)"
    by (simp add: CartService_removeItem_def previousOp_enqueued enqueue_idle
        run_removeItem_missing_completed)
  have cart: "map_of (carts wPhone) ''user1'' = Some phoneCart" "checkoutStatus phoneCart \<noteq> COMPLETED"
    by (simp_all add: wPhone_def phoneCart_def)
  have first: "fst (CartService_checkout envCleanupFails [] ''user1'') wPhone = (Inr phoneOrder, wCompleted)"
    by (simp add: CartService_checkout_def enqueue_idle run_checkout_cleanup_fails)
  have fin: "status phoneOrder = COMPLETED"
    by (simp add: phoneOrder_def)
  have left: "map_of (carts wCompleted) ''user1'' = Some completedCart"
    by (simp add: wCompleted_def)
  note C2 = C2_completed_before_cleanup [OF idle(1) cart first fin]
  from C2 have kept: "checkedOut ''user1'' phoneOrder wCompleted" by blast
  from C2 have "\<exists>taxResult providerResult s7 s8.
       checkoutPrepare envCleanupFails ''user1'' (phoneCart, wPhone)
         = (Inr (taxResult, providerResult), s7)
     \<and> phoneOrder = successResult taxResult providerResult
     \<and> markCompleted envCleanupFails ''user1'' phoneOrder s7 = (Inr (), s8)
     \<and> map_of (carts (snd s8)) ''user1'' = Some (fst s8)
     \<and> checkoutStatus (fst s8) = COMPLETED \<and> checkoutResult (fst s8) = Some phoneOrder
     \<and> cleanup envCleanupFails ''user1'' s8 = (Inr (), (fst s8, wCompleted))"
    by blast
  moreover from C2 [THEN conjunct2, THEN conjunct2, THEN conjunct1, rule_format, OF conjI,
      OF idle(2) kept] left
  have "fst (CartService_checkout envCleanupFails [] ''user1'') wCompleted = (Inr phoneOrder, wCompleted)"
    by simp
  moreover from C2 [THEN conjunct2, THEN conjunct2, THEN conjunct1, rule_format, OF conjI,
      OF behind kept] left
  have "fst (CartService_checkout envCleanupFails
            (snd (CartService_removeItem envCleanupFails [] ''user1'' ''prod9'')) ''user1'') wCompleted
       = (Inl (ItemNotFoundError ''prod9''), wCompleted)"
    by simp
  ultimately show ?thesis by blast
qed

section \<open>Idempotent checkout\<close>

text \<open>
  C1 (fails on the code behind a failed operation). The call is made in the world \<open>u\<close>;
  \<open>w\<close> is the world that the user's earlier operations, if any are pending, leave, and \<open>r\<close>
  is their outcome. When the user's cart is completed and the earlier operations have
  fulfilled, or none is pending, checkout returns the cached result if there is one and
  otherwise the failed result "already checked out", and leaves the whole world as it is,
  the log of provider calls included: no operation of the provider is invoked. When the
  earlier operation has rejected, checkout is not run and the caller receives that
  rejection instead of the cached result. And when a checkout returns a completed result,
  a second checkout enqueued right behind it runs in the world that the first one left,
  changes nothing, and returns that same result if the cart is still stored and the failed
  result "cart not found", without an order id, if the clean-up has deleted it. But two
  checkouts enqueued behind an operation that has rejected both reject, so that no
  completed result is returned at all.
\<close>

theorem C1_completed_short_circuit:
  assumes "previousOp queues uid u = (r, w)"
  shows "(\<forall>cart. map_of (carts w) uid = Some cart \<and> checkoutStatus cart = COMPLETED \<longrightarrow>
            fst (CartService_checkout env queues uid) u =
              (case r of
                 Inl e \<Rightarrow> (Inl e, w)
               | Inr _ \<Rightarrow>
                   (Inr (case checkoutResult cart of
                           Some cached \<Rightarrow> cached
                         | None \<Rightarrow> failedResult uid (items cart) CART_ALREADY_CHECKED_OUT), w))
            \<and> calls (snd (fst (CartService_checkout env queues uid) u)) = calls w)
       \<and> (\<forall>res1 w1. fst (CartService_checkout env queues uid) u = (Inr res1, w1)
                    \<and> status res1 = COMPLETED \<longrightarrow>
            fst (CartService_checkout env (snd (CartService_checkout env queues uid)) uid) u =
              (Inr (case map_of (carts w1) uid of
                      None \<Rightarrow> failedResult uid [] CART_NOT_FOUND_MSG
                    | Some _ \<Rightarrow> res1), w1))
       \<and> status (failedResult uid [] CART_NOT_FOUND_MSG) = FAILED
       \<and> orderId (failedResult uid [] CART_NOT_FOUND_MSG) = None
       \<and> (\<forall>e. r = Inl e \<longrightarrow>
             fst (CartService_checkout env queues uid) u = (Inl e, w)
           \<and> fst (CartService_checkout env (snd (CartService_checkout env queues uid)) uid) u
               = (Inl e, w))"
    (is "?completed \<and> ?twice \<and> ?failed \<and> ?noOrder \<and> ?poisoned")
proof -
  note run = enqueue_run [OF assms, of "checkoutTask env uid"]
  have ?poisoned
  proof (intro allI impI)
    fix e
    assume "r = Inl e"
    with run have first: "fst (CartService_checkout env queues uid) u = (Inl e, w)"
      by (simp add: CartService_checkout_def)
    then have "fst (CartService_checkout env (snd (CartService_checkout env queues uid)) uid) u
        = (Inl e, w)"
      by (simp add: CartService_checkout_def enqueue_twice)
    with first
    show "fst (CartService_checkout env queues uid) u = (Inl e, w)
           \<and> fst (CartService_checkout env (snd (CartService_checkout env queues uid)) uid) u
               = (Inl e, w)"
      by simp
  qed
  moreover
  from run have ?completed
    by (auto simp: CartService_checkout_def checkoutTask_completed split: sum.splits)
  moreover have ?twice
  proof (intro allI impI)
    fix res1 w1
    assume "fst (CartService_checkout env queues uid) u = (Inr res1, w1) \<and> status res1 = COMPLETED"
    then have call: "fst (CartService_checkout env queues uid) u = (Inr res1, w1)"
      and fin: "status res1 = COMPLETED" by simp_all
    from call run have first: "checkoutTask env uid w = (Inr res1, w1)"
      by (cases r) (simp_all add: CartService_checkout_def)
    have "fst (CartService_checkout env (snd (CartService_checkout env queues uid)) uid) u
        = checkoutTask env uid w1"
      using call by (simp add: CartService_checkout_def enqueue_twice)
    with checkoutTask_again [OF first fin]
    show "fst (CartService_checkout env (snd (CartService_checkout env queues uid)) uid) u =
              (Inr (case map_of (carts w1) uid of
                      None \<Rightarrow> failedResult uid [] CART_NOT_FOUND_MSG
                    | Some _ \<Rightarrow> res1), w1)"
      by simp
  qed
  moreover have ?failed and ?noOrder by (simp_all add: failedResult_def)
  ultimately show ?thesis by blast
qed

text \<open>
  On the cart with the phone: \<open>removeItem('user1', 'prod9')\<close> rejects, and two calls of
  \<open>checkout('user1')\<close> enqueued right behind it both reject with the error of \<open>removeItem\<close>:
  there is no completed result at all. With the completed cart of \<open>user1\<close> in the store, its
  result cached (as a checkout whose clean-up failed leaves it): \<open>removeItem('user1', 'prod9')\<close>
  rejects, and \<open>checkout('user1')\<close> enqueued right behind it rejects with the error of
  \<open>removeItem\<close>; on its own, the checkout returns the cached order. And of two checkouts of
  the phone cart in immediate succession, with nothing pending before them, the first
  returns the order and the second "cart not found".
\<close>

theorem C1_completed_short_circuit_witness:
  "fst (CartService_checkout env0 (snd (CartService_removeItem env0 [] ''user1'' ''prod9'')) ''user1'')
       wPhone
     = (Inl (ItemNotFoundError ''prod9''), wPhone)
   \<and> fst (CartService_checkout env0
            (snd (CartService_checkout env0
                    (snd (CartService_removeItem env0 [] ''user1'' ''prod9'')) ''user1'')) ''user1'')
         wPhone
     = (Inl (ItemNotFoundError ''prod9''), wPhone)
   \<and> fst (CartService_checkout envCleanupFails
          (snd (CartService_removeItem envCleanupFails [] ''user1'' ''prod9'')) ''user1'') wCompleted
     = (Inl (ItemNotFoundError ''prod9''), wCompleted)
   \<and> fst (CartService_checkout envCleanupFails [] ''user1'') wCompleted = (Inr phoneOrder, wCompleted)
   \<and> fst (CartService_checkout env0 (snd (CartService_checkout env0 [] ''user1'')) ''user1'') wPhone
       = (Inr (failedResult ''user1'' [] CART_NOT_FOUND_MSG), wOrdered)"
proof -
  have behind: "previousOp (snd (CartService_removeItem envCleanupFails [] ''user1'' ''prod9''))
      ''user1'' wCompleted = (Inl (ItemNotFoundError ''prod9''), wCompleted)"
    by (simp add: CartService_removeItem_def previousOp_enqueued enqueue_idle
        run_removeItem_missing_completed)
  have idle: "previousOp ([] :: Salesforce world CartOperationQueue) ''user1'' wCompleted
      = (Inr (), wCompleted)"
    "previousOp ([] :: Salesforce world CartOperationQueue) ''user1'' wPhone = (Inr (), wPhone)"
    by (simp_all add: previousOp_idle)
  have cart: "map_of (carts wCompleted) ''user1'' = Some completedCart \<and> checkoutStatus completedCart = COMPLETED"
    by (simp add: wCompleted_def completedCart_def)
  have cached: "checkoutResult completedCart = Some phoneOrder"
    by (simp add: completedCart_def)
  have first: "fst (CartService_checkout env0 [] ''user1'') wPhone = (Inr phoneOrder, wOrdered)
     \<and> status phoneOrder = COMPLETED"
    by (simp add: CartService_checkout_def enqueue_idle run_checkout phoneOrder_def)
  have gone: "map_of (carts wOrdered) ''user1'' = None"
    by (simp add: wOrdered_def)
  have poisoned: "previousOp (snd (CartService_removeItem env0 [] ''user1'' ''prod9'')) ''user1'' wPhone
      = (Inl (ItemNotFoundError ''prod9''), wPhone)"
    by (simp add: CartService_removeItem_def previousOp_enqueued enqueue_idle
        run_removeItem_missing_phone)
  from C1_completed_short_circuit [OF poisoned, of env0]
  have "fst (CartService_checkout env0 (snd (CartService_removeItem env0 [] ''user1'' ''prod9'')) ''user1'')
       wPhone
     = (Inl (ItemNotFoundError ''prod9''), wPhone)
   \<and> fst (CartService_checkout env0
            (snd (CartService_checkout env0
                    (snd (CartService_removeItem env0 [] ''user1'' ''prod9'')) ''user1'')) ''user1'')
         wPhone
     = (Inl (ItemNotFoundError ''prod9''), wPhone)"
    by blast
  moreover
  from C1_completed_short_circuit [OF behind, of envCleanupFails] cart
  have "fst (CartService_checkout envCleanupFails
          (snd (CartService_removeItem envCleanupFails [] ''user1'' ''prod9'')) ''user1'') wCompleted
     = (Inl (ItemNotFoundError ''prod9''), wCompleted)" by simp
  moreover from C1_completed_short_circuit [OF idle(1), of envCleanupFails] cart cached
  have "fst (CartService_checkout envCleanupFails [] ''user1'') wCompleted = (Inr phoneOrder, wCompleted)"
    by simp
  moreover from C1_completed_short_circuit [OF idle(2), of env0] first gone
  have "fst (CartService_checkout env0 (snd (CartService_checkout env0 [] ''user1'')) ''user1'') wPhone
       = (Inr (failedResult ''user1'' [] CART_NOT_FOUND_MSG), wOrdered)"
    by simp
  ultimately show ?thesis by blast
qed

section \<open>Checkout returns a result, or throws\<close>

lemma checkoutRollback_apply:
  assumes "taxService_calculateTax env (items c)
             (case taxContext c of Some tc \<Rightarrow> tc | None \<Rightarrow> getDefaultTaxContext env w) (ext w)
           = Inr taxResult"
  shows "checkoutRollback env uid err (c, w) =
    (Inr \<lparr>subtotal = subtotal taxResult, taxes = taxes taxResult,
          totalTax = totalTax taxResult, total = total taxResult,
          orderId = None, r_userId = uid, status = FAILED, r_items = items c,
          completedAt = None, error = Some (errorMessage err)\<rparr>,
     (c\<lparr>checkoutStatus := FAILED, checkoutError := Some (errorMessage err),
        updatedAt := Date_now env (ext w), lastAccessedAt := Date_now env (ext w)\<rparr>,
      w\<lparr>carts := AList.update uid
            (c\<lparr>checkoutStatus := FAILED, checkoutError := Some (errorMessage err),
               updatedAt := Date_now env (ext w), lastAccessedAt := Date_now env (ext w)\<rparr>)
            (carts w)\<rparr>))"
  using assms
  by (cases "taxContext c")
    (simp_all add: checkoutRollback_def Promise_then_def assign_apply CartStore_update_apply
      calculateTax_def theCart_apply resolve_apply update_map_entry getDefaultTaxContext_def)

lemma checkoutTask_total:
  assumes "\<And>its context p. \<exists>r. taxService_calculateTax env its context p = Inr r"
  shows "\<exists>res w'. checkoutTask env uid w = (Inr res, w')"
proof (cases "map_of (carts w) uid")
  case None
  then show ?thesis by (simp add: checkoutTask_not_found)
next
  case (Some cart)
  show ?thesis
  proof (cases "checkoutStatus cart \<noteq> COMPLETED
      \<and> \<not> (checkoutStatus cart = IN_PROGRESS \<and> elapsedLess (checkoutElapsed env w cart) 60000)
      \<and> items cart \<noteq> []")
    case False
    show ?thesis
    proof (cases "checkoutStatus cart = COMPLETED")
      case True
      with Some show ?thesis by (simp add: checkoutTask_completed)
    next
      case notCompleted: False
      show ?thesis
      proof (cases "checkoutStatus cart = IN_PROGRESS
          \<and> elapsedLess (checkoutElapsed env w cart) 60000")
        case True
        with Some show ?thesis by (simp add: checkoutTask_in_progress)
      next
        case notFresh: False
        with False notCompleted have "items cart = []" by blast
        with checkoutTask_proceeds [OF Some notCompleted notFresh] show ?thesis by simp
      qed
    qed
  next
    case True
    with Some have run: "checkoutTask env uid w =
        withCart cart (Promise_catch (checkoutSteps env uid) (checkoutRollback env uid)) w"
      by (simp add: checkoutTask_proceeds)
    obtain r c1 w1 where steps: "checkoutSteps env uid (cart, w) = (r, (c1, w1))"
      by (metis prod.exhaust)
    show ?thesis
    proof (cases r)
      case (Inr res)
      with steps run show ?thesis by (simp add: withCart_apply Promise_catch_def)
    next
      case (Inl e)
      from assms obtain taxResult where "taxService_calculateTax env (items c1)
             (case taxContext c1 of Some tc \<Rightarrow> tc | None \<Rightarrow> getDefaultTaxContext env w1) (ext w1)
           = Inr taxResult" by blast
      from checkoutRollback_apply [OF this] Inl steps run show ?thesis
        by (simp add: withCart_apply Promise_catch_def)
    qed
  qed
qed

lemma checkoutRollback_outcome:
  "checkoutRollback env uid err (c, w) =
    (case taxService_calculateTax env (items c)
            (case taxContext c of Some tc \<Rightarrow> tc | None \<Rightarrow> getDefaultTaxContext env w) (ext w) of
       Inl e' \<Rightarrow> Inl e'
     | Inr taxResult \<Rightarrow>
         Inr \<lparr>subtotal = subtotal taxResult, taxes = taxes taxResult,
              totalTax = totalTax taxResult, total = total taxResult,
              orderId = None, r_userId = uid, status = FAILED, r_items = items c,
              completedAt = None, error = Some (errorMessage err)\<rparr>,
     (c\<lparr>checkoutStatus := FAILED, checkoutError := Some (errorMessage err),
        updatedAt := Date_now env (ext w), lastAccessedAt := Date_now env (ext w)\<rparr>,
      w\<lparr>carts := AList.update uid
            (c\<lparr>checkoutStatus := FAILED, checkoutError := Some (errorMessage err),
               updatedAt := Date_now env (ext w), lastAccessedAt := Date_now env (ext w)\<rparr>)
            (carts w)\<rparr>))"
  by (cases "taxContext c")
    (simp_all add: checkoutRollback_def Promise_then_def assign_apply CartStore_update_apply
      calculateTax_def theCart_apply resolve_apply update_map_entry getDefaultTaxContext_def
      split: sum.splits)

text \<open>
  C3 (fails on the code). The call is made in the world \<open>u\<close>; \<open>w\<close> is the world that the
  user's earlier operations, if any are pending, leave, and \<open>r\<close> is their outcome.
  Checkout throws to its caller in two cases. When the earlier operation has rejected,
  checkout is not run and the caller receives that rejection. And when the checkout steps
  throw an error \<open>e\<close>, the \<open>catch\<close> block stores the cart as failed with the message of \<open>e\<close>
  and then calls the tax service again, outside any \<open>try\<close>: if that call throws, checkout
  rejects with what it throws; if it returns, checkout returns the result tagged failed that
  carries the message of \<open>e\<close>. With a tax service that never throws, and the earlier
  operations fulfilled or none pending, checkout always returns a result.
\<close>

theorem C3_checkout_returns_or_throws:
  assumes "previousOp queues uid u = (r, w)"
  shows "(\<forall>e. r = Inl e \<longrightarrow> fst (CartService_checkout env queues uid) u = (Inl e, w))
       \<and> (\<forall>v cart e c1 w1.
             r = Inr v \<and> map_of (carts w) uid = Some cart \<and> checkoutStatus cart \<noteq> COMPLETED
             \<and> \<not> (checkoutStatus cart = IN_PROGRESS
                    \<and> elapsedLess (checkoutElapsed env w cart) 60000)
             \<and> items cart \<noteq> []
             \<and> checkoutSteps env uid (cart, w) = (Inl e, (c1, w1)) \<longrightarrow>
             (\<exists>c' w'. fst (CartService_checkout env queues uid) u =
                  (case taxService_calculateTax env (items c1)
                          (case taxContext c1 of Some tc \<Rightarrow> tc
                           | None \<Rightarrow> getDefaultTaxContext env w1) (ext w1) of
                     Inl e' \<Rightarrow> Inl e'
                   | Inr taxResult \<Rightarrow>
                       Inr \<lparr>subtotal = subtotal taxResult, taxes = taxes taxResult,
                            totalTax = totalTax taxResult, total = total taxResult,
                            orderId = None, r_userId = uid, status = FAILED,
                            r_items = items c1, completedAt = None,
                            error = Some (errorMessage e)\<rparr>,
                   w')
                \<and> map_of (carts w') uid = Some c' \<and> checkoutStatus c' = FAILED
                \<and> checkoutError c' = Some (errorMessage e)))
       \<and> ((\<forall>its context p. \<exists>t. taxService_calculateTax env its context p = Inr t) \<longrightarrow>
            (\<forall>v. r = Inr v \<longrightarrow>
               (\<exists>res w'. fst (CartService_checkout env queues uid) u = (Inr res, w'))))"
    (is "?rejected \<and> ?caught \<and> ?total")
proof -
  note run = enqueue_run [OF assms, of "checkoutTask env uid"]
  from run have ?rejected by (simp add: CartService_checkout_def)
  moreover have ?caught
  proof (intro allI impI)
    fix v cart e c1 w1
    assume h: "r = Inr v \<and> map_of (carts w) uid = Some cart \<and> checkoutStatus cart \<noteq> COMPLETED
             \<and> \<not> (checkoutStatus cart = IN_PROGRESS
                    \<and> elapsedLess (checkoutElapsed env w cart) 60000)
             \<and> items cart \<noteq> []
             \<and> checkoutSteps env uid (cart, w) = (Inl e, (c1, w1))"
    then have task: "checkoutTask env uid w =
        withCart cart (Promise_catch (checkoutSteps env uid) (checkoutRollback env uid)) w"
      by (simp add: checkoutTask_proceeds)
    from h run have "fst (CartService_checkout env queues uid) u = checkoutTask env uid w"
      by (simp add: CartService_checkout_def)
    with task h checkoutRollback_outcome [of env uid e c1 w1]
    show "\<exists>c' w'. fst (CartService_checkout env queues uid) u =
                  (case taxService_calculateTax env (items c1)
                          (case taxContext c1 of Some tc \<Rightarrow> tc
                           | None \<Rightarrow> getDefaultTaxContext env w1) (ext w1) of
                     Inl e' \<Rightarrow> Inl e'
                   | Inr taxResult \<Rightarrow>
                       Inr \<lparr>subtotal = subtotal taxResult, taxes = taxes taxResult,
                            totalTax = totalTax taxResult, total = total taxResult,
                            orderId = None, r_userId = uid, status = FAILED,
                            r_items = items c1, completedAt = None,
                            error = Some (errorMessage e)\<rparr>,
                   w')
                \<and> map_of (carts w') uid = Some c' \<and> checkoutStatus c' = FAILED
                \<and> checkoutError c' = Some (errorMessage e)"
      by (simp add: withCart_apply Promise_catch_def update_conv')
  qed
  moreover have ?total
  proof (intro allI impI)
    fix v
    assume tax: "\<forall>its context p. \<exists>t. taxService_calculateTax env its context p = Inr t"
      and "r = Inr v"
    with run have "fst (CartService_checkout env queues uid) u = checkoutTask env uid w"
      by (simp add: CartService_checkout_def)
    moreover from tax have "\<exists>res w'. checkoutTask env uid w = (Inr res, w')"
      by (intro checkoutTask_total) blast
    ultimately show "\<exists>res w'. fst (CartService_checkout env queues uid) u = (Inr res, w')"
      by simp
  qed
  ultimately show ?thesis by blast
qed

text \<open>
  Three runs on the cart with the phone. \<open>checkout('user1')\<close> enqueued right behind a
  \<open>removeItem('user1', 'prod9')\<close> that rejects: it rejects with the error of \<open>removeItem\<close>.
  With a tax service that throws: the steps throw at the tax calculation, the \<open>catch\<close> block
  calls the tax service again, and checkout rejects. With a provider whose \<open>getCart\<close>
  reports an expired session: checkout returns the failed result with the message of
  that error, and the cart is stored as failed.
\<close>

theorem C3_checkout_returns_or_throws_witness:
  "fst (CartService_checkout env0 (snd (CartService_removeItem env0 [] ''user1'' ''prod9'')) ''user1'')
       wPhone
     = (Inl (ItemNotFoundError ''prod9''), wPhone)
   \<and> fst (fst (CartService_checkout envTaxThrows [] ''user1'') wPhone)
     = Inl (JsError ''Error'' ''tax service unavailable'')
   \<and> (\<exists>res w' c'. fst (CartService_checkout envSessionExpired [] ''user1'') wPhone = (Inr res, w')
        \<and> status res = FAILED
        \<and> error res = Some ''External provider context expired: ctx_1793664000000_2''
        \<and> orderId res = None
        \<and> map_of (carts w') ''user1'' = Some c' \<and> checkoutStatus c' = FAILED
        \<and> checkoutError c' = Some ''External provider context expired: ctx_1793664000000_2'')"
proof -
  have behind: "previousOp (snd (CartService_removeItem env0 [] ''user1'' ''prod9'')) ''user1'' wPhone
      = (Inl (ItemNotFoundError ''prod9''), wPhone)"
    by (simp add: CartService_removeItem_def previousOp_enqueued enqueue_idle
        run_removeItem_missing_phone)
  have idle: "previousOp ([] :: Salesforce world CartOperationQueue) ''user1'' wPhone = (Inr (), wPhone)"
    by (simp add: previousOp_idle)
  have cart: "map_of (carts wPhone) ''user1'' = Some phoneCart" "checkoutStatus phoneCart \<noteq> COMPLETED"
    "checkoutStatus phoneCart \<noteq> IN_PROGRESS" "items phoneCart \<noteq> []"
    by (simp_all add: wPhone_def phoneCart_def)
  obtain c1 w1 where taxThrows: "checkoutSteps envTaxThrows ''user1'' (phoneCart, wPhone)
      = (Inl (JsError ''Error'' ''tax service unavailable''), (c1, w1))"
    using run_checkoutSteps_tax_throws by (metis prod.collapse)
  obtain c2 w2 where expired: "checkoutSteps envSessionExpired ''user1'' (phoneCart, wPhone)
      = (Inl (ExternalProviderContextExpiredError ''ctx_1793664000000_2''), (c2, w2))"
    using run_checkoutSteps_session_expired by (metis prod.collapse)
  from C3_checkout_returns_or_throws [OF behind, of env0]
  have "fst (CartService_checkout env0 (snd (CartService_removeItem env0 [] ''user1'' ''prod9'')) ''user1'')
       wPhone = (Inl (ItemNotFoundError ''prod9''), wPhone)"
    by simp
  moreover
  from C3_checkout_returns_or_throws [OF idle, of envTaxThrows, THEN conjunct2, THEN conjunct1,
      rule_format, of "()" phoneCart _ c1 w1] cart taxThrows
  have "fst (fst (CartService_checkout envTaxThrows [] ''user1'') wPhone)
     = Inl (JsError ''Error'' ''tax service unavailable'')"
    by (auto simp: envTaxThrows_fields)
  moreover
  from C3_checkout_returns_or_throws [OF idle, of envSessionExpired, THEN conjunct2, THEN conjunct1,
      rule_format, of "()" phoneCart _ c2 w2] cart expired
  have "\<exists>res w' c'. fst (CartService_checkout envSessionExpired [] ''user1'') wPhone = (Inr res, w')
        \<and> status res = FAILED
        \<and> error res = Some ''External provider context expired: ctx_1793664000000_2''
        \<and> orderId res = None
        \<and> map_of (carts w') ''user1'' = Some c' \<and> checkoutStatus c' = FAILED
        \<and> checkoutError c' = Some ''External provider context expired: ctx_1793664000000_2''"
    by (auto simp: envSessionExpired_fields ExternalProviderContextExpiredError_def)
  ultimately show ?thesis by blast
qed

section \<open>Cart operations absorb a failed synchronisation\<close>

lemma keeps_mirrors_syncSteps: "keeps (mirrors uid its) (syncSteps env uid)"
  by (rule keeps_syncSteps(3)) (simp_all add: mirrors_def map_of_map_entry)

lemma sync_failure_absorbed:
  assumes "mirrors uid its (c, w)" and "fst (syncSteps env uid (c, w)) = Inl e"
  shows "\<exists>c' w'. syncToExternalProvider env uid (c, w) = (Inr (), (c', w')) \<and> items c' = its
           \<and> syncStatus c' = SYNC_PENDING \<and> lastSyncError c' = Some (errorMessage e)
           \<and> map_of (carts w') uid = Some c'"
proof -
  from assms(2) obtain c2 w2 where steps: "syncSteps env uid (c, w) = (Inl e, (c2, w2))"
    by (metis prod.collapse)
  from keepsD [OF keeps_mirrors_syncSteps assms(1), of env] steps
  have "mirrors uid its (c2, w2)" by simp
  with steps show ?thesis
    by (simp add: syncToExternalProvider_def Promise_catch_def assign_apply mirrors_def
        map_of_map_entry)
qed

lemma afterLocalChange_apply:
  "afterLocalChange env uid f cart w =
     ((f cart)\<lparr>updatedAt := Date_now env (ext w), lastAccessedAt := Date_now env (ext w)\<rparr>,
      w\<lparr>carts := AList.update uid
           ((f cart)\<lparr>updatedAt := Date_now env (ext w), lastAccessedAt := Date_now env (ext w)\<rparr>)
           (carts w)\<rparr>)"
  by (simp add: afterLocalChange_def Promise_then_def assign_apply CartStore_update_apply
      update_map_entry)

lemma mirrors_afterLocalChange: "mirrors uid (items (f cart)) (afterLocalChange env uid f cart w)"
  by (simp add: afterLocalChange_apply mirrors_def update_conv')

lemma mutation_with_failed_sync:
  assumes "fst (syncSteps env uid (afterLocalChange env uid f cart w)) = Inl e"
  shows "\<exists>c w'. withCart cart
            (Promise_then (assign uid f) (\<lambda>_.
             Promise_then (CartStore_update env uid) (\<lambda>_.
             Promise_then (syncToExternalProvider env uid) (\<lambda>_. theCart)))) w = (Inr c, w')
           \<and> items c = items (f cart) \<and> syncStatus c = SYNC_PENDING
           \<and> lastSyncError c = Some (errorMessage e) \<and> map_of (carts w') uid = Some c"
proof -
  let ?c1 = "(f cart)\<lparr>updatedAt := Date_now env (ext w), lastAccessedAt := Date_now env (ext w)\<rparr>"
  let ?w1 = "w\<lparr>carts := AList.update uid ?c1 (carts w)\<rparr>"
  have frame: "afterLocalChange env uid f cart w = (?c1, ?w1)"
    by (rule afterLocalChange_apply)
  from mirrors_afterLocalChange [of uid f cart env w]
  have mir: "mirrors uid (items (f cart)) (?c1, ?w1)"
    by (simp add: frame)
  from assms have "fst (syncSteps env uid (?c1, ?w1)) = Inl e" by (simp add: frame)
  from sync_failure_absorbed [OF mir this]
  obtain c' w' where sync: "syncToExternalProvider env uid (?c1, ?w1) = (Inr (), (c', w'))"
    and props: "items c' = items (f cart)" "syncStatus c' = SYNC_PENDING"
    "lastSyncError c' = Some (errorMessage e)" "map_of (carts w') uid = Some c'"
    by blast
  have "withCart cart
            (Promise_then (assign uid f) (\<lambda>_.
             Promise_then (CartStore_update env uid) (\<lambda>_.
             Promise_then (syncToExternalProvider env uid) (\<lambda>_. theCart)))) w = (Inr c', w')"
    by (simp add: withCart_apply Promise_then_def assign_apply CartStore_update_apply theCart_apply
        update_map_entry sync)
  with props show ?thesis by blast
qed

text \<open>
  C4, as amended. With no operation of the user pending, for add item (with a valid item),
  update quantity (with a valid quantity of a product in the cart) and remove item (of a
  product in the cart): when the synchronisation that follows the local change throws an
  error, the operation still fulfils; the cart it returns has the locally changed items,
  sync status pending and the message of the error as last-sync error, and it is the cart
  that the store holds. That message is the message of a thrown Error, which can be empty,
  and "Unknown error" for any other thrown value; the session-expired message is not empty.
\<close>

theorem C4_sync_failure_absorbed:
  assumes "map_of queues uid = None"
    and "CartService_getCart env uid w = (Inr cart, w1)"
  shows "(\<forall>e. validateCartItem item = Inr ()
            \<and> fst (syncSteps env uid (afterLocalChange env uid (addItemLocally item) cart w1)) = Inl e \<longrightarrow>
          (\<exists>c w'. fst (CartService_addItem env queues uid item) w = (Inr c, w')
             \<and> items c = items (addItemLocally item cart) \<and> syncStatus c = SYNC_PENDING
             \<and> lastSyncError c = Some (errorMessage e) \<and> map_of (carts w') uid = Some c))
       \<and> (\<forall>e itemIndex. validateQuantityUpdate q = Inr q
            \<and> findIndex (\<lambda>i. productId i = pid) (items cart) = Some itemIndex
            \<and> fst (syncSteps env uid
                    (afterLocalChange env uid (setQuantityLocally itemIndex q) cart w1)) = Inl e \<longrightarrow>
          (\<exists>c w'. fst (CartService_updateItemQuantity env queues uid pid q) w = (Inr c, w')
             \<and> items c = items (setQuantityLocally itemIndex q cart) \<and> syncStatus c = SYNC_PENDING
             \<and> lastSyncError c = Some (errorMessage e) \<and> map_of (carts w') uid = Some c))
       \<and> (\<forall>e itemIndex. findIndex (\<lambda>i. productId i = pid) (items cart) = Some itemIndex
            \<and> fst (syncSteps env uid
                    (afterLocalChange env uid (removeLocally itemIndex) cart w1)) = Inl e \<longrightarrow>
          (\<exists>c w'. fst (CartService_removeItem env queues uid pid) w = (Inr c, w')
             \<and> items c = items (removeLocally itemIndex cart) \<and> syncStatus c = SYNC_PENDING
             \<and> lastSyncError c = Some (errorMessage e) \<and> map_of (carts w') uid = Some c))
       \<and> (\<forall>contextId. errorMessage (ExternalProviderContextExpiredError contextId) \<noteq> [])
       \<and> errorMessage NonError \<noteq> []"
proof (intro conjI allI impI)
  fix e
  assume h: "validateCartItem item = Inr ()
            \<and> fst (syncSteps env uid (afterLocalChange env uid (addItemLocally item) cart w1)) = Inl e"
  from mutation_with_failed_sync [of env uid "addItemLocally item" cart w1 e] h assms
  show "\<exists>c w'. fst (CartService_addItem env queues uid item) w = (Inr c, w')
             \<and> items c = items (addItemLocally item cart) \<and> syncStatus c = SYNC_PENDING
             \<and> lastSyncError c = Some (errorMessage e) \<and> map_of (carts w') uid = Some c"
    by (simp add: CartService_addItem_def enqueue_idle addItemTask_def Promise_then_def fromResult_def)
next
  fix e itemIndex
  assume h: "validateQuantityUpdate q = Inr q
            \<and> findIndex (\<lambda>i. productId i = pid) (items cart) = Some itemIndex
            \<and> fst (syncSteps env uid
                    (afterLocalChange env uid (setQuantityLocally itemIndex q) cart w1)) = Inl e"
  from mutation_with_failed_sync [of env uid "setQuantityLocally itemIndex q" cart w1 e] h assms
  show "\<exists>c w'. fst (CartService_updateItemQuantity env queues uid pid q) w = (Inr c, w')
             \<and> items c = items (setQuantityLocally itemIndex q cart) \<and> syncStatus c = SYNC_PENDING
             \<and> lastSyncError c = Some (errorMessage e) \<and> map_of (carts w') uid = Some c"
    by (simp add: CartService_updateItemQuantity_def enqueue_idle updateItemQuantityTask_def
        Promise_then_def fromResult_def)
next
  fix e itemIndex
  assume h: "findIndex (\<lambda>i. productId i = pid) (items cart) = Some itemIndex
            \<and> fst (syncSteps env uid
                    (afterLocalChange env uid (removeLocally itemIndex) cart w1)) = Inl e"
  from mutation_with_failed_sync [of env uid "removeLocally itemIndex" cart w1 e] h assms
  show "\<exists>c w'. fst (CartService_removeItem env queues uid pid) w = (Inr c, w')
             \<and> items c = items (removeLocally itemIndex cart) \<and> syncStatus c = SYNC_PENDING
             \<and> lastSyncError c = Some (errorMessage e) \<and> map_of (carts w') uid = Some c"
    by (simp add: CartService_removeItem_def enqueue_idle removeItemTask_def Promise_then_def)
next
  fix contextId
  show "errorMessage (ExternalProviderContextExpiredError contextId) \<noteq> []"
    by (simp add: ExternalProviderContextExpiredError_def)
next
  show "errorMessage NonError \<noteq> []" by (simp add: UNKNOWN_ERROR_def)
qed

theorem C4_sync_failure_absorbed_witness:
  "\<exists>c w'. fst (CartService_addItem envSessionExpired [] ''user1'' phone) w0 = (Inr c, w')
      \<and> items c = [phone] \<and> syncStatus c = SYNC_PENDING
      \<and> lastSyncError c = Some ''External provider context expired: ctx_1793664000000_0''
      \<and> map_of (carts w') ''user1'' = Some c"
proof -
  have idle: "map_of ([] :: Salesforce world CartOperationQueue) ''user1'' = None" by simp
  have h: "validateCartItem phone = Inr ()
      \<and> fst (syncSteps envSessionExpired ''user1''
               (afterLocalChange envSessionExpired ''user1'' (addItemLocally phone)
                  (createNewCart env0 ''user1'' w0) wEmptyCart))
           = Inl (ExternalProviderContextExpiredError ''ctx_1793664000000_0'')"
    by (simp add: run_syncSteps_session_expired)
      (simp add: validateCartItem_def phone_fields blank_def isWhitespace_def isInteger_def)
  have its: "items (addItemLocally phone (createNewCart env0 ''user1'' w0)) = [phone]"
    by (simp add: addItemLocally_def createNewCart_def Let_def)
  from C4_sync_failure_absorbed [OF idle run_getCart_session_expired,
      THEN conjunct1, rule_format, OF h] its
  show ?thesis by (simp add: ExternalProviderContextExpiredError_def)
qed

text \<open>
  The claim as stated fails where the provider throws an Error with an empty message: the
  last-sync error recorded is the empty string.
\<close>

theorem C4_empty_error_message_counterexample:
  "fst (fst (CartService_addItem envEmptyMessage [] ''user1'' phone) w0)
     = Inr (phoneCart\<lparr>syncStatus := SYNC_PENDING, lastSyncedAt := None, lastSyncError := Some []\<rparr>)"
  by (simp add: CartService_addItem_def enqueue_idle addItemTask_def run_defs envEmptyMessage_fields
      w0_def initialWorld_def phone_fields phoneCart_def showInt_values del: showInt.simps)

section \<open>The operation queue after a failed task\<close>

lemma enqueue_behind_rejected:
  assumes "fst (CartOperationQueue_enqueue queues uid op1) s = (Inl e, s')"
  shows "fst (CartOperationQueue_enqueue (snd (CartOperationQueue_enqueue queues uid op1)) uid op2) s
           = (Inl e, s')"
  using assms by (simp add: enqueue_twice)

lemma enqueue_behind_fulfilled:
  assumes "fst (CartOperationQueue_enqueue queues uid op1) s = (Inr v, s')"
  shows "fst (CartOperationQueue_enqueue (snd (CartOperationQueue_enqueue queues uid op1)) uid op2) s
           = op2 s'"
  using assms by (simp add: enqueue_twice)

text \<open>
  C5 (fails on the code). On the fresh application, \<open>removeItem('user1', 'prod9')\<close> rejects
  with "item not found", and \<open>addItem('user1', phone)\<close> enqueued right behind it is never
  executed: its caller receives the rejection of \<open>removeItem\<close> and the cart stays empty,
  although the task on its own would have added the phone.
\<close>

theorem C5_rejected_task_poisons_queue:
  "fst (CartService_removeItem env0 [] ''user1'' ''prod9'') w0
     = (Inl (ItemNotFoundError ''prod9''), wEmptyCart)
   \<and> fst (CartService_addItem env0 (snd (CartService_removeItem env0 [] ''user1'' ''prod9''))
            ''user1'' phone) w0
     = (Inl (ItemNotFoundError ''prod9''), wEmptyCart)
   \<and> addItemTask env0 ''user1'' phone wEmptyCart = (Inr phoneCart, wPhone)"
proof -
  have first: "fst (CartService_removeItem env0 [] ''user1'' ''prod9'') w0
     = (Inl (ItemNotFoundError ''prod9''), wEmptyCart)"
    by (simp add: CartService_removeItem_def enqueue_idle run_removeItem_missing)
  then have "fst (CartService_addItem env0 (snd (CartService_removeItem env0 [] ''user1'' ''prod9''))
            ''user1'' phone) w0 = (Inl (ItemNotFoundError ''prod9''), wEmptyCart)"
    unfolding CartService_removeItem_def CartService_addItem_def
    by (rule enqueue_behind_rejected)
  with first run_addItem_existing show ?thesis by simp
qed

text \<open>The same happens to a checkout enqueued behind the failed task: it rejects.\<close>

lemma checkout_behind_rejected_task:
  "fst (CartService_checkout env0 (snd (CartService_removeItem env0 [] ''user1'' ''prod9'')) ''user1'') w0
     = (Inl (ItemNotFoundError ''prod9''), wEmptyCart)"
proof -
  have "fst (CartService_removeItem env0 [] ''user1'' ''prod9'') w0
     = (Inl (ItemNotFoundError ''prod9''), wEmptyCart)"
    by (simp add: CartService_removeItem_def enqueue_idle run_removeItem_missing)
  then show ?thesis
    unfolding CartService_removeItem_def CartService_checkout_def
    by (rule enqueue_behind_rejected)
qed

section \<open>Checkout of an empty cart, and of a cart in progress\<close>

text \<open>
  C6 (fails on the code behind a failed operation). The call is made in the world \<open>u\<close>;
  \<open>w\<close> is the world that the user's earlier operations, if any are pending, leave, and \<open>r\<close>
  is their outcome. For a cart without items whose status is not completed and which is
  not in progress since less than 60 seconds: when the earlier operations have fulfilled,
  or none is pending, checkout returns the failed result with the empty-cart error and
  leaves the world as it is, the log of provider calls included. When the earlier
  operation has rejected, checkout is not run at all and the caller receives that
  rejection instead of a result.
\<close>

theorem C6_empty_cart:
  assumes "previousOp queues uid u = (r, w)"
    and "map_of (carts w) uid = Some cart"
    and "items cart = []"
    and "checkoutStatus cart \<noteq> COMPLETED"
    and "\<not> (checkoutStatus cart = IN_PROGRESS \<and> elapsedLess (checkoutElapsed env w cart) 60000)"
  shows "fst (CartService_checkout env queues uid) u =
           (case r of
              Inl e \<Rightarrow> (Inl e, w)
            | Inr _ \<Rightarrow> (Inr (failedResult uid [] EMPTY_CART_MSG), w))
       \<and> status (failedResult uid [] EMPTY_CART_MSG) = FAILED
       \<and> error (failedResult uid [] EMPTY_CART_MSG) = Some ''Cannot checkout an empty cart''
       \<and> calls (snd (fst (CartService_checkout env queues uid) u)) = calls w"
  using assms(2-5) enqueue_run [OF assms(1), of "checkoutTask env uid"]
  by (simp add: CartService_checkout_def checkoutTask_proceeds failedResult_def EMPTY_CART_MSG_def
      split: sum.splits)

text \<open>
  On the fresh application: \<open>removeItem('user1', 'prod9')\<close> creates the empty cart and
  rejects, and \<open>checkout('user1')\<close> enqueued right behind it rejects with the error of
  \<open>removeItem\<close>; on its own, the checkout of that cart returns the empty-cart result.
\<close>

theorem C6_empty_cart_witness:
  "fst (CartService_checkout env0 (snd (CartService_removeItem env0 [] ''user1'' ''prod9'')) ''user1'') w0
     = (Inl (ItemNotFoundError ''prod9''), wEmptyCart)
   \<and> fst (CartService_checkout env0 [] ''user1'') wEmptyCart
     = (Inr (failedResult ''user1'' [] EMPTY_CART_MSG), wEmptyCart)"
proof -
  have behind: "previousOp (snd (CartService_removeItem env0 [] ''user1'' ''prod9'')) ''user1'' w0
      = (Inl (ItemNotFoundError ''prod9''), wEmptyCart)"
    by (simp add: CartService_removeItem_def previousOp_enqueued enqueue_idle run_removeItem_missing)
  have idle: "previousOp ([] :: Salesforce world CartOperationQueue) ''user1'' wEmptyCart
      = (Inr (), wEmptyCart)"
    by (simp add: previousOp_idle)
  have cart: "map_of (carts wEmptyCart) ''user1'' = Some (createNewCart env0 ''user1'' w0)"
    "items (createNewCart env0 ''user1'' w0) = []"
    "checkoutStatus (createNewCart env0 ''user1'' w0) \<noteq> COMPLETED"
    "\<not> (checkoutStatus (createNewCart env0 ''user1'' w0) = IN_PROGRESS
        \<and> elapsedLess (checkoutElapsed env0 wEmptyCart (createNewCart env0 ''user1'' w0)) 60000)"
    by (simp_all add: wEmptyCart_def createNewCart_def Let_def)
  from C6_empty_cart [OF behind cart] C6_empty_cart [OF idle cart] show ?thesis by simp
qed

text \<open>
  C10 (fails on the code behind a failed operation). The call is made in the world \<open>u\<close>;
  \<open>w\<close> is the world that the user's earlier operations, if any are pending, leave, and \<open>r\<close>
  is their outcome. For a cart in progress without a start time, the elapsed time is
  \<open>Infinity\<close>, which is not less than 60000. When the earlier operations have fulfilled,
  or none is pending, checkout is not rejected as in progress: for a cart without items it
  returns the empty-cart result, and otherwise it runs the checkout steps at once, which
  record the time of the call as the start and leave the cart completed or failed (or
  deleted by the clean-up). When the earlier operation has rejected, checkout is not run
  and the caller receives that rejection.
\<close>

theorem C10_in_progress_without_start:
  assumes "previousOp queues uid u = (r, w)"
    and "map_of (carts w) uid = Some cart"
    and "checkoutStatus cart = IN_PROGRESS"
    and "checkoutStartedAt cart = None"
  shows "checkoutElapsed env w cart = Infinity
       \<and> \<not> elapsedLess (checkoutElapsed env w cart) 60000
       \<and> (case r of
            Inl e \<Rightarrow> fst (CartService_checkout env queues uid) u = (Inl e, w)
          | Inr _ \<Rightarrow>
              fst (CartService_checkout env queues uid) u
                \<noteq> (Inr (failedResult uid (items cart) CHECKOUT_IN_PROGRESS), w)
              \<and> (if items cart = []
                 then fst (CartService_checkout env queues uid) u
                        = (Inr (failedResult uid [] EMPTY_CART_MSG), w)
                 else attempted (Date_now env (ext w)) uid
                        (fst (CartService_checkout env queues uid) u)))"
proof -
  from assms(4) have inf: "checkoutElapsed env w cart = Infinity"
    by (simp add: checkoutElapsed_def)
  then have notFresh:
    "\<not> (checkoutStatus cart = IN_PROGRESS \<and> elapsedLess (checkoutElapsed env w cart) 60000)"
    by simp
  from assms(3) have notCompleted: "checkoutStatus cart \<noteq> COMPLETED" by simp
  have rejected: "fst (CartService_checkout env queues uid) u = (Inl e, w)" if "r = Inl e" for e
    using enqueue_run [OF assms(1), of "checkoutTask env uid"] that
    by (simp add: CartService_checkout_def)
  have runs: "fst (CartService_checkout env queues uid) u = checkoutTask env uid w"
    if "r = Inr v" for v
    using enqueue_run [OF assms(1), of "checkoutTask env uid"] that
    by (simp add: CartService_checkout_def)
  have empty: "checkoutTask env uid w = (Inr (failedResult uid [] EMPTY_CART_MSG), w)"
    if "items cart = []"
    using checkoutTask_proceeds [OF assms(2) notCompleted notFresh] that by simp
  have attempt: "attempted (Date_now env (ext w)) uid (checkoutTask env uid w)"
    if "items cart \<noteq> []"
    using assms(2) notCompleted notFresh that by (rule checkoutTask_attempted)
  have differs: "checkoutTask env uid w \<noteq> (Inr (failedResult uid (items cart) CHECKOUT_IN_PROGRESS), w)"
  proof (cases "items cart = []")
    case True
    with empty show ?thesis
      by (simp add: failedResult_def EMPTY_CART_MSG_def CHECKOUT_IN_PROGRESS_def)
  next
    case False
    from attempt [OF False] assms(2,4) show ?thesis
      by (auto simp: attempted_def)
  qed
  from inf rejected runs empty attempt differs show ?thesis
    by (cases r) simp_all
qed

text \<open>
  On the cart with the phone, in progress without a start time:
  \<open>removeItem('user1', 'prod9')\<close> rejects, and \<open>checkout('user1')\<close> enqueued right behind it
  rejects with the error of \<open>removeItem\<close>; on its own, the checkout of that cart runs the
  steps and places the order.
\<close>

theorem C10_in_progress_without_start_witness:
  "fst (CartService_checkout env0 (snd (CartService_removeItem env0 [] ''user1'' ''prod9'')) ''user1'')
       wNoStart
     = (Inl (ItemNotFoundError ''prod9''), wNoStart)
   \<and> attempted 1793664000000 ''user1'' (fst (CartService_checkout env0 [] ''user1'') wNoStart)
   \<and> fst (CartService_checkout env0 [] ''user1'') wNoStart = (Inr phoneOrder, wOrdered)"
proof -
  have behind: "previousOp (snd (CartService_removeItem env0 [] ''user1'' ''prod9'')) ''user1'' wNoStart
      = (Inl (ItemNotFoundError ''prod9''), wNoStart)"
    by (simp add: CartService_removeItem_def previousOp_enqueued enqueue_idle
        run_removeItem_missing_no_start)
  have idle: "previousOp ([] :: Salesforce world CartOperationQueue) ''user1'' wNoStart
      = (Inr (), wNoStart)"
    by (simp add: previousOp_idle)
  have cart: "map_of (carts wNoStart) ''user1''
      = Some (phoneCart\<lparr>checkoutStatus := IN_PROGRESS, checkoutStartedAt := None\<rparr>)"
    "checkoutStatus (phoneCart\<lparr>checkoutStatus := IN_PROGRESS, checkoutStartedAt := None\<rparr>) = IN_PROGRESS"
    "checkoutStartedAt (phoneCart\<lparr>checkoutStatus := IN_PROGRESS, checkoutStartedAt := None\<rparr>) = None"
    by (simp_all add: wNoStart_def)
  have its: "items (phoneCart\<lparr>checkoutStatus := IN_PROGRESS, checkoutStartedAt := None\<rparr>) \<noteq> []"
    "Date_now env0 (ext wNoStart) = 1793664000000"
    by (simp_all add: phoneCart_def wNoStart_def wPhone_def env0_fields)
  have order: "fst (CartService_checkout env0 [] ''user1'') wNoStart = (Inr phoneOrder, wOrdered)"
    by (simp add: CartService_checkout_def enqueue_idle run_checkout_no_start)
  from C10_in_progress_without_start [OF behind cart, of env0]
       C10_in_progress_without_start [OF idle cart, of env0] its
  have "fst (CartService_checkout env0 (snd (CartService_removeItem env0 [] ''user1'' ''prod9'')) ''user1'')
       wNoStart
     = (Inl (ItemNotFoundError ''prod9''), wNoStart)
   \<and> attempted 1793664000000 ''user1'' (fst (CartService_checkout env0 [] ''user1'') wNoStart)"
    by simp
  with order show ?thesis by simp
qed

section \<open>The sweeper and a checkout stuck in progress\<close>

lemma sweepCart_other:
  "fst entry \<noteq> uid \<Longrightarrow> map_of (carts (sweepCart t entry w)) uid = map_of (carts w) uid"
  by (simp add: sweepCart_def Let_def CartStore_delete_def ProviderContextStore_delete_def
      delete_conv' update_conv')

lemma sweep_others:
  "\<forall>entry \<in> set es. fst entry \<noteq> uid \<Longrightarrow>
   map_of (carts (foldl (\<lambda>w' entry. sweepCart t entry w') w es)) uid = map_of (carts w) uid"
  by (induction es arbitrary: w) (simp_all add: sweepCart_other)

lemma sweepCart_stuck:
  assumes "checkoutStatus cart = IN_PROGRESS" and "checkoutStartedAt cart = Some started"
    and "t - started > 5 * 60 * 1000"
  shows "map_of (carts (sweepCart t (uid, cart) w)) uid =
     Some (cart\<lparr>checkoutStatus := FAILED, checkoutError := Some ''Checkout timeout - please retry'',
                updatedAt := t, lastAccessedAt := t\<rparr>)"
  using assms by (simp add: sweepCart_def Let_def update_conv')

lemma sweep_stuck:
  assumes "distinct (map fst es)" and "(uid, cart) \<in> set es"
    and "checkoutStatus cart = IN_PROGRESS" and "checkoutStartedAt cart = Some started"
    and "t - started > 5 * 60 * 1000"
  shows "map_of (carts (foldl (\<lambda>w' entry. sweepCart t entry w') w es)) uid =
     Some (cart\<lparr>checkoutStatus := FAILED, checkoutError := Some ''Checkout timeout - please retry'',
                updatedAt := t, lastAccessedAt := t\<rparr>)"
  using assms(1,2)
proof (induction es arbitrary: w)
  case Nil
  then show ?case by simp
next
  case (Cons e es)
  show ?case
  proof (cases "e = (uid, cart)")
    case True
    with Cons.prems have "\<forall>entry \<in> set es. fst entry \<noteq> uid" by force
    from sweep_others [OF this, of t "sweepCart t (uid, cart) w"] True show ?thesis
      by (simp add: sweepCart_stuck [OF assms(3,4,5)])
  next
    case False
    with Cons.prems have "(uid, cart) \<in> set es" "distinct (map fst es)" by auto
    from Cons.IH [OF this(2,1)] show ?thesis by simp
  qed
qed

lemma cleanupExpiredContexts_carts: "carts (cleanupExpiredContexts env w) = carts w"
proof -
  have "carts (foldl (\<lambda>w' entry. if contextExpired env w (snd entry)
                        then ProviderContextStore_delete (fst entry) w' else w') w' es) = carts w'"
    for w' es
    by (induction es arbitrary: w') (simp_all add: ProviderContextStore_delete_def)
  then show ?thesis by (simp add: cleanupExpiredContexts_def)
qed

lemma run_cleanup_stuck: "runCleanup env0 wStuck = wSwept"
  by (simp add: runCleanup_def cleanupExpiredCarts_def cleanupExpiredContexts_def sweepCart_def
      wStuck_def wSwept_def wPhone_def phoneCart_def env0_fields contextExpired_def ctx0_def Let_def)

text \<open>
  C7 (fails on the code behind a failed operation). The cart store holds one entry per
  user. For a cart in progress whose start time lies more than 5 minutes before the clock of
  the pass, one pass of the sweeper leaves the cart in the store, failed, with the timeout
  error recorded (and its access times set to the time of the pass).

  A later checkout call, made when the outside world has become \<open>p\<close>: \<open>w2\<close> is the world that
  the user's earlier operations, if any are pending, leave, and \<open>r\<close> is their outcome (they
  name what \<open>previousOp\<close> computes); with no operation pending, \<open>w2\<close> is the world of the call,
  in which the cart is as the sweeper left it. When the earlier operation has rejected,
  checkout is not run and the caller receives that rejection. When the earlier operations
  have fulfilled, or none is pending, and the cart is still failed, the checkout is not
  rejected as in progress: for a cart without items it returns the empty-cart result, and
  otherwise it runs the checkout steps, which record the time of the call as the start and
  leave the cart completed or failed (or deleted by the clean-up).
\<close>

theorem C7_stuck_checkout_swept:
  assumes "distinct (map fst (carts w))"
    and "map_of (carts w) uid = Some cart"
    and "checkoutStatus cart = IN_PROGRESS"
    and "checkoutStartedAt cart = Some started"
    and "Date_now env (ext w) - started > 5 * 60 * 1000"
    and "previousOp queues uid ((runCleanup env w)\<lparr>ext := p\<rparr>) = (r, w2)"
  shows "map_of (carts (runCleanup env w)) uid =
           Some (cart\<lparr>checkoutStatus := FAILED,
                      checkoutError := Some ''Checkout timeout - please retry'',
                      updatedAt := Date_now env (ext w), lastAccessedAt := Date_now env (ext w)\<rparr>)
       \<and> (map_of queues uid = None \<longrightarrow>
            r = Inr () \<and> w2 = (runCleanup env w)\<lparr>ext := p\<rparr>
            \<and> map_of (carts w2) uid =
                Some (cart\<lparr>checkoutStatus := FAILED,
                           checkoutError := Some ''Checkout timeout - please retry'',
                           updatedAt := Date_now env (ext w),
                           lastAccessedAt := Date_now env (ext w)\<rparr>))
       \<and> (case r of
            Inl e \<Rightarrow>
              fst (CartService_checkout env queues uid) ((runCleanup env w)\<lparr>ext := p\<rparr>) = (Inl e, w2)
          | Inr _ \<Rightarrow>
              (\<forall>cart2. map_of (carts w2) uid = Some cart2 \<and> checkoutStatus cart2 = FAILED \<longrightarrow>
                 (if items cart2 = []
                  then fst (CartService_checkout env queues uid) ((runCleanup env w)\<lparr>ext := p\<rparr>)
                         = (Inr (failedResult uid [] EMPTY_CART_MSG), w2)
                  else attempted (Date_now env (ext w2)) uid
                         (fst (CartService_checkout env queues uid)
                            ((runCleanup env w)\<lparr>ext := p\<rparr>)))))"
    (is "?swept \<and> ?idle \<and> ?later")
proof -
  from assms(2) have "(uid, cart) \<in> set (carts w)" by (rule map_of_SomeD)
  from sweep_stuck [OF assms(1) this assms(3,4,5)]
  have swept: ?swept
    by (simp add: runCleanup_def cleanupExpiredContexts_carts cleanupExpiredCarts_def)
  have idle: ?idle
  proof
    assume "map_of queues uid = None"
    from previousOp_idle [OF this] assms(6)
    have "r = Inr ()" and w2: "w2 = (runCleanup env w)\<lparr>ext := p\<rparr>" by simp_all
    with swept
    show "r = Inr () \<and> w2 = (runCleanup env w)\<lparr>ext := p\<rparr>
            \<and> map_of (carts w2) uid =
                Some (cart\<lparr>checkoutStatus := FAILED,
                           checkoutError := Some ''Checkout timeout - please retry'',
                           updatedAt := Date_now env (ext w),
                           lastAccessedAt := Date_now env (ext w)\<rparr>)"
      by simp
  qed
  note run = enqueue_run [OF assms(6), of "checkoutTask env uid"]
  have runs: "if items cart2 = []
     then checkoutTask env uid w2 = (Inr (failedResult uid [] EMPTY_CART_MSG), w2)
     else attempted (Date_now env (ext w2)) uid (checkoutTask env uid w2)"
    if stored: "map_of (carts w2) uid = Some cart2" and failed: "checkoutStatus cart2 = FAILED"
    for cart2
  proof -
    from failed have notCompleted: "checkoutStatus cart2 \<noteq> COMPLETED"
      and notFresh: "\<not> (checkoutStatus cart2 = IN_PROGRESS
                       \<and> elapsedLess (checkoutElapsed env w2 cart2) 60000)"
      by simp_all
    show ?thesis
    proof (cases "items cart2 = []")
      case True
      with checkoutTask_proceeds [OF stored notCompleted notFresh] show ?thesis by simp
    next
      case False
      with checkoutTask_attempted [OF stored notCompleted notFresh] show ?thesis by simp
    qed
  qed
  have ?later
  proof (cases r)
    case (Inl e)
    with run show ?thesis by (simp add: CartService_checkout_def)
  next
    case (Inr v)
    with run have "fst (CartService_checkout env queues uid) ((runCleanup env w)\<lparr>ext := p\<rparr>)
        = checkoutTask env uid w2"
      by (simp add: CartService_checkout_def)
    with runs Inr show ?thesis by simp
  qed
  with swept idle show ?thesis by blast
qed

text \<open>
  The checkout of the phone cart has been in progress for ten minutes. The sweeper marks it
  failed. Then \<open>removeItem('user1', 'prod9')\<close> rejects, and \<open>checkout('user1')\<close> enqueued right
  behind it rejects with the error of \<open>removeItem\<close>; on its own, the checkout runs the steps
  and places the order.
\<close>

theorem C7_stuck_checkout_swept_witness:
  "map_of (carts (runCleanup env0 wStuck)) ''user1'' =
     Some (phoneCart\<lparr>checkoutStatus := FAILED, checkoutStartedAt := Some (1793664000000 - 600000),
             checkoutError := Some ''Checkout timeout - please retry''\<rparr>)
   \<and> fst (CartService_checkout env0 (snd (CartService_removeItem env0 [] ''user1'' ''prod9'')) ''user1'')
         wSwept
       = (Inl (ItemNotFoundError ''prod9''), wSwept)
   \<and> attempted 1793664000000 ''user1'' (fst (CartService_checkout env0 [] ''user1'') wSwept)
   \<and> fst (CartService_checkout env0 [] ''user1'') wSwept = (Inr phoneOrder, wOrdered)"
proof -
  have later: "(runCleanup env0 wStuck)\<lparr>ext := ext wStuck\<rparr> = wSwept"
    by (simp add: run_cleanup_stuck) (simp add: wSwept_def wStuck_def)
  have behind: "previousOp (snd (CartService_removeItem env0 [] ''user1'' ''prod9'')) ''user1''
      ((runCleanup env0 wStuck)\<lparr>ext := ext wStuck\<rparr>) = (Inl (ItemNotFoundError ''prod9''), wSwept)"
    by (simp add: later CartService_removeItem_def previousOp_enqueued enqueue_idle
        run_removeItem_missing_swept)
  have idle: "previousOp ([] :: Salesforce world CartOperationQueue) ''user1''
      ((runCleanup env0 wStuck)\<lparr>ext := ext wStuck\<rparr>) = (Inr (), wSwept)"
    by (simp add: later previousOp_idle)
  have stuck: "distinct (map fst (carts wStuck))"
    "map_of (carts wStuck) ''user1'' = Some (phoneCart\<lparr>checkoutStatus := IN_PROGRESS,
        checkoutStartedAt := Some (1793664000000 - 600000)\<rparr>)"
    "checkoutStatus (phoneCart\<lparr>checkoutStatus := IN_PROGRESS,
        checkoutStartedAt := Some (1793664000000 - 600000)\<rparr>) = IN_PROGRESS"
    "checkoutStartedAt (phoneCart\<lparr>checkoutStatus := IN_PROGRESS,
        checkoutStartedAt := Some (1793664000000 - 600000)\<rparr>) = Some (1793664000000 - 600000)"
    "Date_now env0 (ext wStuck) - (1793664000000 - 600000) > 5 * 60 * 1000"
    by (simp_all add: wStuck_def wPhone_def env0_fields)
  have failed: "map_of (carts wSwept) ''user1'' =
      Some (phoneCart\<lparr>checkoutStatus := FAILED, checkoutStartedAt := Some (1793664000000 - 600000),
             checkoutError := Some ''Checkout timeout - please retry''\<rparr>)"
    "checkoutStatus (phoneCart\<lparr>checkoutStatus := FAILED,
        checkoutStartedAt := Some (1793664000000 - 600000),
        checkoutError := Some ''Checkout timeout - please retry''\<rparr>) = FAILED"
    by (simp_all add: wSwept_def)
  have its: "items (phoneCart\<lparr>checkoutStatus := FAILED,
        checkoutStartedAt := Some (1793664000000 - 600000),
        checkoutError := Some ''Checkout timeout - please retry''\<rparr>) \<noteq> []"
    "updatedAt phoneCart = 1793664000000" "lastAccessedAt phoneCart = 1793664000000"
    "Date_now env0 (ext wStuck) = 1793664000000" "Date_now env0 (ext wSwept) = 1793664000000"
    by (simp_all add: phoneCart_def wStuck_def wSwept_def wPhone_def env0_fields)
  have order: "fst (CartService_checkout env0 [] ''user1'') wSwept = (Inr phoneOrder, wOrdered)"
    by (simp add: CartService_checkout_def enqueue_idle run_checkout_swept)
  from C7_stuck_checkout_swept [OF stuck behind] C7_stuck_checkout_swept [OF stuck idle] failed
    its later
  have "map_of (carts (runCleanup env0 wStuck)) ''user1'' =
     Some (phoneCart\<lparr>checkoutStatus := FAILED, checkoutStartedAt := Some (1793664000000 - 600000),
             checkoutError := Some ''Checkout timeout - please retry''\<rparr>)
   \<and> fst (CartService_checkout env0 (snd (CartService_removeItem env0 [] ''user1'' ''prod9'')) ''user1'')
         wSwept
       = (Inl (ItemNotFoundError ''prod9''), wSwept)
   \<and> attempted 1793664000000 ''user1'' (fst (CartService_checkout env0 [] ''user1'') wSwept)"
    by (simp add: phoneCart_def)
  with order show ?thesis by simp
qed


section \<open>The checkout result is set exactly on completed carts\<close>

lemma storeInvariant_lookup:
  "storeInvariant w \<Longrightarrow> map_of (carts w) uid = Some c \<Longrightarrow> resultIffCompleted c"
  by (auto simp: storeInvariant_def list_all_iff dest!: map_of_SomeD)

lemma list_all_update:
  "list_all P al \<Longrightarrow> P (k, v) \<Longrightarrow> list_all P (AList.update k v al)"
  by (induction al) auto

lemma list_all_map_entry:
  "list_all P al \<Longrightarrow> (\<And>x. P (k, x) \<Longrightarrow> P (k, f x)) \<Longrightarrow> list_all P (AList.map_entry k f al)"
  by (induction al) auto

lemma list_all_delete: "list_all P al \<Longrightarrow> list_all P (AList.delete k al)"
  by (induction al) auto

lemma storeInvariant_update:
  "storeInvariant w \<Longrightarrow> resultIffCompleted c \<Longrightarrow>
   storeInvariant (w\<lparr>carts := AList.update uid c (carts w)\<rparr>)"
  by (simp add: storeInvariant_def list_all_update)

lemma storeInvariant_map_entry:
  "storeInvariant w \<Longrightarrow> resultIffCompleted c \<Longrightarrow>
   storeInvariant (w\<lparr>carts := AList.map_entry uid (\<lambda>_. c) (carts w)\<rparr>)"
  by (simp add: storeInvariant_def list_all_map_entry)

lemma storeInvariant_delete:
  "storeInvariant w \<Longrightarrow> storeInvariant (CartStore_delete uid w)"
  "storeInvariant w \<Longrightarrow> storeInvariant (ProviderContextStore_delete uid w)"
  by (simp_all add: storeInvariant_def CartStore_delete_def ProviderContextStore_delete_def
      list_all_delete)

lemma storeInvariant_carts: "carts w' = carts w \<Longrightarrow> storeInvariant w \<Longrightarrow> storeInvariant w'"
  by (simp add: storeInvariant_def)

lemma frameOpen_frameInvariant: "frameOpen s \<Longrightarrow> frameInvariant s"
  by (simp add: frameOpen_def frameInvariant_def resultIffCompleted_def)

text \<open>Steps that keep the invariant of a frame.\<close>

lemma frameInvariant_assign:
  assumes "\<And>c. resultIffCompleted c \<Longrightarrow> resultIffCompleted (f c)"
  shows "keeps frameInvariant (assign uid f)"
  by (rule keeps_assign) (simp add: frameInvariant_def storeInvariant_map_entry assms)

lemma frameInvariant_update: "keeps frameInvariant (CartStore_update env uid)"
  by (rule keeps_update)
    (simp add: frameInvariant_def storeInvariant_update resultIffCompleted_def)

lemma frameInvariant_sync: "keeps frameInvariant (syncToExternalProvider env uid)"
  unfolding syncToExternalProvider_def
proof (intro keeps_catch)
  show "keeps frameInvariant (syncSteps env uid)"
    by (rule keeps_syncSteps(3))
      (auto simp: frameInvariant_def resultIffCompleted_def
        intro: storeInvariant_carts storeInvariant_map_entry)
  show "keeps frameInvariant (assign uid (\<lambda>c. c\<lparr>syncStatus := SYNC_PENDING,
          lastSyncError := Some (errorMessage e)\<rparr>))" for e
    by (rule frameInvariant_assign) (simp add: resultIffCompleted_def)
qed

text \<open>From a frame to the world.\<close>

lemma keeps_withCart:
  assumes "keeps frameInvariant m"
  shows "triple (\<lambda>w. storeInvariant w \<and> resultIffCompleted cart) (withCart cart m)
           (\<lambda>_. storeInvariant) (\<lambda>_. storeInvariant)"
  unfolding triple_def withCart_def
proof (intro allI impI)
  fix w :: "'a world"
  assume "storeInvariant w \<and> resultIffCompleted cart"
  then have "frameInvariant (cart, w)" by (simp add: frameInvariant_def)
  from keepsD [OF assms this] have "storeInvariant (snd (snd (m (cart, w))))"
    by (simp add: frameInvariant_def)
  then show "case (case m (cart, w) of (r, (c, w')) \<Rightarrow> (r, w')) of
           (Inl e, s') \<Rightarrow> storeInvariant s' | (Inr v, s') \<Rightarrow> storeInvariant s'"
    by (auto split: prod.splits sum.splits)
qed

lemma getCart_invariant:
  "triple storeInvariant (CartService_getCart env uid)
     (\<lambda>cart w. storeInvariant w \<and> resultIffCompleted cart) (\<lambda>_. storeInvariant)"
  unfolding triple_def
proof (intro allI impI)
  fix w :: "'a world"
  assume inv: "storeInvariant w"
  show "case CartService_getCart env uid w of
          (Inl e, s') \<Rightarrow> storeInvariant s'
        | (Inr cart, s') \<Rightarrow> storeInvariant s' \<and> resultIffCompleted cart"
  proof (cases "map_of (carts w) uid")
    case None
    with inv show ?thesis
      by (simp add: CartService_getCart_def Promise_then_def CartStore_get_def CartStore_set_def
          resolve_def storeInvariant_update createNewCart_def resultIffCompleted_def Let_def)
  next
    case (Some cart)
    with inv have "resultIffCompleted cart" by (simp add: storeInvariant_lookup)
    with inv Some show ?thesis
      by (simp add: CartService_getCart_def Promise_then_def CartStore_get_def withCart_apply
          now_apply assign_apply CartStore_update_apply theCart_apply update_map_entry
          storeInvariant_update resultIffCompleted_def)
  qed
qed


text \<open>The cart operations keep the invariant of the store.\<close>

lemma keeps_after_getCart:
  assumes "\<And>cart. keeps frameInvariant (m cart)"
  shows "keeps storeInvariant (Promise_then (CartService_getCart env uid) (\<lambda>cart. withCart cart (m cart)))"
  unfolding keeps_def
  by (rule triple_then [OF getCart_invariant]) (rule keeps_withCart [OF assms])

lemma mutation_tail_invariant:
  assumes "\<And>c. resultIffCompleted c \<Longrightarrow> resultIffCompleted (f c)"
  shows "keeps frameInvariant
     (Promise_then (assign uid f) (\<lambda>_.
      Promise_then (CartStore_update env uid) (\<lambda>_.
      Promise_then (syncToExternalProvider env uid) (\<lambda>_. theCart))))"
  by (intro keeps_then keeps_theCart frameInvariant_sync frameInvariant_update
      frameInvariant_assign assms)

lemma addItemTask_invariant: "keeps storeInvariant (addItemTask env uid item)"
  unfolding addItemTask_def
  by (intro keeps_then keeps_fromResult keeps_after_getCart mutation_tail_invariant)
    (simp add: addItemLocally_def resultIffCompleted_def split: option.splits)

lemma updateItemQuantityTask_invariant: "keeps storeInvariant (updateItemQuantityTask env uid pid q)"
  unfolding updateItemQuantityTask_def
  by (intro keeps_then keeps_fromResult keeps_after_getCart keeps_case_option keeps_throw
      mutation_tail_invariant)
    (simp add: setQuantityLocally_def resultIffCompleted_def)

lemma removeItemTask_invariant: "keeps storeInvariant (removeItemTask env uid pid)"
  unfolding removeItemTask_def
  by (intro keeps_after_getCart keeps_case_option keeps_throw mutation_tail_invariant)
    (simp add: removeLocally_def resultIffCompleted_def)

lemma setTaxContextTask_invariant: "keeps storeInvariant (setTaxContextTask env uid tc)"
  unfolding setTaxContextTask_def
proof (rule keeps_after_getCart)
  show "keeps frameInvariant
     (Promise_then (assign uid (\<lambda>c. c\<lparr>taxContext := Some tc\<rparr>)) (\<lambda>_.
      Promise_then (CartStore_update env uid) (\<lambda>_. theCart)))" for cart :: Cart
    by (intro keeps_then keeps_theCart frameInvariant_update frameInvariant_assign)
      (simp add: resultIffCompleted_def)
qed

lemma getSummary_invariant: "keeps storeInvariant (CartService_getSummary env uid)"
  unfolding CartService_getSummary_def
  by (intro keeps_after_getCart keeps_then keeps_calculateTax keeps_resolve)

lemma getCart_keeps: "keeps storeInvariant (CartService_getCart env uid)"
  unfolding keeps_def by (rule triple_weaken [OF getCart_invariant]) simp_all

lemma clearCartTask_invariant: "keeps storeInvariant (clearCartTask env uid)"
  unfolding keeps_def triple_def
proof (intro allI impI)
  fix w :: "'a world"
  assume inv: "storeInvariant w"
  show "case clearCartTask env uid w of
          (Inl e, s') \<Rightarrow> storeInvariant s' | (Inr v, s') \<Rightarrow> storeInvariant s'"
  proof (cases "map_of (carts w) uid")
    case None
    with inv show ?thesis
      by (simp add: clearCartTask_def Promise_then_def CartStore_get_def throw_def)
  next
    case (Some cart)
    with inv have "resultIffCompleted cart" by (simp add: storeInvariant_lookup)
    with inv Some show ?thesis
      by (simp add: clearCartTask_def Promise_then_def CartStore_get_def withCart_apply
          assign_apply CartStore_update_apply update_map_entry storeInvariant_update
          storeInvariant_delete resultIffCompleted_def)
  qed
qed


text \<open>Checkout keeps the invariant of the store.\<close>

lemma frameOpen_assign:
  assumes "\<And>c. checkoutResult (f c) = checkoutResult c"
    and "\<And>c. checkoutStatus (f c) \<noteq> COMPLETED"
  shows "keeps frameOpen (assign uid f)"
  by (rule keeps_assign)
    (simp add: frameOpen_def storeInvariant_map_entry resultIffCompleted_def assms)

lemma frameOpen_update: "keeps frameOpen (CartStore_update env uid)"
  by (rule keeps_update)
    (simp add: frameOpen_def storeInvariant_update resultIffCompleted_def)

lemma frameOpen_createAndSyncContext: "keeps frameOpen (createAndSyncContext env uid)"
  by (rule keeps_syncSteps(2))
    (auto simp: frameOpen_def resultIffCompleted_def
      intro: storeInvariant_carts storeInvariant_map_entry)

lemma frameOpen_callProvider: "keeps frameOpen (inWorld (callProvider call f))"
  by (rule keeps_callProvider) (auto simp: frameOpen_def intro: storeInvariant_carts)

lemma providerCheckoutFailed_invariant:
  "triple frameOpen (providerCheckoutFailed env uid taxResult providerResult)
     (\<lambda>_ s. storeInvariant (snd s)) (\<lambda>_. frameOpen)"
  by (simp add: triple_def providerCheckoutFailed_def Promise_then_def assign_apply
      CartStore_update_apply theCart_apply resolve_apply update_map_entry frameOpen_def
      storeInvariant_update resultIffCompleted_def)

lemma completion_invariant:
  "triple frameOpen
     (Promise_then (markCompleted env uid result) (\<lambda>_.
      Promise_then (cleanup env uid) (\<lambda>_. resolve result)))
     (\<lambda>_ s. storeInvariant (snd s)) (\<lambda>_. frameOpen)"
  by (simp add: triple_def Promise_then_def markCompleted_apply cleanup_apply resolve_apply
      frameOpen_def storeInvariant_update storeInvariant_delete resultIffCompleted_def
      split: option.splits)

lemma checkoutSteps_invariant:
  "triple frameOpen (checkoutSteps env uid) (\<lambda>_ s. storeInvariant (snd s)) (\<lambda>_. frameOpen)"
  unfolding checkoutSteps_def
  by (intro triple_then_keeps keeps_now keeps_theCart keeps_fromResult keeps_calculateTax
      frameOpen_update frameOpen_createAndSyncContext frameOpen_callProvider frameOpen_assign)
    (simp_all add: providerCheckoutFailed_invariant completion_invariant)

lemma checkoutRollback_invariant:
  "triple frameOpen (checkoutRollback env uid err)
     (\<lambda>_ s. storeInvariant (snd s)) (\<lambda>_ s. storeInvariant (snd s))"
  by (simp add: triple_def checkoutRollback_def Promise_then_def assign_apply
      CartStore_update_apply theCart_apply resolve_apply update_map_entry frameOpen_def
      calculateTax_def Let_def storeInvariant_update resultIffCompleted_def split: sum.splits)

lemma checkoutRun_invariant:
  "triple frameOpen (Promise_catch (checkoutSteps env uid) (checkoutRollback env uid))
     (\<lambda>_ s. storeInvariant (snd s)) (\<lambda>_ s. storeInvariant (snd s))"
  by (rule triple_catch [OF checkoutSteps_invariant]) (rule checkoutRollback_invariant)

lemma checkoutTask_invariant: "keeps storeInvariant (checkoutTask env uid)"
  unfolding keeps_def triple_def
proof (intro allI impI)
  fix w :: "'a world"
  assume inv: "storeInvariant w"
  show "case checkoutTask env uid w of
          (Inl e, s') \<Rightarrow> storeInvariant s' | (Inr v, s') \<Rightarrow> storeInvariant s'"
  proof (cases "map_of (carts w) uid")
    case None
    with inv show ?thesis by (simp add: checkoutTask_not_found)
  next
    case (Some cart)
    show ?thesis
    proof (cases "checkoutStatus cart = COMPLETED")
      case True
      with Some inv show ?thesis by (simp add: checkoutTask_completed)
    next
      case notCompleted: False
      show ?thesis
      proof (cases "checkoutStatus cart = IN_PROGRESS
          \<and> elapsedLess (checkoutElapsed env w cart) 60000")
        case True
        with Some inv show ?thesis by (simp add: checkoutTask_in_progress)
      next
        case notFresh: False
        from inv Some have "resultIffCompleted cart" by (rule storeInvariant_lookup)
        with notCompleted inv have start: "frameOpen (cart, w)"
          by (simp add: frameOpen_def resultIffCompleted_def)
        have "storeInvariant (snd (snd
            (Promise_catch (checkoutSteps env uid) (checkoutRollback env uid) (cart, w))))"
        proof -
          obtain r c' w' where run:
            "Promise_catch (checkoutSteps env uid) (checkoutRollback env uid) (cart, w)
              = (r, c', w')"
            by (metis prod_cases3)
          from checkoutRun_invariant [of env uid]
          have "frameOpen (cart, w) \<longrightarrow>
            (case Promise_catch (checkoutSteps env uid) (checkoutRollback env uid) (cart, w) of
               (Inl e, s') \<Rightarrow> storeInvariant (snd s')
             | (Inr v, s') \<Rightarrow> storeInvariant (snd s'))"
            unfolding triple_def by (rule spec)
          with start run show ?thesis by (cases r) simp_all
        qed
        with checkoutTask_proceeds [OF Some notCompleted notFresh] inv show ?thesis
          by (auto simp: withCart_apply split: prod.splits sum.splits)
      qed
    qed
  qed
qed

text \<open>The sweeper keeps the invariant of the store.\<close>

lemma sweepCart_invariant:
  "storeInvariant w \<Longrightarrow> resultIffCompleted (snd entry) \<Longrightarrow> storeInvariant (sweepCart t entry w)"
  by (auto simp: sweepCart_def Let_def storeInvariant_delete storeInvariant_update
      resultIffCompleted_def)

lemma sweep_invariant:
  "storeInvariant w \<Longrightarrow> \<forall>entry \<in> set es. resultIffCompleted (snd entry) \<Longrightarrow>
   storeInvariant (foldl (\<lambda>w' entry. sweepCart t entry w') w es)"
  by (induction es arbitrary: w) (simp_all add: sweepCart_invariant)

lemma runCleanup_invariant: "storeInvariant w \<Longrightarrow> storeInvariant (runCleanup env w)"
proof -
  assume inv: "storeInvariant w"
  then have "\<forall>entry \<in> set (carts w). resultIffCompleted (snd entry)"
    by (simp add: storeInvariant_def list_all_iff)
  from sweep_invariant [OF inv this] have "storeInvariant (cleanupExpiredCarts env w)"
    by (simp add: cleanupExpiredCarts_def)
  then show ?thesis
    by (simp add: runCleanup_def storeInvariant_def cleanupExpiredContexts_carts)
qed

lemma reachable_invariant: "w \<in> reachable env \<Longrightarrow> storeInvariant w"
proof (induction rule: reachable.induct)
  case (initial w)
  then show ?case by (simp add: storeInvariant_def)
next
  case (outside w p)
  then show ?case by (simp add: storeInvariant_def)
next
  case (getCart w uid)
  with keepsD [OF getCart_keeps] show ?case by blast
next
  case (getSummary w uid)
  with keepsD [OF getSummary_invariant] show ?case by blast
next
  case (addItem w uid item)
  with keepsD [OF addItemTask_invariant] show ?case by blast
next
  case (updateItemQuantity w uid pid q)
  with keepsD [OF updateItemQuantityTask_invariant] show ?case by blast
next
  case (removeItem w uid pid)
  with keepsD [OF removeItemTask_invariant] show ?case by blast
next
  case (clearCart w uid)
  with keepsD [OF clearCartTask_invariant] show ?case by blast
next
  case (setTaxContext w uid tc)
  with keepsD [OF setTaxContextTask_invariant] show ?case by blast
next
  case (checkout w uid)
  with keepsD [OF checkoutTask_invariant] show ?case by blast
next
  case (sweep w)
  then show ?case by (simp add: runCleanup_invariant)
qed

lemma run_addItem_cleanup_fails: "addItemTask envCleanupFails ''user1'' phone w0 = (Inr phoneCart, wPhone)"
  by (simp add: addItemTask_def run_defs envCleanupFails_fields w0_def initialWorld_def phone_fields
     phoneCart_def wPhone_def ctx0_def sfCart0_def showInt_values del: showInt.simps)

lemma wCompleted_reachable: "wCompleted \<in> reachable envCleanupFails"
proof -
  have "w0 \<in> reachable envCleanupFails"
    by (rule reachable.initial) (simp add: w0_def initialWorld_def)
  then have "snd (addItemTask envCleanupFails ''user1'' phone w0) \<in> reachable envCleanupFails"
    by (rule reachable.addItem)
  then have "wPhone \<in> reachable envCleanupFails" by (simp add: run_addItem_cleanup_fails)
  then have "snd (checkoutTask envCleanupFails ''user1'' wPhone) \<in> reachable envCleanupFails"
    by (rule reachable.checkout)
  then show ?thesis by (simp add: run_checkout_cleanup_fails)
qed

text \<open>
  C8. In every state the service can reach from an empty store (through its public
  operations, the sweeper, and arbitrary changes of the external systems), a stored cart
  carries a checkout result exactly when its checkout status is \<open>COMPLETED\<close>. A newly
  created cart has no result and status \<open>PENDING\<close>; a successful checkout sets the result
  and the completed status in the same step (\<^const>\<open>markCompleted\<close>).
\<close>

theorem C8_result_iff_completed:
  assumes "w \<in> reachable env" and "map_of (carts w) uid = Some cart"
  shows "(checkoutResult cart \<noteq> None \<longleftrightarrow> checkoutStatus cart = COMPLETED)
       \<and> checkoutResult (createNewCart env uid' w') = None
       \<and> checkoutStatus (createNewCart env uid' w') = PENDING
       \<and> checkoutStatus (fst (snd (markCompleted env uid result s))) = COMPLETED
       \<and> checkoutResult (fst (snd (markCompleted env uid result s))) = Some result"
proof -
  from reachable_invariant [OF assms(1)] assms(2) have "resultIffCompleted cart"
    by (rule storeInvariant_lookup)
  moreover obtain c v where "s = (c, v)" by (cases s)
  ultimately show ?thesis
    by (simp add: resultIffCompleted_def createNewCart_def Let_def markCompleted_apply)
qed

theorem C8_result_iff_completed_witness:
  "(checkoutResult completedCart \<noteq> None \<longleftrightarrow> checkoutStatus completedCart = COMPLETED)
   \<and> checkoutResult (createNewCart envCleanupFails ''user1'' w0) = None
   \<and> checkoutStatus (createNewCart envCleanupFails ''user1'' w0) = PENDING
   \<and> checkoutStatus (fst (snd (markCompleted envCleanupFails ''user1'' phoneOrder (phoneCart, wPhone)))) = COMPLETED
   \<and> checkoutResult (fst (snd (markCompleted envCleanupFails ''user1'' phoneOrder (phoneCart, wPhone)))) = Some phoneOrder"
proof -
  have "map_of (carts wCompleted) ''user1'' = Some completedCart"
    by (simp add: wCompleted_def)
  from C8_result_iff_completed [OF wCompleted_reachable this] show ?thesis .
qed
section \<open>The tax scenario\<close>

lemma seeded_CA_ON:
  "ratesGet seedInitialRates ''CA-ON'' =
     [mkRate ''ca-on-hst'' ''CA-ON'' ''HST'' (13 / 100) allProductTypes 1277942400000]"
  by (simp add: seedInitialRates_def canadianRates_def usRates_def seedRate_def ratesGet_def mkRate_def)

lemma itemType_applicable: "itemType item \<in> set allProductTypes"
  by (cases "itemType item") (simp_all add: allProductTypes_def)

lemma isExempt_no_exemptions: "exemptions ts = [] \<Longrightarrow> \<not> isExempt ts t c j"
  by (simp add: isExempt_def)

lemma ontario_calc:
  assumes "tc_jurisdiction context = ''CA-ON''" and "1277942400000 \<le> tc_calculationDate context"
  shows "CanadianTaxCalculator_calculate seedInitialRates its context =
    \<lparr>subtotal = calculateSubtotal its,
     taxes = [\<lparr>tb_jurisdiction = ''CA-ON'', tb_taxName = ''HST'', tb_rate = 13 / 100,
               tb_taxableAmount = calculateSubtotal its, tb_taxAmount = calculateSubtotal its * (13 / 100)\<rparr>],
     totalTax = calculateSubtotal its * (13 / 100),
     total = calculateSubtotal its + calculateSubtotal its * (13 / 100)\<rparr>"
proof -
  have f: "filter (\<lambda>item. itemType item \<in> set allProductTypes) its = its"
    by (simp add: itemType_applicable)
  show ?thesis using assms
    by (simp add: CanadianTaxCalculator_calculate_def getRatesAtDate_def seeded_CA_ON mkRate_def
        calculateTaxableAmount_def calculateSubtotal_def breakdown_def f Let_def)
qed

text \<open>
  C9. A cart of two line items of quantity 1 priced 999.99 and 79.99, under the jurisdiction
  CA-ON at a date on which the seeded HST rate of 13% is in force (from 2010-07-01): the
  subtotal is 1079.98, the total tax is 140.3974, which is 140.40 rounded to cents, and the
  total is 1220.3774, which is 1220.38 rounded to cents. The tax service of the
  application returns the result of the Canadian calculator.
\<close>

theorem C9_ontario_two_items:
  assumes "its = [a, b]"
    and "price a = 99999 / 100" and "quantity a = 1"
    and "price b = 7999 / 100" and "quantity b = 1"
    and "tc_jurisdiction context = ''CA-ON''"
    and "1277942400000 \<le> tc_calculationDate context"
  shows "subtotal (CanadianTaxCalculator_calculate seedInitialRates its context) = 107998 / 100
       \<and> totalTax (CanadianTaxCalculator_calculate seedInitialRates its context) = 1403974 / 10000
       \<and> roundToTwoDecimals (totalTax (CanadianTaxCalculator_calculate seedInitialRates its context)) = 14040 / 100
       \<and> total (CanadianTaxCalculator_calculate seedInitialRates its context) = 12203774 / 10000
       \<and> roundToTwoDecimals (total (CanadianTaxCalculator_calculate seedInitialRates its context)) = 122038 / 100
       \<and> map tb_rate (taxes (CanadianTaxCalculator_calculate seedInitialRates its context)) = [13 / 100]
       \<and> TaxService_calculateTax newTaxService t its context =
           CanadianTaxCalculator_calculate seedInitialRates its context"
proof -
  have s: "calculateSubtotal its = 107998 / 100"
    using assms(1-5) by (simp add: calculateSubtotal_def)
  have c: "CanadianTaxCalculator_calculate seedInitialRates its context =
    \<lparr>subtotal = 107998 / 100,
     taxes = [\<lparr>tb_jurisdiction = ''CA-ON'', tb_taxName = ''HST'', tb_rate = 13 / 100,
               tb_taxableAmount = 107998 / 100, tb_taxAmount = 107998 / 100 * (13 / 100)\<rparr>],
     totalTax = 107998 / 100 * (13 / 100),
     total = 107998 / 100 + 107998 / 100 * (13 / 100)\<rparr>"
    using ontario_calc [OF assms(6,7), of its] by (simp add: s)
  have r1: "roundToTwoDecimals (1403974 / 10000) = 14040 / 100"
    by (simp add: roundToTwoDecimals_def floor_eq_iff)
  have r2: "roundToTwoDecimals (12203774 / 10000) = 122038 / 100"
    by (simp add: roundToTwoDecimals_def floor_eq_iff)
  have t: "TaxService_calculateTax newTaxService t its context =
           CanadianTaxCalculator_calculate seedInitialRates its context"
    using assms(6)
    by (simp add: TaxService_calculateTax_def isExempt_no_exemptions canadianProvinces_def
        newTaxService_def split: option.splits)
  show ?thesis unfolding t c using r1 r2 by simp
qed

theorem C9_ontario_two_items_witness:
  "subtotal (CanadianTaxCalculator_calculate seedInitialRates [phone, plan]
       \<lparr>tc_jurisdiction = ''CA-ON'', tc_customerId = None, tc_calculationDate = 1793664000000\<rparr>) = 107998 / 100
   \<and> roundToTwoDecimals (totalTax (CanadianTaxCalculator_calculate seedInitialRates [phone, plan]
       \<lparr>tc_jurisdiction = ''CA-ON'', tc_customerId = None, tc_calculationDate = 1793664000000\<rparr>)) = 14040 / 100
   \<and> roundToTwoDecimals (total (CanadianTaxCalculator_calculate seedInitialRates [phone, plan]
       \<lparr>tc_jurisdiction = ''CA-ON'', tc_customerId = None, tc_calculationDate = 1793664000000\<rparr>)) = 122038 / 100"
  using C9_ontario_two_items [of "[phone, plan]" phone plan
      "\<lparr>tc_jurisdiction = ''CA-ON'', tc_customerId = None, tc_calculationDate = 1793664000000\<rparr>" 0]
  by (simp add: phone_def plan_def)

end
